(* ===== verification/Prelude.thy ===== *)
theory Prelude
  imports Main "HOL-Library.Sublist"
begin

text \<open>
  Shared vocabulary of the storefront model: the product record of the catalog
  (spec section 3), the JavaScript string and number helpers the services call
  (\<open>String.prototype.trim\<close>, \<open>toLowerCase\<close>, \<open>includes\<close>, \<open>split\<close>,
  \<open>replace(/"/g, '')\<close>, \<open>parseInt\<close>), and the browser's \<open>localStorage\<close>
  with the JSON values the services write into it. Strings are byte lists
  (\<open>char\<close> is a byte), so the ASCII part of the JavaScript behaviour is modelled
  exactly; case folding and trimming of non-ASCII characters are not modelled.
\<close>

named_theorems js_simps "evaluation equations of the JavaScript runtime helpers"

section \<open>Products\<close>

type_synonym product_id = int

text \<open>One catalog record: the object \<open>csvToJson\<close> builds from a CSV row
  (googleSheetsService.js) with the columns the spec requires.\<close>

record product =
  pid :: product_id
  pname :: string
  category :: string
  price :: int
  description :: string
  image_url :: string
  stock :: int
  featured :: bool

section \<open>Strings\<close>

definition dquote :: char where
  "dquote = CHR 0x22"

definition js_space :: "char \<Rightarrow> bool" where
  "js_space c \<longleftrightarrow> c \<in> {CHR 0x20, CHR 0x09, CHR 0x0A, CHR 0x0B, CHR 0x0C, CHR 0x0D}"

text \<open>\<open>s.trim()\<close>: drops white space at both ends.\<close>

definition js_trim :: "string \<Rightarrow> string" where
  "js_trim s = rev (dropWhile js_space (rev (dropWhile js_space s)))"

text \<open>\<open>s.replace(/"/g, '')\<close>: every double quote removed.\<close>

definition strip_quotes :: "string \<Rightarrow> string" where
  "strip_quotes s = filter (\<lambda>c. c \<noteq> dquote) s"

definition ascii_lower :: "char \<Rightarrow> char" where
  "ascii_lower c = (let n = (of_char c :: nat) in if 65 \<le> n \<and> n \<le> 90 then char_of (n + 32) else c)"

text \<open>\<open>s.toLowerCase()\<close> on the ASCII letters.\<close>

definition to_lower :: "string \<Rightarrow> string" where
  "to_lower s = map ascii_lower s"

text \<open>\<open>hay.includes(needle)\<close>: a contiguous occurrence.\<close>

definition js_includes :: "string \<Rightarrow> string \<Rightarrow> bool" where
  "js_includes hay needle \<longleftrightarrow> sublist needle hay"

text \<open>\<open>s.split(d)\<close> for a one-character separator: the pieces between separators,
  always at least one (the empty string splits into one empty piece).\<close>

fun split_acc :: "char \<Rightarrow> string \<Rightarrow> string \<Rightarrow> string list" where
  "split_acc d cur [] = [cur]"
| "split_acc d cur (c # cs) =
     (if c = d then cur # split_acc d [] cs else split_acc d (cur @ [c]) cs)"

definition split_on :: "char \<Rightarrow> string \<Rightarrow> string list" where
  "split_on d s = split_acc d [] s"

section \<open>parseInt\<close>

definition dec_digit :: "char \<Rightarrow> bool" where
  "dec_digit c \<longleftrightarrow> (48::nat) \<le> of_char c \<and> of_char c \<le> (57::nat)"

definition hex_value :: "char \<Rightarrow> nat option" where
  "hex_value c = (let n = (of_char c :: nat) in
     if 48 \<le> n \<and> n \<le> 57 then Some (n - 48)
     else if 97 \<le> n \<and> n \<le> 102 then Some (n - 87)
     else if 65 \<le> n \<and> n \<le> 70 then Some (n - 55)
     else None)"

definition hex_digit :: "char \<Rightarrow> bool" where
  "hex_digit c \<longleftrightarrow> hex_value c \<noteq> None"

definition digit_value :: "char \<Rightarrow> nat" where
  "digit_value c = (case hex_value c of Some v \<Rightarrow> v | None \<Rightarrow> 0)"

definition digits_value :: "nat \<Rightarrow> string \<Rightarrow> nat" where
  "digits_value b ds = foldl (\<lambda>acc c. acc * b + digit_value c) 0 ds"

text \<open>\<open>parseInt(s)\<close> without a radix: leading white space, an optional sign, a
  \<open>0x\<close>/\<open>0X\<close> prefix selecting base 16, then the longest run of digits; no digit
  at all is \<open>NaN\<close>, here \<open>None\<close>.\<close>

definition parse_unsigned :: "string \<Rightarrow> nat option" where
  "parse_unsigned s =
     (case s of
        c0 # c1 # r \<Rightarrow>
          if c0 = CHR ''0'' \<and> (c1 = CHR ''x'' \<or> c1 = CHR ''X'') then
            (let ds = takeWhile hex_digit r in
             if ds = [] then None else Some (digits_value 16 ds))
          else (let ds = takeWhile dec_digit s in
                if ds = [] then None else Some (digits_value 10 ds))
      | _ \<Rightarrow> (let ds = takeWhile dec_digit s in
              if ds = [] then None else Some (digits_value 10 ds)))"

definition js_parseInt :: "string \<Rightarrow> int option" where
  "js_parseInt s =
     (case dropWhile js_space s of
        c # r \<Rightarrow>
          if c = CHR ''-'' then map_option (\<lambda>n. - int n) (parse_unsigned r)
          else if c = CHR ''+'' then map_option int (parse_unsigned r)
          else map_option int (parse_unsigned (c # r))
      | [] \<Rightarrow> None)"

text \<open>\<open>parseInt(s) || 0\<close>: \<open>NaN\<close> (and \<open>-0\<close>) become \<open>0\<close>.\<close>

definition int_or_zero :: "string \<Rightarrow> int" where
  "int_or_zero s = (case js_parseInt s of Some n \<Rightarrow> n | None \<Rightarrow> 0)"

section \<open>localStorage and JSON\<close>

text \<open>JSON values as \<open>JSON.stringify\<close> writes them and \<open>JSON.parse\<close> reads them
  back. Numbers are the integers the services store (ids, prices, quantities,
  timestamps).\<close>

datatype json = JNull | JBool bool | JNum int | JStr string | JArr "json list"
  | JObj "(string \<times> json) list"

text \<open>The text held in a storage slot, seen through \<open>JSON.parse\<close>: the text of a
  JSON value, the empty string (falsy in JavaScript), or any other text, on which
  \<open>JSON.parse\<close> throws.\<close>

datatype slot_text = JsonText json | EmptyText | GarbageText

record storage =
  slots :: "string \<Rightarrow> slot_text option"
  readable :: bool
  writable :: bool

datatype storage_error = SecurityError | QuotaExceeded

text \<open>\<open>localStorage.getItem\<close>, \<open>setItem\<close>, \<open>removeItem\<close>: access denied throws
  a \<open>SecurityError\<close>; a write beyond the quota throws \<open>QuotaExceededError\<close>.\<close>

definition get_item :: "string \<Rightarrow> storage \<Rightarrow> storage_error + slot_text option" where
  "get_item k s = (if readable s then Inr (slots s k) else Inl SecurityError)"

definition set_item :: "string \<Rightarrow> slot_text \<Rightarrow> storage \<Rightarrow> storage_error + storage" where
  "set_item k v s =
     (if \<not> readable s then Inl SecurityError
      else if \<not> writable s then Inl QuotaExceeded
      else Inr (s\<lparr>slots := (slots s)(k \<mapsto> v)\<rparr>))"

definition remove_item :: "string \<Rightarrow> storage \<Rightarrow> storage_error + storage" where
  "remove_item k s =
     (if readable s then Inr (s\<lparr>slots := (slots s)(k := None)\<rparr>) else Inl SecurityError)"

text \<open>\<open>JSON.parse\<close>: \<open>None\<close> is the \<open>SyntaxError\<close> it throws.\<close>

fun json_parse :: "slot_text \<Rightarrow> json option" where
  "json_parse (JsonText j) = Some j"
| "json_parse EmptyText = None"
| "json_parse GarbageText = None"

text \<open>\<open>obj.k\<close> on a parsed object; \<open>JSON.parse\<close> keeps the last of duplicate keys.\<close>

fun json_field :: "string \<Rightarrow> json \<Rightarrow> json option" where
  "json_field k (JObj kvs) = map_of (rev kvs) k"
| "json_field k _ = None"

fun json_int :: "json option \<Rightarrow> int option" where
  "json_int (Some (JNum n)) = Some n"
| "json_int _ = None"

fun json_str :: "json option \<Rightarrow> string option" where
  "json_str (Some (JStr t)) = Some t"
| "json_str _ = None"

fun json_bool :: "json option \<Rightarrow> bool option" where
  "json_bool (Some (JBool b)) = Some b"
| "json_bool _ = None"

section \<open>Text building\<close>

text \<open>A string literal of the source with non-ASCII text, given by its UTF-8 bytes.\<close>

definition utf8 :: "nat list \<Rightarrow> string" where
  "utf8 bs = map char_of bs"

text \<open>\<open>String(n)\<close> / \<open>`${n}`\<close> for a natural number.\<close>

fun nat_to_dec :: "nat \<Rightarrow> string" where
  "nat_to_dec n = (if n < 10 then [char_of (48 + n)] else nat_to_dec (n div 10) @ [char_of (48 + n mod 10)])"

definition int_to_dec :: "int \<Rightarrow> string" where
  "int_to_dec i = (if i < 0 then CHR ''-'' # nat_to_dec (nat (- i)) else nat_to_dec (nat i))"

definition hex_upper :: "nat \<Rightarrow> char" where
  "hex_upper d = (if d < 10 then char_of (48 + d) else char_of (55 + d))"

definition uri_unreserved :: "char \<Rightarrow> bool" where
  "uri_unreserved c \<longleftrightarrow> (let n = (of_char c :: nat) in
     (65 \<le> n \<and> n \<le> 90) \<or> (97 \<le> n \<and> n \<le> 122) \<or> (48 \<le> n \<and> n \<le> 57)
     \<or> c \<in> set ''-_.!~*()'' \<or> n = 39)"

text \<open>\<open>encodeURIComponent\<close> on the UTF-8 bytes of a string: unreserved characters
  stay, every other byte becomes \<open>%XX\<close>.\<close>

definition encodeURIComponent :: "string \<Rightarrow> string" where
  "encodeURIComponent s = concat (map (\<lambda>c. if uri_unreserved c then [c]
      else [CHR ''%'', hex_upper (of_char c div 16), hex_upper (of_char c mod 16)]) s)"

section \<open>Shared lemmas\<close>

lemma split_acc_nonempty [simp]: "split_acc d cur s \<noteq> []"
  by (induction s arbitrary: cur) auto

lemma split_on_nonempty [simp]: "split_on d s \<noteq> []"
  by (simp add: split_on_def)

lemma get_set_item_same [simp]:
  "set_item k v s = Inr s' \<Longrightarrow> get_item k s' = Inr (Some v)"
  by (auto simp: set_item_def get_item_def split: if_splits)

lemma get_set_item_other:
  "set_item k v s = Inr s' \<Longrightarrow> k' \<noteq> k \<Longrightarrow> get_item k' s' = get_item k' s"
  by (auto simp: set_item_def get_item_def split: if_splits)

lemma set_item_ok_iff [simp]:
  "(\<exists>s'. set_item k v s = Inr s') \<longleftrightarrow> readable s \<and> writable s"
  by (simp add: set_item_def)

lemma set_item_flags:
  "set_item k v s = Inr s' \<Longrightarrow> readable s' = readable s \<and> writable s' = writable s"
  by (auto simp: set_item_def split: if_splits)

lemma remove_item_flags:
  "remove_item k s = Inr s' \<Longrightarrow> readable s' = readable s \<and> writable s' = writable s"
  by (auto simp: remove_item_def split: if_splits)

lemma find_None_iff': "find P xs = None \<longleftrightarrow> (\<forall>x\<in>set xs. \<not> P x)"
  by (induction xs) auto

lemma find_Some_in: "find P xs = Some x \<Longrightarrow> x \<in> set xs \<and> P x"
  by (induction xs) (auto split: if_splits)

lemma those_map_Some [simp]: "those (map Some xs) = Some xs"
  by (induction xs) auto

lemma foldl_add_sum_list:
  "foldl (\<lambda>t x. t + f x) a xs = a + sum_list (map f xs)"
  by (induction xs arbitrary: a) (simp_all add: algebra_simps)

lemma length_filter_distinct_le1:
  "distinct (map f xs) \<Longrightarrow> length (filter (\<lambda>x. f x = k) xs) \<le> 1"
  by (induction xs) (auto simp: filter_empty_conv image_iff)

declare nat_to_dec.simps [simp del]

lemma of_char_digit [simp]: "d < 10 \<Longrightarrow> (of_char (char_of (48 + d)) :: nat) = 48 + d"
  by simp

lemma dec_digit_char [simp]: "(d::nat) < 10 \<Longrightarrow> dec_digit (char_of (48 + d))"
  by (simp add: dec_digit_def)

lemma digit_value_char [simp]: "(d::nat) < 10 \<Longrightarrow> digit_value (char_of (48 + d)) = d"
  by (simp add: digit_value_def hex_value_def)

lemma digits_value_snoc: "digits_value b (xs @ [c]) = digits_value b xs * b + digit_value c"
  by (simp add: digits_value_def)

lemma nat_to_dec_digits: "\<forall>c\<in>set (nat_to_dec n). dec_digit c"
proof (induction n rule: nat_to_dec.induct)
  case (1 n)
  then show ?case by (subst nat_to_dec.simps) auto
qed

lemma nat_to_dec_value: "digits_value 10 (nat_to_dec n) = n"
proof (induction n rule: nat_to_dec.induct)
  case (1 n)
  show ?case
  proof (cases "n < 10")
    case True
    then show ?thesis by (subst nat_to_dec.simps) (simp add: digits_value_def)
  next
    case False
    with "1.IH" have "digits_value 10 (nat_to_dec (n div 10)) = n div 10" by simp
    then have "digits_value 10 (nat_to_dec n) = n div 10 * 10 + n mod 10"
      using False by (subst nat_to_dec.simps) (simp add: digits_value_snoc)
    then show ?thesis by simp
  qed
qed

lemma takeWhile_all: "\<forall>c\<in>set xs. P c \<Longrightarrow> takeWhile P xs = xs"
  by (induction xs) auto

lemma dec_digit_not_x: "dec_digit c \<Longrightarrow> c \<noteq> CHR ''x'' \<and> c \<noteq> CHR ''X''"
  by (auto simp: dec_digit_def)

lemma dec_digit_not_sign: "dec_digit c \<Longrightarrow> c \<noteq> CHR ''-'' \<and> c \<noteq> CHR ''+'' \<and> \<not> js_space c"
  by (auto simp: dec_digit_def js_space_def)

lemma nat_to_dec_ne [simp]: "nat_to_dec n \<noteq> []"
  by (subst nat_to_dec.simps) simp

lemma int_to_dec_ne [simp]: "int_to_dec i \<noteq> []"
  by (simp add: int_to_dec_def)

lemma parse_unsigned_dec: "parse_unsigned (nat_to_dec n) = Some n"
proof -
  have d: "\<forall>c\<in>set (nat_to_dec n). dec_digit c" by (rule nat_to_dec_digits)
  then have tw: "takeWhile dec_digit (nat_to_dec n) = nat_to_dec n" by (rule takeWhile_all)
  show ?thesis
  proof (cases "nat_to_dec n")
    case Nil
    then show ?thesis by simp
  next
    case (Cons c0 r0)
    show ?thesis
    proof (cases r0)
      case Nil
      with Cons tw nat_to_dec_value [of n] show ?thesis by (simp add: parse_unsigned_def)
    next
      case (Cons c1 r)
      with \<open>nat_to_dec n = c0 # r0\<close> d have "c1 \<noteq> CHR ''x'' \<and> c1 \<noteq> CHR ''X''"
        by (simp add: dec_digit_not_x)
      with Cons \<open>nat_to_dec n = c0 # r0\<close> tw nat_to_dec_value [of n] show ?thesis
        by (simp add: parse_unsigned_def)
    qed
  qed
qed

lemma parseInt_nat_to_dec: "js_parseInt (nat_to_dec n) = Some (int n)"
proof (cases "nat_to_dec n")
  case Nil
  then show ?thesis by simp
next
  case (Cons c r)
  with nat_to_dec_digits [of n] have "dec_digit c" by simp
  with Cons show ?thesis
    using parse_unsigned_dec [of n] by (simp add: js_parseInt_def dec_digit_not_sign)
qed

lemma parseInt_int_to_dec: "js_parseInt (int_to_dec i) = Some i"
proof (cases "i < 0")
  case True
  then have "js_parseInt (int_to_dec i) = Some (- int (nat (- i)))"
    using parse_unsigned_dec [of "nat (- i)"]
    by (simp add: int_to_dec_def js_parseInt_def js_space_def)
  with True show ?thesis by simp
next
  case False
  then show ?thesis by (simp add: int_to_dec_def parseInt_nat_to_dec)
qed

lemmas js_eval [js_simps] = js_trim_def strip_quotes_def to_lower_def ascii_lower_def
  js_space_def dquote_def split_on_def js_parseInt_def parse_unsigned_def int_or_zero_def
  dec_digit_def hex_digit_def hex_value_def digits_value_def digit_value_def
  js_includes_def char_of_eq_iff

end
