(* ===== verification/Cart.thy ===== *)
theory Cart
  imports Prelude
begin

text \<open>
  The cart store, \<open>CartService\<close> of src/src/services/cartService.js: an ordered
  list of line items held in memory and mirrored into the \<open>localStorage\<close> slot
  \<open>electronics_store_cart\<close> after every mutation. Each method is a function of
  the in-memory list and the storage, returning both updated; in-place mutation
  of the first matching item (\<open>find\<close> then \<open>+=\<close>) is the recursion that rewrites
  the first match. The operations are collected in the datatype \<open>cart_op\<close>, the
  interface through which the application state (AppState.thy) drives the cart.
\<close>

section \<open>Line items and their stored form\<close>

record cart_item =
  item_id :: product_id
  item_name :: string
  item_price :: int
  item_image_url :: string
  item_category :: string
  quantity :: int

type_synonym cart = "cart_item list"

definition STORAGE_KEY :: string where
  "STORAGE_KEY = ''electronics_store_cart''"

text \<open>\<open>JSON.stringify(this.cart)\<close>: an array of objects with the keys in the order
  \<open>addToCart\<close> creates them.\<close>

definition item_to_json :: "cart_item \<Rightarrow> json" where
  "item_to_json i = JObj [(''id'', JNum (item_id i)), (''name'', JStr (item_name i)),
     (''price'', JNum (item_price i)), (''image_url'', JStr (item_image_url i)),
     (''category'', JStr (item_category i)), (''quantity'', JNum (quantity i))]"

definition cart_to_json :: "cart \<Rightarrow> json" where
  "cart_to_json c = JArr (map item_to_json c)"

text \<open>Reading a stored value back as line items; a value of another shape is not a
  cart (the code would keep it as \<open>this.cart\<close> unchecked).\<close>

definition item_of_json :: "json \<Rightarrow> cart_item option" where
  "item_of_json j =
     (case (json_int (json_field ''id'' j), json_str (json_field ''name'' j),
            json_int (json_field ''price'' j), json_str (json_field ''image_url'' j),
            json_str (json_field ''category'' j), json_int (json_field ''quantity'' j)) of
        (Some i, Some n, Some p, Some u, Some c, Some q) \<Rightarrow>
          Some \<lparr>item_id = i, item_name = n, item_price = p, item_image_url = u,
                item_category = c, quantity = q\<rparr>
      | _ \<Rightarrow> None)"

fun cart_of_json :: "json \<Rightarrow> cart option" where
  "cart_of_json (JArr js) = those (map item_of_json js)"
| "cart_of_json _ = None"

section \<open>Persistence\<close>

datatype load_error = NotACart json

text \<open>\<open>loadCart\<close>: an absent or empty slot, an unparsable text and a storage
  that throws all give the empty cart (the \<open>catch\<close> returns \<open>[]\<close>). The code
  returns any other parsed value unchecked; the model returns a value that is not an
  array of cart items as \<open>NotACart\<close>, since a cart cannot hold it. Only a slot
  this application did not write holds one: \<open>saveCart\<close> writes well-formed items.\<close>

definition loadCart :: "storage \<Rightarrow> load_error + cart" where
  "loadCart s =
     (case get_item STORAGE_KEY s of
        Inl _ \<Rightarrow> Inr []
      | Inr None \<Rightarrow> Inr []
      | Inr (Some EmptyText) \<Rightarrow> Inr []
      | Inr (Some t) \<Rightarrow>
          (case json_parse t of
             None \<Rightarrow> Inr []
           | Some j \<Rightarrow> (case cart_of_json j of Some c \<Rightarrow> Inr c | None \<Rightarrow> Inl (NotACart j))))"

text \<open>\<open>saveCart\<close>: a failing write is caught and logged; the storage is left as
  it was.\<close>

definition saveCart :: "cart \<Rightarrow> storage \<Rightarrow> storage" where
  "saveCart c s =
     (case set_item STORAGE_KEY (JsonText (cart_to_json c)) s of Inl _ \<Rightarrow> s | Inr s' \<Rightarrow> s')"

section \<open>Mutations\<close>

definition new_item :: "product \<Rightarrow> int \<Rightarrow> cart_item" where
  "new_item p q = \<lparr>item_id = pid p, item_name = pname p, item_price = price p,
     item_image_url = image_url p, item_category = category p, quantity = q\<rparr>"

text \<open>\<open>existingItem.quantity += quantity\<close> on the item \<open>find\<close> returned: the
  first one with the id.\<close>

fun incr_first :: "product_id \<Rightarrow> int \<Rightarrow> cart \<Rightarrow> cart" where
  "incr_first k q [] = []"
| "incr_first k q (i # is) =
     (if item_id i = k then i\<lparr>quantity := quantity i + q\<rparr> # is else i # incr_first k q is)"

text \<open>\<open>item.quantity = quantity\<close> on the first item with the id.\<close>

fun set_first_qty :: "product_id \<Rightarrow> int \<Rightarrow> cart \<Rightarrow> cart" where
  "set_first_qty k q [] = []"
| "set_first_qty k q (i # is) =
     (if item_id i = k then i\<lparr>quantity := q\<rparr> # is else i # set_first_qty k q is)"

definition add_line :: "product \<Rightarrow> int \<Rightarrow> cart \<Rightarrow> cart" where
  "add_line p q c =
     (case find (\<lambda>i. item_id i = pid p) c of
        Some _ \<Rightarrow> incr_first (pid p) q c
      | None \<Rightarrow> c @ [new_item p q])"

definition addToCart :: "product \<Rightarrow> int \<Rightarrow> cart \<Rightarrow> storage \<Rightarrow> cart \<times> storage" where
  "addToCart p q c s = (let c' = add_line p q c in (c', saveCart c' s))"

definition removeFromCart :: "product_id \<Rightarrow> cart \<Rightarrow> storage \<Rightarrow> cart \<times> storage" where
  "removeFromCart k c s = (let c' = filter (\<lambda>i. item_id i \<noteq> k) c in (c', saveCart c' s))"

text \<open>\<open>updateQuantity\<close>: nothing happens, and nothing is saved, when the id is not
  in the cart; a quantity \<open>\<le> 0\<close> removes the item.\<close>

definition updateQuantity :: "product_id \<Rightarrow> int \<Rightarrow> cart \<Rightarrow> storage \<Rightarrow> cart \<times> storage" where
  "updateQuantity k q c s =
     (case find (\<lambda>i. item_id i = k) c of
        None \<Rightarrow> (c, s)
      | Some _ \<Rightarrow>
          if q \<le> 0 then removeFromCart k c s
          else (let c' = set_first_qty k q c in (c', saveCart c' s)))"

definition clearCart :: "cart \<Rightarrow> storage \<Rightarrow> cart \<times> storage" where
  "clearCart c s = ([], saveCart [] s)"

section \<open>Queries\<close>

text \<open>\<open>getCart()\<close>: the service's array itself.\<close>

definition getCart :: "cart \<Rightarrow> cart" where
  "getCart c = c"

definition getCartItemsCount :: "cart \<Rightarrow> int" where
  "getCartItemsCount c = foldl (\<lambda>t i. t + quantity i) 0 c"

definition getCartTotal :: "cart \<Rightarrow> int" where
  "getCartTotal c = foldl (\<lambda>t i. t + item_price i * quantity i) 0 c"

definition isInCart :: "product_id \<Rightarrow> cart \<Rightarrow> bool" where
  "isInCart k c = list_ex (\<lambda>i. item_id i = k) c"

definition getProductQuantity :: "product_id \<Rightarrow> cart \<Rightarrow> int" where
  "getProductQuantity k c = (case find (\<lambda>i. item_id i = k) c of Some i \<Rightarrow> quantity i | None \<Rightarrow> 0)"

section \<open>The operations as one interface\<close>

datatype cart_op = AddOp product int | RemoveOp product_id | UpdateOp product_id int | ClearOp

fun cart_apply :: "cart_op \<Rightarrow> cart \<Rightarrow> storage \<Rightarrow> cart \<times> storage" where
  "cart_apply (AddOp p q) c s = addToCart p q c s"
| "cart_apply (RemoveOp k) c s = removeFromCart k c s"
| "cart_apply (UpdateOp k q) c s = updateQuantity k q c s"
| "cart_apply ClearOp c s = clearCart c s"

text \<open>What the user interface can issue: every page adds at least one unit
  (ProductCard adds 1, ProductDetail a quantity kept in \<open>[1, stock]\<close>).\<close>

fun op_ok :: "cart_op \<Rightarrow> bool" where
  "op_ok (AddOp p q) = (0 < q)"
| "op_ok _ = True"

text \<open>The cart's invariant (spec section 3): one line per product id, every
  quantity positive.\<close>

definition cart_wf :: "cart \<Rightarrow> bool" where
  "cart_wf c \<longleftrightarrow> distinct (map item_id c) \<and> (\<forall>i\<in>set c. 0 < quantity i)"

text \<open>The abstract cart: the quantity held for each product id.\<close>

definition qty_of :: "cart \<Rightarrow> product_id \<Rightarrow> int" where
  "qty_of c k = getProductQuantity k c"

fun abs_apply :: "cart_op \<Rightarrow> (product_id \<Rightarrow> int) \<Rightarrow> (product_id \<Rightarrow> int)" where
  "abs_apply (AddOp p q) m = m(pid p := m (pid p) + q)"
| "abs_apply (RemoveOp k) m = m(k := 0)"
| "abs_apply (UpdateOp k q) m = (if m k = 0 then m else m(k := max 0 q))"
| "abs_apply ClearOp m = (\<lambda>_. 0)"

section \<open>Sample values\<close>

definition empty_storage :: storage where
  "empty_storage = \<lparr>slots = Map.empty, readable = True, writable = True\<rparr>"

definition sample_product :: product where
  "sample_product = \<lparr>pid = 7, pname = ''cable'', category = ''c'', price = 5000,
     description = '''', image_url = '''', stock = 3, featured = False\<rparr>"

section \<open>Lemmas: the list primitives\<close>

declare Let_def [simp]

named_theorems cart_simps "characteristic equations of the cart primitives"

lemma isInCart_find [cart_simps]: "isInCart k c \<longleftrightarrow> find (\<lambda>i. item_id i = k) c \<noteq> None"
  by (induction c) (auto simp: isInCart_def)

lemma isInCart_Cons [cart_simps]: "isInCart k (i # c) \<longleftrightarrow> item_id i = k \<or> isInCart k c"
  by (simp add: isInCart_def)

lemma isInCart_Nil [cart_simps]: "\<not> isInCart k []"
  by (simp add: isInCart_def)

lemma qty_Nil [cart_simps]: "getProductQuantity k [] = 0"
  by (simp add: getProductQuantity_def)

lemma qty_Cons [cart_simps]:
  "getProductQuantity k (i # c) = (if item_id i = k then quantity i else getProductQuantity k c)"
  by (simp add: getProductQuantity_def)

lemma qty_incr_first [cart_simps]:
  "getProductQuantity k' (incr_first k q c) =
     (if k' = k \<and> isInCart k c then getProductQuantity k' c + q else getProductQuantity k' c)"
  by (induction c) (auto simp: cart_simps)

lemma qty_set_first [cart_simps]:
  "getProductQuantity k' (set_first_qty k q c) =
     (if k' = k \<and> isInCart k c then q else getProductQuantity k' c)"
  by (induction c) (auto simp: cart_simps)

lemma qty_filter [cart_simps]:
  "getProductQuantity k' (filter (\<lambda>i. item_id i \<noteq> k) c) =
     (if k' = k then 0 else getProductQuantity k' c)"
  by (induction c) (auto simp: cart_simps)

lemma qty_snoc [cart_simps]:
  "getProductQuantity k' (c @ [i]) =
     (if \<not> isInCart k' c \<and> item_id i = k' then quantity i else getProductQuantity k' c)"
  by (induction c) (auto simp: cart_simps)

lemma ids_incr_first [simp]: "map item_id (incr_first k q c) = map item_id c"
  by (induction c) auto

lemma ids_set_first [simp]: "map item_id (set_first_qty k q c) = map item_id c"
  by (induction c) auto

lemma pos_incr_first:
  "\<forall>i\<in>set c. 0 < quantity i \<Longrightarrow> 0 < q \<Longrightarrow> \<forall>i\<in>set (incr_first k q c). 0 < quantity i"
  by (induction c) auto

lemma pos_set_first:
  "\<forall>i\<in>set c. 0 < quantity i \<Longrightarrow> 0 < q \<Longrightarrow> \<forall>i\<in>set (set_first_qty k q c). 0 < quantity i"
  by (induction c) auto

lemma filter_absent [simp]:
  "\<not> isInCart k c \<Longrightarrow> filter (\<lambda>i. item_id i \<noteq> k) c = c"
  by (induction c) (auto simp: cart_simps)

lemma wf_present_iff:
  "cart_wf c \<Longrightarrow> isInCart k c \<longleftrightarrow> getProductQuantity k c \<noteq> 0"
  unfolding cart_wf_def by (induction c) (auto simp: cart_simps)

lemma sum_qty_incr_first:
  "sum_list (map quantity (incr_first k q c)) =
     sum_list (map quantity c) + (if isInCart k c then q else 0)"
  by (induction c) (auto simp: cart_simps)

lemma sum_total_incr_first:
  "find (\<lambda>i. item_id i = k) c = Some j \<Longrightarrow>
   sum_list (map (\<lambda>i. item_price i * quantity i) (incr_first k q c)) =
     sum_list (map (\<lambda>i. item_price i * quantity i) c) + item_price j * q"
  by (induction c) (auto simp: algebra_simps split: if_splits)

lemma count_sum: "getCartItemsCount c = sum_list (map quantity c)"
  by (simp add: getCartItemsCount_def foldl_add_sum_list)

lemma total_sum: "getCartTotal c = sum_list (map (\<lambda>i. item_price i * quantity i) c)"
  by (simp add: getCartTotal_def foldl_add_sum_list)

section \<open>Lemmas: persistence\<close>

lemma item_json_roundtrip [simp]: "item_of_json (item_to_json i) = Some i"
  by (simp add: item_of_json_def item_to_json_def)

lemma cart_json_roundtrip [simp]: "cart_of_json (cart_to_json c) = Some c"
  by (simp add: cart_to_json_def comp_def those_map_Some)

lemma saveCart_fails: "\<not> (readable s \<and> writable s) \<Longrightarrow> saveCart c s = s"
  by (auto simp: saveCart_def set_item_def)

lemma load_save:
  assumes "readable s" "writable s"
  shows "loadCart (saveCart c s) = Inr c"
proof -
  obtain s' where set: "set_item STORAGE_KEY (JsonText (cart_to_json c)) s = Inr s'"
    using assms by (auto simp: set_item_def)
  then have "get_item STORAGE_KEY s' = Inr (Some (JsonText (cart_to_json c)))"
    by (rule get_set_item_same)
  with set show ?thesis by (simp add: saveCart_def loadCart_def)
qed

lemma saveCart_flags: "readable (saveCart c s) = readable s \<and> writable (saveCart c s) = writable s"
  by (auto simp: saveCart_def set_item_def split: sum.splits if_splits)

section \<open>Lemmas: one operation at a time\<close>

lemma add_line_wf: "cart_wf c \<Longrightarrow> 0 < q \<Longrightarrow> cart_wf (add_line p q c)"
  by (auto simp: add_line_def cart_wf_def pos_incr_first find_None_iff' new_item_def
      split: option.splits)

lemma remove_wf: "cart_wf c \<Longrightarrow> cart_wf (filter (\<lambda>i. item_id i \<noteq> k) c)"
  by (auto simp: cart_wf_def distinct_map_filter)

lemma update_wf:
  assumes "cart_wf c"
  shows "cart_wf (fst (updateQuantity k q c s))"
proof (cases "find (\<lambda>i. item_id i = k) c")
  case None
  with assms show ?thesis by (simp add: updateQuantity_def)
next
  case (Some i)
  show ?thesis
  proof (cases "q \<le> 0")
    case True
    with Some assms show ?thesis
      by (simp add: updateQuantity_def removeFromCart_def remove_wf)
  next
    case False
    then have "0 < q" by simp
    with Some assms pos_set_first [of c q k] show ?thesis
      by (simp add: updateQuantity_def cart_wf_def)
  qed
qed

lemma qty_add_line:
  "qty_of (add_line p q c) = (qty_of c)(pid p := qty_of c (pid p) + q)"
proof (cases "isInCart (pid p) c")
  case True
  then show ?thesis by (auto simp: add_line_def qty_of_def cart_simps fun_eq_iff)
next
  case False
  then have "getProductQuantity (pid p) c = 0"
    by (simp add: isInCart_find getProductQuantity_def)
  with False show ?thesis
    by (auto simp: add_line_def qty_of_def cart_simps new_item_def fun_eq_iff)
qed

lemma qty_update:
  assumes "cart_wf c"
  shows "qty_of (fst (updateQuantity k q c s)) = abs_apply (UpdateOp k q) (qty_of c)"
proof (cases "isInCart k c")
  case True
  with assms have "qty_of c k \<noteq> 0" by (simp add: wf_present_iff qty_of_def)
  with True show ?thesis
    by (auto simp: updateQuantity_def removeFromCart_def qty_of_def cart_simps Let_def
        fun_eq_iff)
next
  case False
  with assms have "qty_of c k = 0" by (simp add: wf_present_iff qty_of_def)
  with False show ?thesis by (simp add: updateQuantity_def isInCart_find)
qed

lemma cart_apply_saves:
  "snd (cart_apply op c s) = saveCart (fst (cart_apply op c s)) s \<or> cart_apply op c s = (c, s)"
  by (cases op) (auto simp: addToCart_def removeFromCart_def updateQuantity_def clearCart_def
      Let_def split: option.splits)

lemma cart_apply_wf:
  assumes "op_ok op" and "cart_wf c"
  shows "cart_wf (fst (cart_apply op c s))"
proof (cases op)
  case (AddOp p q)
  with assms show ?thesis by (simp add: addToCart_def Let_def add_line_wf)
next
  case (RemoveOp k)
  with assms show ?thesis by (simp add: removeFromCart_def remove_wf)
next
  case (UpdateOp k q)
  with assms show ?thesis by (simp add: update_wf)
next
  case ClearOp
  then show ?thesis by (simp add: clearCart_def cart_wf_def)
qed

section \<open>Properties\<close>

text \<open>C5: the cart refines the abstract cart, a map from product id to quantity:
  adding increments the product's quantity, removing zeroes it, updating an item in
  the cart sets it (a quantity \<open>\<le> 0\<close> zeroes it) and leaves a missing product
  alone, clearing zeroes every quantity.\<close>

theorem cart_apply_refines:
  assumes "cart_wf c"
  shows "qty_of (fst (cart_apply op c s)) = abs_apply op (qty_of c)"
proof (cases op)
  case (AddOp p q)
  then show ?thesis by (simp add: addToCart_def Let_def qty_add_line)
next
  case (RemoveOp k)
  then show ?thesis by (auto simp: removeFromCart_def qty_of_def cart_simps)
next
  case (UpdateOp k q)
  with assms show ?thesis by (simp add: qty_update)
next
  case ClearOp
  then show ?thesis by (auto simp: clearCart_def qty_of_def cart_simps)
qed

theorem cart_apply_refines_witness:
  "cart_wf [] \<and> qty_of (fst (cart_apply (UpdateOp 3 5) [] empty_storage))
     = abs_apply (UpdateOp 3 5) (qty_of [])"
  using cart_apply_refines [of "[]" "UpdateOp 3 5" empty_storage]
  by (simp add: cart_wf_def)

text \<open>\<open>updateQuantity(id, q)\<close> with \<open>q \<le> 0\<close> leaves the same cart as
  \<open>removeFromCart(id)\<close>: the product is no longer in the cart.\<close>

theorem updateQuantity_nonpos_is_remove:
  assumes "q \<le> 0"
  shows "fst (updateQuantity k q c s) = fst (removeFromCart k c s)
         \<and> \<not> isInCart k (fst (updateQuantity k q c s))"
proof (cases "find (\<lambda>i. item_id i = k) c")
  case None
  then have "\<not> isInCart k c" by (simp add: isInCart_find)
  with None show ?thesis by (simp add: updateQuantity_def removeFromCart_def)
next
  case (Some i)
  with assms show ?thesis
    by (simp add: updateQuantity_def removeFromCart_def isInCart_def list_ex_iff)
qed

theorem updateQuantity_nonpos_is_remove_witness:
  "(0::int) \<le> 0 \<and> fst (updateQuantity 7 0 [new_item sample_product 2] empty_storage) = []"
  using updateQuantity_nonpos_is_remove [of 0 7 "[new_item sample_product 2]" empty_storage]
  by (simp add: removeFromCart_def new_item_def sample_product_def)

text \<open>Adding \<open>q\<close> units raises the item count by \<open>q\<close> and the total by
  \<open>q\<close> times the unit price: the price stored in the existing line item (copied when
  the product was first added), or the product's price for a new line.\<close>

theorem addToCart_count_total:
  "getCartItemsCount (fst (addToCart p q c s)) = getCartItemsCount c + q
   \<and> getCartTotal (fst (addToCart p q c s)) =
       getCartTotal c + (case find (\<lambda>i. item_id i = pid p) c of
                           Some i \<Rightarrow> item_price i | None \<Rightarrow> price p) * q"
  by (auto simp: addToCart_def add_line_def Let_def count_sum total_sum sum_qty_incr_first
      sum_total_incr_first isInCart_find new_item_def split: option.splits)

text \<open>C8: the durable slot mirrors the in-memory cart: if it did before an
  operation and the storage accepts writes, it does after, so reloading the cart
  (\<open>loadCart\<close>) gives back exactly the same ordered list of line items.\<close>

theorem cart_apply_mirrors_storage:
  assumes "loadCart s = Inr c" and "readable s" and "writable s"
  shows "loadCart (snd (cart_apply op c s)) = Inr (fst (cart_apply op c s))"
  using cart_apply_saves [of op c s] assms load_save by auto

theorem cart_apply_mirrors_storage_witness:
  "loadCart empty_storage = Inr [] \<and> readable empty_storage \<and> writable empty_storage
   \<and> loadCart (snd (cart_apply (AddOp sample_product 1) [] empty_storage))
       = Inr [new_item sample_product 1]"
proof -
  have "loadCart empty_storage = Inr []"
    by (simp add: loadCart_def get_item_def empty_storage_def)
  with cart_apply_mirrors_storage [of empty_storage "[]" "AddOp sample_product 1"]
  show ?thesis by (simp add: empty_storage_def addToCart_def add_line_def)
qed

text \<open>A storage that refuses access or writes never makes a cart operation
  fail: the storage is left unchanged and the in-memory cart changes exactly as it
  would with a working storage.\<close>

theorem cart_apply_storage_failure:
  assumes "\<not> (readable s \<and> writable s)"
  shows "cart_apply op c s = (fst (cart_apply op c s'), s)"
  using assms
  by (cases op) (auto simp: addToCart_def removeFromCart_def updateQuantity_def clearCart_def
      Let_def saveCart_fails split: option.splits)

theorem cart_apply_storage_failure_witness:
  "\<not> (readable (empty_storage\<lparr>writable := False\<rparr>) \<and> writable (empty_storage\<lparr>writable := False\<rparr>))
   \<and> cart_apply ClearOp [] (empty_storage\<lparr>writable := False\<rparr>)
     = ([], empty_storage\<lparr>writable := False\<rparr>)"
  using cart_apply_storage_failure [of "empty_storage\<lparr>writable := False\<rparr>" ClearOp "[]" empty_storage]
  by (simp add: clearCart_def empty_storage_def)

text \<open>C16: \<open>addToCart\<close> does not check the quantity: adding a product with
  quantity 0 creates a line item with quantity 0, which the spec's invariant
  forbids.\<close>

theorem addToCart_zero_breaks_wf:
  assumes "\<not> isInCart (pid p) c"
  shows "\<not> cart_wf (fst (addToCart p 0 c s))"
proof -
  from assms have "find (\<lambda>i. item_id i = pid p) c = None" by (simp add: isInCart_find)
  then have "new_item p 0 \<in> set (fst (addToCart p 0 c s))"
    by (simp add: addToCart_def add_line_def)
  moreover have "quantity (new_item p 0) = 0" by (simp add: new_item_def)
  ultimately show ?thesis unfolding cart_wf_def by force
qed

theorem addToCart_zero_breaks_wf_witness:
  "\<not> isInCart 7 [] \<and> \<not> cart_wf (fst (addToCart sample_product 0 [] empty_storage))"
  using addToCart_zero_breaks_wf [of sample_product "[]" empty_storage]
  by (simp add: isInCart_def sample_product_def)

end
