(* ===== verification/Csv.thy ===== *)
theory Csv
  imports Prelude
begin

text \<open>
  CSV ingestion of the catalog feed: \<open>parseCSVLine\<close> and \<open>csvToJson\<close> of
  src/src/services/googleSheetsService.js. A line is split on commas outside double
  quotes, a double quote only toggling the in-quotes flag; the document is split on
  line feeds, the first line gives the column names (split on every comma), and each
  non-blank line after it becomes a product whose \<open>id\<close>, \<open>price\<close> and
  \<open>stock\<close> columns are read with \<open>parseInt(v) || 0\<close> and whose \<open>featured\<close>
  column is \<open>v.toLowerCase() === 'true'\<close>. A row is kept when its id is non-zero
  and its name non-empty. The row object is the product record, so the model is
  the feed the service requests, the eight columns of \<open>RANGE = 'Sheet1!A:H'\<close>
  (id, name, category, price, description, image_url, stock, featured). The code
  keeps any other column (\<open>obj[header] = value\<close>), and some code reads such
  columns (\<open>inStock\<close> in AppContext.jsx, \<open>createdAt\<close> and \<open>views\<close> in
  useProductFilter.js); a sheet with more columns is not modelled.
\<close>

section \<open>One line\<close>

definition comma :: char where
  "comma = CHR '',''"

text \<open>The \<open>for\<close> loop of \<open>parseCSVLine\<close>: \<open>res\<close> the cells pushed so far,
  \<open>cur\<close> the current cell, \<open>q\<close> the \<open>inQuotes\<close> flag.\<close>

fun csv_loop :: "string \<Rightarrow> string list \<Rightarrow> string \<Rightarrow> bool \<Rightarrow> string list" where
  "csv_loop [] res cur q = res @ [cur]"
| "csv_loop (ch # cs) res cur q =
     (if ch = dquote then csv_loop cs res cur (\<not> q)
      else if ch = comma \<and> \<not> q then csv_loop cs (res @ [cur]) [] q
      else csv_loop cs res (cur @ [ch]) q)"

definition parseCSVLine :: "string \<Rightarrow> string list" where
  "parseCSVLine line = csv_loop line [] [] False"

section \<open>Rows to products\<close>

text \<open>\<open>values[index] || ''\<close>: a missing cell reads as the empty string.\<close>

definition cell_at :: "string list \<Rightarrow> nat \<Rightarrow> string" where
  "cell_at vs i = (if i < length vs then vs ! i else [])"

text \<open>\<open>value.replace(/"/g, '').trim()\<close>.\<close>

definition clean_cell :: "string \<Rightarrow> string" where
  "clean_cell v = js_trim (strip_quotes v)"

text \<open>\<open>obj[header] = \<dots>\<close> with the conversion the column name selects.\<close>

definition set_field :: "string \<Rightarrow> string \<Rightarrow> product \<Rightarrow> product" where
  "set_field h v p =
     (if h = ''id'' then p\<lparr>pid := int_or_zero v\<rparr>
      else if h = ''price'' then p\<lparr>price := int_or_zero v\<rparr>
      else if h = ''stock'' then p\<lparr>stock := int_or_zero v\<rparr>
      else if h = ''featured'' then p\<lparr>featured := (to_lower v = ''true'')\<rparr>
      else if h = ''name'' then p\<lparr>pname := v\<rparr>
      else if h = ''category'' then p\<lparr>category := v\<rparr>
      else if h = ''description'' then p\<lparr>description := v\<rparr>
      else if h = ''image_url'' then p\<lparr>image_url := v\<rparr>
      else p)"

text \<open>The row object before any column is set. In the code an absent column is
  \<open>undefined\<close>; the model reads it as 0, the empty string or false, which the
  code's truthiness tests treat alike, but where the code calls a string method on
  an absent field (\<open>description.toLowerCase()\<close> in the context's search) it
  throws and the model does not. Every column of the eight-column sheet is present.\<close>

definition empty_obj :: product where
  "empty_obj = \<lparr>pid = 0, pname = [], category = [], price = 0, description = [],
     image_url = [], stock = 0, featured = False\<rparr>"

text \<open>\<open>headers.forEach((header, index) => \<dots>)\<close>.\<close>

fun fill_row :: "string list \<Rightarrow> string list \<Rightarrow> nat \<Rightarrow> product \<Rightarrow> product" where
  "fill_row [] vs i p = p"
| "fill_row (h # hs) vs i p = fill_row hs vs (Suc i) (set_field h (clean_cell (cell_at vs i)) p)"

definition row_to_product :: "string list \<Rightarrow> string \<Rightarrow> product" where
  "row_to_product hs line = fill_row hs (parseCSVLine line) 0 empty_obj"

text \<open>\<open>if (obj.id && obj.name)\<close>.\<close>

definition keep_row :: "product \<Rightarrow> bool" where
  "keep_row p \<longleftrightarrow> pid p \<noteq> 0 \<and> pname p \<noteq> []"

text \<open>The loop over \<open>lines[1..]\<close>: blank lines are skipped, kept rows pushed.\<close>

fun rows_loop :: "string list \<Rightarrow> string list \<Rightarrow> product list \<Rightarrow> product list" where
  "rows_loop hs [] acc = acc"
| "rows_loop hs (l # ls) acc =
     (if js_trim l = [] then rows_loop hs ls acc
      else (let p = row_to_product hs l in rows_loop hs ls (if keep_row p then acc @ [p] else acc)))"

definition csv_lines :: "string \<Rightarrow> string list" where
  "csv_lines csv = split_on (CHR 0x0A) csv"

text \<open>\<open>lines[0].split(',').map(header => header.trim().replace(/"/g, ''))\<close>.\<close>

definition csv_headers :: "string \<Rightarrow> string list" where
  "csv_headers csv = map (\<lambda>h. strip_quotes (js_trim h)) (split_on comma (hd (csv_lines csv)))"

definition csvToJson :: "string \<Rightarrow> product list" where
  "csvToJson csv = rows_loop (csv_headers csv) (tl (csv_lines csv)) []"

section \<open>Reading a column of the row object\<close>

datatype cell = CInt int | CBool bool | CStr string

text \<open>\<open>obj[h]\<close> for the columns the record keeps.\<close>

definition obj_get :: "product \<Rightarrow> string \<Rightarrow> cell option" where
  "obj_get p h =
     (if h = ''id'' then Some (CInt (pid p))
      else if h = ''price'' then Some (CInt (price p))
      else if h = ''stock'' then Some (CInt (stock p))
      else if h = ''featured'' then Some (CBool (featured p))
      else if h = ''name'' then Some (CStr (pname p))
      else if h = ''category'' then Some (CStr (category p))
      else if h = ''description'' then Some (CStr (description p))
      else if h = ''image_url'' then Some (CStr (image_url p))
      else None)"

text \<open>The conversion rule of lines 40--46, stated on its own.\<close>

definition coerce :: "string \<Rightarrow> string \<Rightarrow> cell" where
  "coerce h v =
     (if h = ''id'' \<or> h = ''price'' \<or> h = ''stock'' then CInt (int_or_zero v)
      else if h = ''featured'' then CBool (to_lower v = ''true'')
      else CStr v)"

text \<open>A line of the feed written from cells (the writer the spec assumes).\<close>

fun join_cells :: "string list \<Rightarrow> string" where
  "join_cells [] = []"
| "join_cells [c] = c"
| "join_cells (c # d # ds) = c @ comma # join_cells (d # ds)"

definition quote_cell :: "string \<Rightarrow> string" where
  "quote_cell c = dquote # c @ [dquote]"

section \<open>Lemmas: the line loop\<close>

named_theorems csv_simps "unfolding rules for concrete CSV evaluation"

lemmas csv_eval [csv_simps] = parseCSVLine_def csv_lines_def csv_headers_def csvToJson_def
  row_to_product_def cell_at_def clean_cell_def set_field_def keep_row_def empty_obj_def
  comma_def quote_cell_def

lemma csv_loop_plain:
  "\<forall>ch\<in>set w. ch \<noteq> dquote \<and> (\<not> q \<longrightarrow> ch \<noteq> comma) \<Longrightarrow>
   csv_loop (w @ rest) res cur q = csv_loop rest res (cur @ w) q"
  by (induction w arbitrary: cur) auto

lemma csv_loop_plain_end:
  "\<forall>ch\<in>set w. ch \<noteq> dquote \<and> (\<not> q \<longrightarrow> ch \<noteq> comma) \<Longrightarrow>
   csv_loop w res cur q = res @ [cur @ w]"
  using csv_loop_plain [of w q "[]" res cur] by simp

lemma dquote_ne_comma [simp]: "dquote \<noteq> comma" "comma \<noteq> dquote"
  by (simp_all add: dquote_def comma_def)

lemma csv_loop_join:
  "\<forall>c\<in>set cells. dquote \<notin> set c \<and> comma \<notin> set c \<Longrightarrow> cells \<noteq> [] \<Longrightarrow>
   csv_loop (join_cells cells) res [] False = res @ cells"
proof (induction cells arbitrary: res rule: join_cells.induct)
  case (2 c)
  then show ?case by (auto intro: csv_loop_plain_end [THEN trans])
next
  case (3 c d ds)
  then have "csv_loop (c @ comma # join_cells (d # ds)) res [] False
      = csv_loop (comma # join_cells (d # ds)) res c False"
    by (subst csv_loop_plain) auto
  with "3.IH" [of "res @ [c]"] "3.prems" show ?case by simp
qed simp

lemma csv_loop_quoted:
  "dquote \<notin> set c \<Longrightarrow>
   csv_loop (quote_cell c @ rest) res cur False = csv_loop rest res (cur @ c) False"
proof -
  assume c: "dquote \<notin> set c"
  have "csv_loop (quote_cell c @ rest) res cur False = csv_loop (c @ dquote # rest) res cur True"
    by (simp add: quote_cell_def)
  also have "\<dots> = csv_loop (dquote # rest) res (cur @ c) True"
    using c by (subst csv_loop_plain) auto
  finally show ?thesis by simp
qed

lemma csv_loop_join_quoted:
  "\<forall>c\<in>set cells. dquote \<notin> set c \<Longrightarrow> cells \<noteq> [] \<Longrightarrow>
   csv_loop (join_cells (map quote_cell cells)) res [] False = res @ cells"
proof (induction cells arbitrary: res rule: join_cells.induct)
  case (2 c)
  then show ?case using csv_loop_quoted [of c "[]" res "[]"] by simp
next
  case (3 c d ds)
  then have "csv_loop (quote_cell c @ comma # join_cells (map quote_cell (d # ds))) res [] False
      = csv_loop (join_cells (map quote_cell (d # ds))) (res @ [c]) [] False"
    by (simp add: csv_loop_quoted)
  with "3.IH" [of "res @ [c]"] "3.prems" show ?case by simp
qed simp

section \<open>Lemmas: rows\<close>

lemma rows_loop_filter:
  "rows_loop hs ls acc = acc @ filter keep_row (map (row_to_product hs) (filter (\<lambda>l. js_trim l \<noteq> []) ls))"
  by (induction ls arbitrary: acc) auto

lemma obj_get_set_field_other:
  "h' \<noteq> h \<Longrightarrow> obj_get (set_field h' v p) h = obj_get p h"
  by (auto simp: obj_get_def set_field_def)

lemma obj_get_set_field_same:
  "obj_get p h \<noteq> None \<Longrightarrow> obj_get (set_field h v p) h = Some (coerce h v)"
  by (auto simp: obj_get_def set_field_def coerce_def split: if_splits)

lemma obj_get_known:
  "obj_get p h \<noteq> None \<longleftrightarrow>
     h \<in> {''id'', ''price'', ''stock'', ''featured'', ''name'', ''category'', ''description'', ''image_url''}"
  by (simp add: obj_get_def)

lemma fill_row_frame:
  "h \<notin> set hs \<Longrightarrow> obj_get (fill_row hs vs j p) h = obj_get p h"
  by (induction hs arbitrary: j p) (auto simp: obj_get_set_field_other)

lemma fill_row_column:
  "distinct hs \<Longrightarrow> i < length hs \<Longrightarrow> obj_get p (hs ! i) \<noteq> None \<Longrightarrow>
   obj_get (fill_row hs vs j p) (hs ! i) = Some (coerce (hs ! i) (clean_cell (cell_at vs (j + i))))"
proof (induction hs arbitrary: i j p)
  case Nil
  then show ?case by simp
next
  case (Cons h hs)
  show ?case
  proof (cases i)
    case 0
    with Cons.prems have "h \<notin> set hs" "obj_get p h \<noteq> None" by auto
    with 0 show ?thesis by (simp add: fill_row_frame obj_get_set_field_same)
  next
    case (Suc k)
    with Cons.prems have "distinct hs" "k < length hs"
      "obj_get (set_field h (clean_cell (cell_at vs j)) p) (hs ! k) \<noteq> None"
      by (simp_all only: obj_get_known) auto
    with Suc show ?thesis by (simp add: Cons.IH)
  qed
qed

section \<open>Properties\<close>

text \<open>C18: \<open>csvToJson\<close> turns exactly the non-blank lines after the header into
  products, in order, and keeps those whose id is non-zero and whose name is
  non-empty; every product it returns has both. So a feed with \<open>n\<close> well-formed
  rows yields \<open>n\<close> products, and each row missing its id or name lowers the count
  by one.\<close>

theorem csvToJson_rows:
  "csvToJson csv =
     filter (\<lambda>p. pid p \<noteq> 0 \<and> pname p \<noteq> []) (map (row_to_product (csv_headers csv))
                          (filter (\<lambda>l. js_trim l \<noteq> []) (tl (csv_lines csv))))
   \<and> list_all (\<lambda>p. pid p \<noteq> 0 \<and> pname p \<noteq> []) (csvToJson csv)"
  by (simp add: csvToJson_def rows_loop_filter keep_row_def [abs_def] list_all_iff)

text \<open>C19: each column of a row lands in the product field of the same name with
  the conversion its name selects: \<open>id\<close>, \<open>price\<close>, \<open>stock\<close> through
  \<open>parseInt(v) || 0\<close>, \<open>featured\<close> as \<open>v.toLowerCase() === 'true'\<close>, the
  others as the cleaned text; a missing cell reads as the empty string.\<close>

theorem row_column_value:
  assumes "distinct hs" and "i < length hs" and "obj_get empty_obj (hs ! i) \<noteq> None"
  shows "obj_get (row_to_product hs line) (hs ! i)
           = Some (coerce (hs ! i) (clean_cell (cell_at (parseCSVLine line) i)))"
  using fill_row_column [OF assms] by (simp add: row_to_product_def)

theorem row_column_value_witness:
  "distinct [''id'', ''name'', ''featured''] \<and> 2 < length [''id'', ''name'', ''featured'']
   \<and> obj_get empty_obj ([''id'', ''name'', ''featured''] ! 2) \<noteq> None
   \<and> obj_get (row_to_product [''id'', ''name'', ''featured''] ''5,Cable, TRUE '') ''featured''
       = Some (CBool True)"
proof -
  have "obj_get empty_obj ([''id'', ''name'', ''featured''] ! 2) \<noteq> None"
    by (simp add: obj_get_def)
  with row_column_value [of "[''id'', ''name'', ''featured'']" 2 "''5,Cable, TRUE ''"]
  show ?thesis by (simp add: csv_simps js_simps coerce_def)
qed

text \<open>C20: a line written from cells is split back into the same cells: cells
  without quotes or commas joined by commas, and cells without quotes wrapped in
  double quotes (a comma inside the quotes does not split).\<close>

theorem parseCSVLine_roundtrip:
  assumes "cells \<noteq> []" and "\<forall>c\<in>set cells. dquote \<notin> set c"
  shows "parseCSVLine (join_cells (map quote_cell cells)) = cells
         \<and> ((\<forall>c\<in>set cells. comma \<notin> set c) \<longrightarrow> parseCSVLine (join_cells cells) = cells)"
  using assms csv_loop_join_quoted [of cells "[]"] csv_loop_join [of cells "[]"]
  by (auto simp: parseCSVLine_def)

theorem parseCSVLine_roundtrip_witness:
  "[''a,b'', ''c''] \<noteq> [] \<and> dquote \<notin> set ''a,b'' \<and> dquote \<notin> set ''c''
   \<and> parseCSVLine (join_cells (map quote_cell [''a,b'', ''c''])) = [''a,b'', ''c'']"
  using parseCSVLine_roundtrip [of "[''a,b'', ''c'']"] by (simp add: dquote_def)

text \<open>C21: the feed's escaped quote is not unescaped: a quoted cell holding the
  CSV escape \<open>""\<close> for a literal double quote comes back without any quote,
  since each \<open>"\<close> only toggles the in-quotes flag.\<close>

theorem parseCSVLine_drops_escaped_quote:
  assumes "dquote \<notin> set a" and "dquote \<notin> set b"
  shows "parseCSVLine (quote_cell (a @ dquote # dquote # b)) = [a @ b]"
proof -
  have "csv_loop (a @ dquote # dquote # b @ [dquote]) [] [] True
      = csv_loop (dquote # dquote # b @ [dquote]) [] a True"
    using assms(1) by (subst csv_loop_plain) auto
  also have "\<dots> = csv_loop (b @ [dquote]) [] a True" by simp
  also have "\<dots> = csv_loop [dquote] [] (a @ b) True"
    using assms(2) by (subst csv_loop_plain) auto
  finally show ?thesis by (simp add: parseCSVLine_def quote_cell_def)
qed

theorem parseCSVLine_drops_escaped_quote_witness:
  "dquote \<notin> set ''size 5'' \<and> dquote \<notin> set '' inch''
   \<and> parseCSVLine (quote_cell (''size 5'' @ dquote # dquote # '' inch'')) = [''size 5 inch'']"
  using parseCSVLine_drops_escaped_quote [of "''size 5''" "'' inch''"] by (simp add: dquote_def)

text \<open>One feed through \<open>csvToJson\<close>: the quoted price \<open>"10,000"\<close> stays one
  cell but \<open>parseInt\<close> stops at its comma and reads 10; \<open>TRUE\<close> is featured;
  the blank line is skipped; the rows with id 0 and with an empty name are dropped.\<close>

theorem csvToJson_example:
  "csvToJson (''id,name,price,featured'' @ [CHR 0x0A] @ ''1,Cable,\"10,000\",TRUE'' @ [CHR 0x0A]
      @ [CHR 0x0A] @ ''0,Bad,5,false'' @ [CHR 0x0A] @ ''2,,3,x'')
   = [\<lparr>pid = 1, pname = ''Cable'', category = [], price = 10, description = [], image_url = [],
       stock = 0, featured = True\<rparr>]"
  by (simp add: csv_simps js_simps)

end
