(* ===== verification/Catalog.thy ===== *)
theory Catalog
  imports Csv Complex_Main
begin

text \<open>
  The catalog source adapter, \<open>GoogleSheetsService\<close> of
  src/src/services/googleSheetsService.js: an in-memory cache (products and the
  time of the last download), the durable slot \<open>products_cache\<close> in
  \<open>localStorage\<close>, and \<open>fetchProducts\<close>, which answers from a fresh memory cache,
  else downloads and parses the CSV feed and stores it in both caches, and on any
  exception in that path falls back to the durable slot and then to generated sample
  data. The environment of one call is explicit: \<open>t0\<close> is \<open>Date.now()\<close> at the
  freshness check, \<open>t1\<close> the time after the response arrived (lines 108 and 113),
  \<open>net\<close> the reply of \<open>axios.get\<close> for a URL (a failure or a timeout is
  \<open>NetFailure\<close>), and \<open>rnd k\<close> the \<open>k\<close>-th value of \<open>Math.random()\<close>.
  A promise that rejects is an \<open>Inl\<close> result.
\<close>

section \<open>State\<close>

record sheets =
  sheet_id :: string
  csv_url :: string
  cache_products :: "product list option"
  last_fetch :: "int option"

definition CACHE_TIMEOUT :: int where
  "CACHE_TIMEOUT = 5 * 60 * 1000"

definition PRODUCTS_CACHE_KEY :: string where
  "PRODUCTS_CACHE_KEY = ''products_cache''"

definition sheet_csv_url :: "string \<Rightarrow> string" where
  "sheet_csv_url sid = ''https://docs.google.com/spreadsheets/d/'' @ sid @ ''/export?format=csv&gid=0''"

definition init_sheets :: sheets where
  "init_sheets = \<lparr>sheet_id = ''YOUR_SHEET_ID_HERE'', csv_url = sheet_csv_url ''YOUR_SHEET_ID_HERE'',
     cache_products = None, last_fetch = None\<rparr>"

datatype net_reply = Reply string | NetFailure

datatype fetch_error = StorageThrew storage_error | CacheSyntaxError | CacheNullTypeError
  | NotAProductList

section \<open>The durable copy\<close>

definition product_to_json :: "product \<Rightarrow> json" where
  "product_to_json p = JObj [(''id'', JNum (pid p)), (''name'', JStr (pname p)),
     (''category'', JStr (category p)), (''price'', JNum (price p)),
     (''description'', JStr (description p)), (''image_url'', JStr (image_url p)),
     (''stock'', JNum (stock p)), (''featured'', JBool (featured p))]"

text \<open>\<open>JSON.stringify({products, timestamp: Date.now()})\<close>.\<close>

definition cache_json :: "product list \<Rightarrow> int \<Rightarrow> json" where
  "cache_json ps t = JObj [(''products'', JArr (map product_to_json ps)), (''timestamp'', JNum t)]"

definition product_of_json :: "json \<Rightarrow> product option" where
  "product_of_json j =
     (case (json_int (json_field ''id'' j), json_str (json_field ''name'' j),
            json_str (json_field ''category'' j), json_int (json_field ''price'' j),
            json_str (json_field ''description'' j), json_str (json_field ''image_url'' j),
            json_int (json_field ''stock'' j), json_bool (json_field ''featured'' j)) of
        (Some i, Some n, Some c, Some pr, Some d, Some u, Some st, Some f) \<Rightarrow>
          Some \<lparr>pid = i, pname = n, category = c, price = pr, description = d, image_url = u,
                stock = st, featured = f\<rparr>
      | _ \<Rightarrow> None)"

text \<open>\<open>JSON.parse(cachedData).products\<close>: \<open>null.products\<close> throws a
  \<open>TypeError\<close>. The code resolves with whatever else the field holds; the
  model returns such a value as \<open>NotAProductList\<close>, an abstraction, since the
  product list type cannot hold it. Only a slot this application did not write holds
  one: \<open>fetch_resume\<close> stores well-formed products.\<close>

fun cached_products :: "json \<Rightarrow> fetch_error + product list" where
  "cached_products JNull = Inl CacheNullTypeError"
| "cached_products j =
     (case json_field ''products'' j of
        Some (JArr js) \<Rightarrow> (case those (map product_of_json js) of
                            Some ps \<Rightarrow> Inr ps | None \<Rightarrow> Inl NotAProductList)
      | _ \<Rightarrow> Inl NotAProductList)"

section \<open>Sample data\<close>

definition cat_headphones :: string where
  "cat_headphones = utf8 [0xD8, 0xB3, 0xD9, 0x85, 0xD8, 0xA7, 0xD8, 0xB9, 0xD8, 0xA7, 0xD8, 0xAA]"

definition cat_chargers :: string where
  "cat_chargers = utf8 [0xD8, 0xB4, 0xD8, 0xA7, 0xD8, 0xAD, 0xD9, 0x86, 0xD8, 0xA7, 0xD8, 0xAA]"

definition cat_cables :: string where
  "cat_cables = utf8 [0xD9, 0x83, 0xD9, 0x8A, 0xD8, 0xA8, 0xD9, 0x84, 0xD8, 0xA7, 0xD8, 0xAA]"

definition cat_protectors :: string where
  "cat_protectors = utf8 [0xD9, 0x84, 0xD8, 0xB2, 0xD9, 0x82, 0xD8, 0xA7, 0xD8, 0xAA] @ '' ''
     @ utf8 [0xD8, 0xAD, 0xD9, 0x85, 0xD8, 0xA7, 0xD9, 0x8A, 0xD8, 0xA9]"

definition cat_accessories :: string where
  "cat_accessories = utf8 [0xD8, 0xA7, 0xD9, 0x83, 0xD8, 0xB3, 0xD8, 0xB3, 0xD9, 0x88, 0xD8, 0xA7,
     0xD8, 0xB1, 0xD8, 0xA7, 0xD8, 0xAA]"

definition fallback_categories :: "string list" where
  "fallback_categories = [cat_headphones, cat_chargers, cat_cables, cat_protectors, cat_accessories]"

definition product_names :: "(string \<times> string list) list" where
  "product_names = [
     (cat_headphones, [
       utf8 [0xD8, 0xB3, 0xD9, 0x85, 0xD8, 0xA7, 0xD8, 0xB9, 0xD8, 0xA9] @ '' ''
         @ utf8 [0xD8, 0xA8, 0xD9, 0x84, 0xD9, 0x88, 0xD8, 0xAA, 0xD9, 0x88, 0xD8, 0xAB] @ '' JBL'',
       utf8 [0xD8, 0xB3, 0xD9, 0x85, 0xD8, 0xA7, 0xD8, 0xB9, 0xD8, 0xA9] @ '' Sony'',
       utf8 [0xD8, 0xB3, 0xD9, 0x85, 0xD8, 0xA7, 0xD8, 0xB9, 0xD8, 0xA9] @ '' Beats'',
       utf8 [0xD8, 0xB3, 0xD9, 0x85, 0xD8, 0xA7, 0xD8, 0xB9, 0xD8, 0xA9] @ '' Bose'',
       utf8 [0xD8, 0xB3, 0xD9, 0x85, 0xD8, 0xA7, 0xD8, 0xB9, 0xD8, 0xA9] @ '' AirPods'']),
     (cat_chargers, [
       utf8 [0xD8, 0xB4, 0xD8, 0xA7, 0xD8, 0xAD, 0xD9, 0x86] @ '' ''
         @ utf8 [0xD8, 0xB3, 0xD8, 0xB1, 0xD9, 0x8A, 0xD8, 0xB9] @ '' Samsung'',
       utf8 [0xD8, 0xB4, 0xD8, 0xA7, 0xD8, 0xAD, 0xD9, 0x86] @ '' iPhone'',
       utf8 [0xD8, 0xB4, 0xD8, 0xA7, 0xD8, 0xAD, 0xD9, 0x86] @ '' ''
         @ utf8 [0xD9, 0x84, 0xD8, 0xA7, 0xD8, 0xB3, 0xD9, 0x84, 0xD9, 0x83, 0xD9, 0x8A],
       utf8 [0xD8, 0xB4, 0xD8, 0xA7, 0xD8, 0xAD, 0xD9, 0x86] @ '' ''
         @ utf8 [0xD9, 0x85, 0xD8, 0xAD, 0xD9, 0x85, 0xD9, 0x88, 0xD9, 0x84],
       utf8 [0xD8, 0xB4, 0xD8, 0xA7, 0xD8, 0xAD, 0xD9, 0x86] @ '' ''
         @ utf8 [0xD8, 0xB3, 0xD9, 0x8A, 0xD8, 0xA7, 0xD8, 0xB1, 0xD8, 0xA9]]),
     (cat_cables, [
       utf8 [0xD9, 0x83, 0xD9, 0x8A, 0xD8, 0xA8, 0xD9, 0x84] @ '' USB-C'',
       utf8 [0xD9, 0x83, 0xD9, 0x8A, 0xD8, 0xA8, 0xD9, 0x84] @ '' Lightning'',
       utf8 [0xD9, 0x83, 0xD9, 0x8A, 0xD8, 0xA8, 0xD9, 0x84] @ '' Micro USB'',
       utf8 [0xD9, 0x83, 0xD9, 0x8A, 0xD8, 0xA8, 0xD9, 0x84] @ '' HDMI'',
       utf8 [0xD9, 0x83, 0xD9, 0x8A, 0xD8, 0xA8, 0xD9, 0x84] @ '' AUX'']),
     (cat_protectors, [
       utf8 [0xD9, 0x88, 0xD8, 0xA7, 0xD9, 0x82, 0xD9, 0x8A] @ '' ''
         @ utf8 [0xD8, 0xB4, 0xD8, 0xA7, 0xD8, 0xB4, 0xD8, 0xA9] @ '' iPhone'',
       utf8 [0xD9, 0x88, 0xD8, 0xA7, 0xD9, 0x82, 0xD9, 0x8A] @ '' ''
         @ utf8 [0xD8, 0xB4, 0xD8, 0xA7, 0xD8, 0xB4, 0xD8, 0xA9] @ '' Samsung'',
       utf8 [0xD9, 0x88, 0xD8, 0xA7, 0xD9, 0x82, 0xD9, 0x8A] @ '' ''
         @ utf8 [0xD9, 0x83, 0xD8, 0xA7, 0xD9, 0x85, 0xD9, 0x8A, 0xD8, 0xB1, 0xD8, 0xA7],
       utf8 [0xD8, 0xAC, 0xD8, 0xB1, 0xD8, 0xA7, 0xD8, 0xA8] @ '' ''
         @ utf8 [0xD8, 0xAD, 0xD9, 0x85, 0xD8, 0xA7, 0xD9, 0x8A, 0xD8, 0xA9],
       utf8 [0xD9, 0x88, 0xD8, 0xA7, 0xD9, 0x82, 0xD9, 0x8A] @ '' ''
         @ utf8 [0xD8, 0xB8, 0xD9, 0x87, 0xD8, 0xB1]]),
     (cat_accessories, [
       utf8 [0xD8, 0xAD, 0xD8, 0xA7, 0xD9, 0x85, 0xD9, 0x84] @ '' ''
         @ utf8 [0xD9, 0x87, 0xD8, 0xA7, 0xD8, 0xAA, 0xD9, 0x81] @ '' ''
         @ utf8 [0xD9, 0x84, 0xD9, 0x84, 0xD8, 0xB3, 0xD9, 0x8A, 0xD8, 0xA7, 0xD8, 0xB1, 0xD8, 0xA9],
       utf8 [0xD8, 0xAD, 0xD8, 0xA7, 0xD9, 0x85, 0xD9, 0x84] @ '' ''
         @ utf8 [0xD9, 0x85, 0xD9, 0x83, 0xD8, 0xAA, 0xD8, 0xA8, 0xD9, 0x8A],
       utf8 [0xD9, 0x85, 0xD8, 0xB3, 0xD9, 0x83, 0xD8, 0xA9] @ '' ''
         @ utf8 [0xD9, 0x87, 0xD8, 0xA7, 0xD8, 0xAA, 0xD9, 0x81],
       utf8 [0xD8, 0xAD, 0xD9, 0x82, 0xD9, 0x8A, 0xD8, 0xA8, 0xD8, 0xA9] @ '' ''
         @ utf8 [0xD9, 0x84, 0xD8, 0xA7, 0xD8, 0xA8, 0xD8, 0xAA, 0xD9, 0x88, 0xD8, 0xA8],
       utf8 [0xD9, 0x85, 0xD8, 0xA7, 0xD9, 0x88, 0xD8, 0xB3] @ '' ''
         @ utf8 [0xD9, 0x84, 0xD8, 0xA7, 0xD8, 0xB3, 0xD9, 0x84, 0xD9, 0x83, 0xD9, 0x8A]])]"

text \<open>\<open>xs[Math.floor(Math.random() * xs.length)]\<close>.\<close>

definition pick :: "'a list \<Rightarrow> real \<Rightarrow> 'a" where
  "pick xs r = xs ! nat \<lfloor>r * real (length xs)\<rfloor>"

definition names_for :: "string \<Rightarrow> string list" where
  "names_for c = (case map_of product_names c of Some ns \<Rightarrow> ns | None \<Rightarrow> [])"

definition model_word :: string where
  "model_word = utf8 [0xD9, 0x85, 0xD9, 0x88, 0xD8, 0xAF, 0xD9, 0x8A, 0xD9, 0x84]"

definition desc_prefix :: string where
  "desc_prefix = utf8 [0xD9, 0x88, 0xD8, 0xB5, 0xD9, 0x81] @ '' ''
     @ utf8 [0xD8, 0xAA, 0xD9, 0x81, 0xD8, 0xB5, 0xD9, 0x8A, 0xD9, 0x84, 0xD9, 0x8A] @ '' ''
     @ utf8 [0xD9, 0x84, 0xD9, 0x84, 0xD9, 0x85, 0xD9, 0x86, 0xD8, 0xAA, 0xD8, 0xAC] @ '' ''"

definition desc_suffix :: string where
  "desc_suffix = ''. '' @ utf8 [0xD9, 0x85, 0xD9, 0x86, 0xD8, 0xAA, 0xD8, 0xAC] @ '' ''
     @ utf8 [0xD8, 0xB9, 0xD8, 0xA7, 0xD9, 0x84, 0xD9, 0x8A] @ '' ''
     @ utf8 [0xD8, 0xA7, 0xD9, 0x84, 0xD8, 0xAC, 0xD9, 0x88, 0xD8, 0xAF, 0xD8, 0xA9] @ '' ''
     @ utf8 [0xD8, 0xA8, 0xD8, 0xA3, 0xD9, 0x81, 0xD8, 0xB6, 0xD9, 0x84] @ '' ''
     @ utf8 [0xD8, 0xA7, 0xD9, 0x84, 0xD8, 0xA3, 0xD8, 0xB3, 0xD8, 0xB9, 0xD8, 0xA7, 0xD8, 0xB1] @ '' ''
     @ utf8 [0xD9, 0x88, 0xD9, 0x85, 0xD9, 0x88, 0xD8, 0xA7, 0xD8, 0xB5, 0xD9, 0x81, 0xD8, 0xA7, 0xD8, 0xAA]
     @ '' '' @ utf8 [0xD9, 0x85, 0xD9, 0x85, 0xD8, 0xAA, 0xD8, 0xA7, 0xD8, 0xB2, 0xD8, 0xA9] @ ''.''"

text \<open>Iteration \<open>i\<close> (from 1) of the loop; its four calls of \<open>Math.random()\<close> are
  the draws \<open>4(i-1)\<close> to \<open>4(i-1)+3\<close>, in the order the object literal evaluates them.\<close>

definition fallback_product :: "(nat \<Rightarrow> real) \<Rightarrow> nat \<Rightarrow> product" where
  "fallback_product rnd i =
     (let k = 4 * (i - 1);
          c = pick fallback_categories (rnd k);
          base = pick (names_for c) (rnd (k + 1))
      in \<lparr>pid = int i, pname = base @ '' - '' @ model_word @ '' '' @ nat_to_dec i, category = c,
          price = \<lfloor>rnd (k + 2) * 90000\<rfloor> + 10000,
          description = desc_prefix @ base @ '' '' @ model_word @ '' '' @ nat_to_dec i @ desc_suffix,
          image_url = ''https://via.placeholder.com/300x300?text='' @ encodeURIComponent base
                      @ ''+'' @ nat_to_dec i,
          stock = \<lfloor>rnd (k + 3) * 50\<rfloor> + 1,
          featured = (i \<le> 10)\<rparr>)"

definition getFallbackData :: "(nat \<Rightarrow> real) \<Rightarrow> product list" where
  "getFallbackData rnd = map (fallback_product rnd) [1..<151]"

section \<open>fetchProducts and the cache operations\<close>

text \<open>\<open>this.cache.products && this.cache.lastFetch\<close> and the age check: an
  array is truthy even when empty, a time stamp of 0 is falsy.\<close>

definition fresh_products :: "int \<Rightarrow> sheets \<Rightarrow> product list option" where
  "fresh_products t0 sh =
     (case (cache_products sh, last_fetch sh) of
        (Some ps, Some lf) \<Rightarrow> if lf \<noteq> 0 \<and> t0 - lf < CACHE_TIMEOUT then Some ps else None
      | _ \<Rightarrow> None)"

text \<open>The \<open>catch\<close> block: the durable slot, else the sample data. Its
  \<open>getItem\<close> and \<open>JSON.parse\<close> are not guarded and reject the promise.\<close>

definition fetch_fallback :: "(nat \<Rightarrow> real) \<Rightarrow> sheets \<Rightarrow> storage
    \<Rightarrow> (fetch_error + product list) \<times> sheets \<times> storage" where
  "fetch_fallback rnd sh s =
     (case get_item PRODUCTS_CACHE_KEY s of
        Inl e \<Rightarrow> (Inl (StorageThrew e), sh, s)
      | Inr None \<Rightarrow> (Inr (getFallbackData rnd), sh, s)
      | Inr (Some EmptyText) \<Rightarrow> (Inr (getFallbackData rnd), sh, s)
      | Inr (Some t) \<Rightarrow>
          (case json_parse t of
             None \<Rightarrow> (Inl CacheSyntaxError, sh, s)
           | Some j \<Rightarrow> (cached_products j, sh, s)))"

text \<open>What follows \<open>await axios.get(...)\<close>: the reply arrives at time \<open>t1\<close>;
  a download is parsed and cached (memory, then the durable slot), a failure or a
  write that throws goes to the \<open>catch\<close> block.\<close>

definition fetch_resume :: "int \<Rightarrow> net_reply \<Rightarrow> (nat \<Rightarrow> real) \<Rightarrow> sheets \<Rightarrow> storage
    \<Rightarrow> (fetch_error + product list) \<times> sheets \<times> storage" where
  "fetch_resume t1 reply rnd sh s =
     (case reply of
        NetFailure \<Rightarrow> fetch_fallback rnd sh s
      | Reply csv \<Rightarrow>
          (let ps = csvToJson csv;
               sh' = sh\<lparr>cache_products := Some ps, last_fetch := Some t1\<rparr>
           in (case set_item PRODUCTS_CACHE_KEY (JsonText (cache_json ps t1)) s of
                 Inr s' \<Rightarrow> (Inr ps, sh', s')
               | Inl _ \<Rightarrow> fetch_fallback rnd sh' s)))"

text \<open>\<open>fetchProducts\<close>: the memory cache at time \<open>t0\<close>, else a request to
  \<open>this.CSV_URL\<close> and the rest on its reply.\<close>

definition fetchProducts :: "int \<Rightarrow> int \<Rightarrow> (string \<Rightarrow> net_reply) \<Rightarrow> (nat \<Rightarrow> real) \<Rightarrow> sheets
    \<Rightarrow> storage \<Rightarrow> (fetch_error + product list) \<times> sheets \<times> storage" where
  "fetchProducts t0 t1 net rnd sh s =
     (case fresh_products t0 sh of
        Some ps \<Rightarrow> (Inr ps, sh, s)
      | None \<Rightarrow> fetch_resume t1 (net (csv_url sh)) rnd sh s)"

definition setSheetId :: "string \<Rightarrow> sheets \<Rightarrow> sheets" where
  "setSheetId sid sh = sh\<lparr>sheet_id := sid, csv_url := sheet_csv_url sid,
     cache_products := None, last_fetch := None\<rparr>"

text \<open>\<open>clearCache\<close>: the memory cache is reset before \<open>removeItem\<close>, which may
  throw.\<close>

definition clearCache :: "sheets \<Rightarrow> storage \<Rightarrow> (storage_error + unit) \<times> sheets \<times> storage" where
  "clearCache sh s =
     (let sh' = sh\<lparr>cache_products := None, last_fetch := None\<rparr>
      in (case remove_item PRODUCTS_CACHE_KEY s of
            Inl e \<Rightarrow> (Inl e, sh', s)
          | Inr s' \<Rightarrow> (Inr (), sh', s')))"

section \<open>Derived views\<close>

text \<open>\<open>[...new Set(products.map(p => p.category))]\<close>: distinct categories in the
  order they first appear.\<close>

definition categories_of :: "product list \<Rightarrow> string list" where
  "categories_of ps = foldl (\<lambda>acc c. if c \<in> set acc then acc else acc @ [c]) [] (map category ps)"

definition products_by_category :: "string \<Rightarrow> product list \<Rightarrow> product list" where
  "products_by_category c ps = filter (\<lambda>p. category p = c) ps"

text \<open>\<open>products.find(p => p.id === parseInt(id))\<close>: \<open>NaN\<close> equals nothing.\<close>

definition product_by_id :: "string \<Rightarrow> product list \<Rightarrow> product option" where
  "product_by_id sid ps = (case js_parseInt sid of None \<Rightarrow> None | Some k \<Rightarrow> find (\<lambda>p. pid p = k) ps)"

definition featured_products :: "product list \<Rightarrow> product list" where
  "featured_products ps = filter featured ps"

definition search_matches :: "string \<Rightarrow> product \<Rightarrow> bool" where
  "search_matches term p \<longleftrightarrow> js_includes (to_lower (pname p)) term
     \<or> js_includes (to_lower (description p)) term \<or> js_includes (to_lower (category p)) term"

definition search_products :: "string \<Rightarrow> product list \<Rightarrow> product list" where
  "search_products q ps = filter (search_matches (to_lower q)) ps"

text \<open>The service methods: one \<open>fetchProducts\<close>, then the view of its result.\<close>

definition fetch_view :: "(product list \<Rightarrow> 'a) \<Rightarrow> int \<Rightarrow> int \<Rightarrow> (string \<Rightarrow> net_reply)
    \<Rightarrow> (nat \<Rightarrow> real) \<Rightarrow> sheets \<Rightarrow> storage \<Rightarrow> (fetch_error + 'a) \<times> sheets \<times> storage" where
  "fetch_view f t0 t1 net rnd sh s =
     (case fetchProducts t0 t1 net rnd sh s of (r, sh', s') \<Rightarrow> (map_sum id f r, sh', s'))"

definition getCategories where "getCategories = fetch_view categories_of"
definition getProductsByCategory where "getProductsByCategory c = fetch_view (products_by_category c)"
definition getProductById where "getProductById sid = fetch_view (product_by_id sid)"
definition getFeaturedProducts where "getFeaturedProducts = fetch_view featured_products"
definition searchProducts where "searchProducts q = fetch_view (search_products q)"

text \<open>What a durable slot written by this service holds: nothing, or a cache
  object.\<close>

definition cache_slot_ok :: "storage \<Rightarrow> bool" where
  "cache_slot_ok s \<longleftrightarrow>
     (case slots s PRODUCTS_CACHE_KEY of
        None \<Rightarrow> True
      | Some (JsonText j) \<Rightarrow> (\<exists>ps t. j = cache_json ps t)
      | Some _ \<Rightarrow> False)"

definition demo_product :: product where
  "demo_product = \<lparr>pid = 42, pname = ''Cable'', category = ''c'', price = 1500, description = [],
     image_url = [], stock = 3, featured = False\<rparr>"

section \<open>Lemmas: the durable copy\<close>

lemma product_json_roundtrip [simp]: "product_of_json (product_to_json p) = Some p"
  by (simp add: product_of_json_def product_to_json_def)

lemma cached_products_cache_json [simp]: "cached_products (cache_json ps t) = Inr ps"
  by (simp add: cache_json_def comp_def)

lemma get_cache_after_write:
  "set_item PRODUCTS_CACHE_KEY (JsonText (cache_json ps t)) s = Inr s' \<Longrightarrow>
   fetch_fallback rnd sh s' = (Inr ps, sh, s')"
  by (simp add: fetch_fallback_def)

lemma fetch_fallback_state: "fetch_fallback rnd sh s = (r, sh', s') \<Longrightarrow> sh' = sh \<and> s' = s"
  by (auto simp: fetch_fallback_def split: sum.splits option.splits slot_text.splits)

lemma fresh_after_download:
  "t1 \<noteq> 0 \<Longrightarrow> t2 - t1 < CACHE_TIMEOUT \<Longrightarrow>
   fresh_products t2 (sh\<lparr>cache_products := Some ps, last_fetch := Some t1\<rparr>) = Some ps"
  by (simp add: fresh_products_def)

lemma fetch_fallback_slot_ok:
  "readable s \<Longrightarrow> cache_slot_ok s \<Longrightarrow> \<exists>ps. fst (fetch_fallback rnd sh s) = Inr ps"
  by (auto simp: fetch_fallback_def get_item_def cache_slot_ok_def split: option.splits slot_text.splits)

lemma cache_slot_ok_write:
  "set_item PRODUCTS_CACHE_KEY (JsonText (cache_json ps t)) s = Inr s' \<Longrightarrow> cache_slot_ok s'"
  by (auto simp: set_item_def cache_slot_ok_def split: if_splits) blast

lemma fetch_cases:
  "fetchProducts t0 t1 net rnd sh s = (r, sh', s') \<Longrightarrow>
     s' = s \<or> (\<exists>ps. set_item PRODUCTS_CACHE_KEY (JsonText (cache_json ps t1)) s = Inr s')"
  by (auto simp: fetchProducts_def fetch_resume_def Let_def dest: fetch_fallback_state
      split: option.splits net_reply.splits sum.splits)

section \<open>Lemmas: sample data\<close>

lemma pick_in_set:
  assumes "xs \<noteq> []" and "0 \<le> r" and "r < 1"
  shows "pick xs r \<in> set xs"
proof -
  have "0 \<le> r * real (length xs)" using assms by simp
  moreover have "r * real (length xs) < real (length xs)"
    using assms by (simp add: mult_less_cancel_right2)
  ultimately have "nat \<lfloor>r * real (length xs)\<rfloor> < length xs"
    by (simp add: nat_less_iff floor_less_iff)
  then show ?thesis by (simp add: pick_def)
qed

lemma floor_scaled_bounds:
  assumes "0 \<le> r" and "r < 1" and "0 < (n::int)"
  shows "0 \<le> \<lfloor>r * of_int n\<rfloor> \<and> \<lfloor>r * of_int n\<rfloor> \<le> n - 1"
proof -
  have "0 \<le> r * of_int n" using assms by simp
  moreover have "r * of_int n < of_int n" using assms by (simp add: mult_less_cancel_right2)
  ultimately show ?thesis by (simp add: floor_less_iff)
qed

lemma names_for_nonempty: "c \<in> set fallback_categories \<Longrightarrow> names_for c \<noteq> []"
  by (auto simp: fallback_categories_def names_for_def product_names_def)

lemma fallback_categories_nonempty: "fallback_categories \<noteq> []"
  by (simp add: fallback_categories_def)

lemma fallback_product_bounds:
  assumes "\<forall>k. 0 \<le> rnd k \<and> rnd k < 1" and "1 \<le> i"
  shows "pid (fallback_product rnd i) = int i
    \<and> category (fallback_product rnd i) \<in> set fallback_categories
    \<and> pname (fallback_product rnd i) \<noteq> []
    \<and> 10000 \<le> price (fallback_product rnd i) \<and> price (fallback_product rnd i) \<le> 99999
    \<and> 1 \<le> stock (fallback_product rnd i) \<and> stock (fallback_product rnd i) \<le> 50
    \<and> (featured (fallback_product rnd i) \<longleftrightarrow> i \<le> 10)"
proof -
  let ?k = "4 * (i - 1)"
  have c: "pick fallback_categories (rnd ?k) \<in> set fallback_categories"
    using assms(1) fallback_categories_nonempty by (simp add: pick_in_set)
  have p: "0 \<le> \<lfloor>rnd (?k + 2) * of_int 90000\<rfloor> \<and> \<lfloor>rnd (?k + 2) * of_int 90000\<rfloor> \<le> 90000 - 1"
    using assms(1) by (intro floor_scaled_bounds) auto
  have s: "0 \<le> \<lfloor>rnd (?k + 3) * of_int 50\<rfloor> \<and> \<lfloor>rnd (?k + 3) * of_int 50\<rfloor> \<le> 50 - 1"
    using assms(1) by (intro floor_scaled_bounds) auto
  from c p s show ?thesis by (simp add: fallback_product_def Let_def)
qed

section \<open>Properties\<close>

text \<open>A successful download is served from memory for the rest of the
  freshness window: a second \<open>fetchProducts\<close> within 5 minutes of the first
  returns the same list without looking at the network (its reply is arbitrary) and
  changes no state.\<close>

theorem fetch_then_cached:
  assumes "fresh_products t0 sh = None" and "net (csv_url sh) = Reply csv"
    and "readable s" and "writable s" and "t1 \<noteq> 0" and "t2 - t1 < CACHE_TIMEOUT"
    and "fetchProducts t0 t1 net rnd sh s = (r, sh', s')"
  shows "r = Inr (csvToJson csv) \<and> fetchProducts t2 t3 net' rnd' sh' s' = (Inr (csvToJson csv), sh', s')"
proof -
  obtain s'' where w: "set_item PRODUCTS_CACHE_KEY (JsonText (cache_json (csvToJson csv) t1)) s = Inr s''"
    using assms(3,4) by (auto simp: set_item_def)
  with assms(1,2,7) have "r = Inr (csvToJson csv)"
    and "sh' = sh\<lparr>cache_products := Some (csvToJson csv), last_fetch := Some t1\<rparr>"
    by (auto simp: fetchProducts_def fetch_resume_def Let_def)
  with assms(5,6) show ?thesis by (simp add: fetchProducts_def fetch_resume_def fresh_after_download)
qed

theorem fetch_then_cached_witness:
  "fresh_products 1000 init_sheets = None \<and> (\<lambda>_. Reply ''id,name'') (csv_url init_sheets) = Reply ''id,name''
   \<and> readable \<lparr>slots = Map.empty, readable = True, writable = True\<rparr>
   \<and> writable \<lparr>slots = Map.empty, readable = True, writable = True\<rparr> \<and> (1000::int) \<noteq> 0
   \<and> 2000 - 1000 < CACHE_TIMEOUT
   \<and> fst (fetchProducts 2000 2000 (\<lambda>_. NetFailure) (\<lambda>_. 0)
       (fst (snd (fetchProducts 1000 1000 (\<lambda>_. Reply ''id,name'') (\<lambda>_. 0) init_sheets
          \<lparr>slots = Map.empty, readable = True, writable = True\<rparr>)))
       (snd (snd (fetchProducts 1000 1000 (\<lambda>_. Reply ''id,name'') (\<lambda>_. 0) init_sheets
          \<lparr>slots = Map.empty, readable = True, writable = True\<rparr>)))) = Inr (csvToJson ''id,name'')"
proof -
  have f: "fresh_products 1000 init_sheets = None" by (simp add: fresh_products_def init_sheets_def)
  obtain r sh' s' where e: "fetchProducts 1000 1000 (\<lambda>_. Reply ''id,name'') (\<lambda>_. 0) init_sheets
      \<lparr>slots = Map.empty, readable = True, writable = True\<rparr> = (r, sh', s')"
    by (metis prod_cases3)
  from fetch_then_cached [OF f _ _ _ _ _ e, of "''id,name''" 2000 2000 "\<lambda>_. NetFailure" "\<lambda>_. 0"]
  show ?thesis using f e by (simp add: CACHE_TIMEOUT_def)
qed

text \<open>C22: the durable copy outlives the memory cache: after a download that was
  written to storage, any later call that misses the memory cache (a reload starts
  with an empty one) and meets a network failure returns the downloaded products.\<close>

theorem fetch_durable_fallback:
  assumes "fresh_products t0 sh = None" and "net (csv_url sh) = Reply csv"
    and "readable s" and "writable s"
    and "fetchProducts t0 t1 net rnd sh s = (r, sh', s')"
    and "fresh_products t2 sh2 = None" and "net2 (csv_url sh2) = NetFailure"
  shows "fetchProducts t2 t3 net2 rnd2 sh2 s' = (Inr (csvToJson csv), sh2, s')"
proof -
  obtain s'' where w: "set_item PRODUCTS_CACHE_KEY (JsonText (cache_json (csvToJson csv) t1)) s = Inr s''"
    using assms(3,4) by (auto simp: set_item_def)
  with assms(1,2,5) have "s' = s''" by (auto simp: fetchProducts_def fetch_resume_def Let_def)
  with w assms(6,7) show ?thesis by (simp add: fetchProducts_def fetch_resume_def get_cache_after_write)
qed

theorem fetch_durable_fallback_witness:
  "fresh_products 1000 init_sheets = None \<and> fresh_products 5000000 init_sheets = None
   \<and> fst (fetchProducts 5000000 5000000 (\<lambda>_. NetFailure) (\<lambda>_. 0) init_sheets
       (snd (snd (fetchProducts 1000 1000 (\<lambda>_. Reply ''id,name'') (\<lambda>_. 0) init_sheets
          \<lparr>slots = Map.empty, readable = True, writable = True\<rparr>)))) = Inr (csvToJson ''id,name'')"
proof -
  have f: "fresh_products 1000 init_sheets = None" "fresh_products 5000000 init_sheets = None"
    by (simp_all add: fresh_products_def init_sheets_def)
  obtain r sh' s' where e: "fetchProducts 1000 1000 (\<lambda>_. Reply ''id,name'') (\<lambda>_. 0) init_sheets
      \<lparr>slots = Map.empty, readable = True, writable = True\<rparr> = (r, sh', s')"
    by (metis prod_cases3)
  from fetch_durable_fallback [OF f(1) _ _ _ e f(2), of "''id,name''" "\<lambda>_. NetFailure" 5000000 "\<lambda>_. 0"]
  show ?thesis using f e by simp
qed

lemma fetch_resolves_result:
  assumes "readable s" and "cache_slot_ok s" and e: "fetchProducts t0 t1 net rnd sh s = (r, sh', s')"
  shows "\<exists>ps. r = Inr ps"
proof (cases "fresh_products t0 sh")
  case (Some ps)
  with e show ?thesis by (auto simp: fetchProducts_def fetch_resume_def)
next
  case None
  show ?thesis
  proof (cases "net (csv_url sh)")
    case NetFailure
    with None e have "fetch_fallback rnd sh s = (r, sh', s')" by (simp add: fetchProducts_def fetch_resume_def)
    with fetch_fallback_slot_ok [OF assms(1,2), of rnd sh] show ?thesis by (metis fst_conv)
  next
    case (Reply csv)
    let ?sh = "sh\<lparr>cache_products := Some (csvToJson csv), last_fetch := Some t1\<rparr>"
    show ?thesis
    proof (cases "set_item PRODUCTS_CACHE_KEY (JsonText (cache_json (csvToJson csv) t1)) s")
      case (Inl err)
      with None Reply e have "fetch_fallback rnd ?sh s = (r, sh', s')"
        by (simp add: fetchProducts_def fetch_resume_def Let_def)
      with fetch_fallback_slot_ok [OF assms(1,2), of rnd ?sh] show ?thesis by (metis fst_conv)
    next
      case (Inr s2)
      with None Reply e show ?thesis by (auto simp: fetchProducts_def fetch_resume_def Let_def)
    qed
  qed
qed

lemma fetch_keeps_slot:
  "cache_slot_ok s \<Longrightarrow> fetchProducts t0 t1 net rnd sh s = (r, sh', s') \<Longrightarrow> cache_slot_ok s' \<and> readable s' = readable s"
  using cache_slot_ok_write by (auto dest!: fetch_cases simp: set_item_def split: if_splits)

text \<open>C23: while the durable slot holds nothing or a cache object written by the
  service and the storage can be read, \<open>fetchProducts\<close> always resolves to a
  product list, and the slot keeps that shape.\<close>

theorem fetch_resolves:
  assumes "readable s" and "cache_slot_ok s"
  shows "(\<exists>ps. fst (fetchProducts t0 t1 net rnd sh s) = Inr ps)
         \<and> cache_slot_ok (snd (snd (fetchProducts t0 t1 net rnd sh s)))"
proof -
  obtain r sh' s' where e: "fetchProducts t0 t1 net rnd sh s = (r, sh', s')"
    by (metis prod_cases3)
  then show ?thesis
    using fetch_resolves_result [OF assms e] fetch_keeps_slot [OF assms(2) e] by simp
qed

theorem fetch_resolves_witness:
  "readable \<lparr>slots = Map.empty, readable = True, writable = False\<rparr>
   \<and> cache_slot_ok \<lparr>slots = Map.empty, readable = True, writable = False\<rparr>
   \<and> (\<exists>ps. fst (fetchProducts 0 0 (\<lambda>_. Reply ''id'') (\<lambda>_. 0) init_sheets
             \<lparr>slots = Map.empty, readable = True, writable = False\<rparr>) = Inr ps)"
  using fetch_resolves [of "\<lparr>slots = Map.empty, readable = True, writable = False\<rparr>" 0 0
      "\<lambda>_. Reply ''id''" "\<lambda>_. 0" init_sheets]
  by (simp add: cache_slot_ok_def)

text \<open>C24: a download that cannot be written to storage is not what the call
  returns: the memory cache holds the new products, but the result is the old
  durable copy or the sample data of the fallback path.\<close>

theorem fetch_write_failure_discards_download:
  assumes "fresh_products t0 sh = None" and "net (csv_url sh) = Reply csv"
    and "readable s" and "\<not> writable s"
  shows "fetchProducts t0 t1 net rnd sh s
     = (fst (fetch_fallback rnd sh s),
        sh\<lparr>cache_products := Some (csvToJson csv), last_fetch := Some t1\<rparr>, s)"
  using assms
  by (auto simp: fetchProducts_def fetch_resume_def Let_def set_item_def fetch_fallback_def
      split: option.splits sum.splits slot_text.splits)

theorem fetch_write_failure_discards_download_witness:
  "fresh_products 1000 init_sheets = None
   \<and> readable \<lparr>slots = Map.empty, readable = True, writable = False\<rparr>
   \<and> \<not> writable \<lparr>slots = Map.empty, readable = True, writable = False\<rparr>
   \<and> fst (fetchProducts 1000 1000 (\<lambda>_. Reply ''id,name'') (\<lambda>_. 0) init_sheets
          \<lparr>slots = Map.empty, readable = True, writable = False\<rparr>) = Inr (getFallbackData (\<lambda>_. 0))"
proof -
  have f: "fresh_products 1000 init_sheets = None" by (simp add: fresh_products_def init_sheets_def)
  from fetch_write_failure_discards_download [OF f, of "\<lambda>_. Reply ''id,name''" "''id,name''"
      "\<lparr>slots = Map.empty, readable = True, writable = False\<rparr>" 1000 "\<lambda>_. 0"]
  show ?thesis using f by (simp add: fetch_fallback_def get_item_def)
qed

text \<open>C25: the fallback path is not total as the spec says: a durable slot holding
  text \<open>JSON.parse\<close> rejects makes \<open>fetchProducts\<close> reject instead of returning the
  sample data.\<close>

theorem fetch_garbage_slot_rejects:
  assumes "fresh_products t0 sh = None" and "net (csv_url sh) = NetFailure"
    and "readable s" and "slots s PRODUCTS_CACHE_KEY = Some GarbageText"
  shows "fst (fetchProducts t0 t1 net rnd sh s) = Inl CacheSyntaxError"
  using assms by (simp add: fetchProducts_def fetch_resume_def fetch_fallback_def get_item_def)

theorem fetch_garbage_slot_rejects_witness:
  "fresh_products 0 init_sheets = None
   \<and> readable \<lparr>slots = [PRODUCTS_CACHE_KEY \<mapsto> GarbageText], readable = True, writable = True\<rparr>
   \<and> fst (fetchProducts 0 0 (\<lambda>_. NetFailure) (\<lambda>_. 0) init_sheets
       \<lparr>slots = [PRODUCTS_CACHE_KEY \<mapsto> GarbageText], readable = True, writable = True\<rparr>)
     = Inl CacheSyntaxError"
proof -
  have f: "fresh_products 0 init_sheets = None" by (simp add: fresh_products_def init_sheets_def)
  from fetch_garbage_slot_rejects [OF f, of "\<lambda>_. NetFailure"
      "\<lparr>slots = [PRODUCTS_CACHE_KEY \<mapsto> GarbageText], readable = True, writable = True\<rparr>" 0 "\<lambda>_. 0"]
  show ?thesis using f by simp
qed

text \<open>C26: the sample data: 150 products with ids 1 to 150, a category from the
  fixed set of five, a non-empty name, a price in \<open>[10000, 99999]\<close>, a stock in
  \<open>[1, 50]\<close>, and the first ten featured; so every sample product passes the
  ingestion rule.\<close>

theorem getFallbackData_bounds:
  assumes "\<forall>k. 0 \<le> rnd k \<and> rnd k < 1"
  shows "map pid (getFallbackData rnd) = map int [1..<151]
    \<and> (\<forall>p\<in>set (getFallbackData rnd). category p \<in> set fallback_categories \<and> keep_row p
        \<and> 10000 \<le> price p \<and> price p \<le> 99999 \<and> 1 \<le> stock p \<and> stock p \<le> 50
        \<and> (featured p \<longleftrightarrow> pid p \<le> 10))"
proof -
  have "map pid (getFallbackData rnd) = map int [1..<151]"
    using fallback_product_bounds [OF assms] by (simp add: getFallbackData_def)
  moreover have "\<forall>i\<in>set [1..<151]. category (fallback_product rnd i) \<in> set fallback_categories
      \<and> keep_row (fallback_product rnd i)
      \<and> 10000 \<le> price (fallback_product rnd i) \<and> price (fallback_product rnd i) \<le> 99999
      \<and> 1 \<le> stock (fallback_product rnd i) \<and> stock (fallback_product rnd i) \<le> 50
      \<and> (featured (fallback_product rnd i) \<longleftrightarrow> pid (fallback_product rnd i) \<le> 10)"
    using fallback_product_bounds [OF assms] by (auto simp: keep_row_def)
  ultimately show ?thesis by (simp add: getFallbackData_def)
qed

theorem getFallbackData_bounds_witness:
  "(\<forall>k. 0 \<le> (\<lambda>_. 0::real) k \<and> (\<lambda>_. 0::real) k < 1) \<and> length (getFallbackData (\<lambda>_. 0)) = 150
   \<and> list_all (\<lambda>p. 1 \<le> stock p \<and> stock p \<le> 50) (getFallbackData (\<lambda>_. 0))"
proof -
  have r: "\<forall>k. 0 \<le> (\<lambda>_. 0::real) k \<and> (\<lambda>_. 0::real) k < 1" by simp
  have "length (getFallbackData (\<lambda>_. 0)) = 150" by (simp add: getFallbackData_def)
  with getFallbackData_bounds [OF r] show ?thesis by (simp add: list_all_iff)
qed

lemma set_first_occurrences:
  "set (foldl (\<lambda>acc c. if c \<in> set acc then acc else acc @ [c]) [] xs) = set xs"
  by (induction xs rule: rev_induct) auto

lemma find_distinct_key:
  "distinct (map f xs) \<Longrightarrow> x \<in> set xs \<Longrightarrow> find (\<lambda>y. f y = f x) xs = Some x"
  by (induction xs) (auto simp: image_iff)

text \<open>\<open>getCategories\<close> lists each category of the product list once, in the
  order of first appearance: it equals the reference definition that reverses the
  list, drops all but the last copy of each element, and reverses back.\<close>

theorem categories_of_first_occurrence:
  "categories_of ps = rev (remdups (rev (map category ps)))"
proof -
  have "foldl (\<lambda>acc c. if c \<in> set acc then acc else acc @ [c]) [] xs = rev (remdups (rev xs))"
    for xs :: "string list"
  proof (induction xs rule: rev_induct)
    case Nil
    then show ?case by simp
  next
    case (snoc x xs)
    then show ?case by (simp add: set_first_occurrences)
  qed
  then show ?thesis by (simp add: categories_of_def)
qed

text \<open>The link a product card builds, \<open>/product/${product.id}\<close>, resolves back
  to that product: \<open>parseInt\<close> of the printed id is the id, so the lookup of the
  product page finds the product when ids are unique.\<close>

theorem product_link_roundtrip:
  assumes "p \<in> set ps" and "distinct (map pid ps)"
  shows "product_by_id (int_to_dec (pid p)) ps = Some p"
  using assms by (simp add: product_by_id_def parseInt_int_to_dec find_distinct_key)

theorem product_link_roundtrip_witness:
  "demo_product \<in> set [demo_product] \<and> distinct (map pid [demo_product])
   \<and> product_by_id (int_to_dec (pid demo_product)) [demo_product] = Some demo_product"
  using product_link_roundtrip [of demo_product "[demo_product]"] by simp

text \<open>\<open>clearCache\<close> with a readable storage empties both caches and touches
  no other storage slot; the next call misses the memory cache whatever the time.\<close>

theorem clearCache_resets:
  assumes "readable s"
  shows "\<exists>s'. clearCache sh s = (Inr (), sh\<lparr>cache_products := None, last_fetch := None\<rparr>, s')
            \<and> slots s' PRODUCTS_CACHE_KEY = None
            \<and> (\<forall>k. k \<noteq> PRODUCTS_CACHE_KEY \<longrightarrow> slots s' k = slots s k)
            \<and> (\<forall>t. fresh_products t (fst (snd (clearCache sh s))) = None)"
  using assms by (auto simp: clearCache_def remove_item_def fresh_products_def)

theorem clearCache_resets_witness:
  "readable \<lparr>slots = Map.empty, readable = True, writable = True\<rparr>
   \<and> fresh_products 0 (fst (snd (clearCache init_sheets \<lparr>slots = Map.empty, readable = True,
       writable = True\<rparr>))) = None"
  using clearCache_resets [of "\<lparr>slots = Map.empty, readable = True, writable = True\<rparr>" init_sheets]
  by auto

end
