(* ===== verification/Query.thy ===== *)
theory Query
  imports Catalog "HOL-Library.Multiset"
begin

text \<open>
  The product query layer: the hook \<open>useProductFilter\<close>
  (src/src/hooks/useProductFilter.js) and the context's own pipeline
  \<open>getFilteredProducts\<close> and \<open>getProductsForCurrentPage\<close>
  (src/src/context/AppContext.jsx). Both filter conjunctively and then call
  \<open>Array.prototype.sort\<close> with a comparator; the sort is modelled as the stable
  insertion sort \<open>js_sort\<close>, which for a consistent comparator gives the one result
  every stable sort gives (ECMAScript requires a stable sort). \<open>localeCompare\<close> is a
  parameter \<open>collate\<close>: the hook passes the locale \<open>'ar'\<close>, the context none,
  so the two are separate parameters. \<open>parseFloat\<close> is modelled with exact reals
  (no rounding, no overflow to \<open>Infinity\<close>).
\<close>

section \<open>parseFloat\<close>

datatype jsnum = Fin real | PInf | NInf

definition sign_split :: "string \<Rightarrow> bool \<times> string" where
  "sign_split s = (case s of c # r \<Rightarrow> if c = CHR ''-'' then (True, r)
                                     else if c = CHR ''+'' then (False, r) else (False, s)
                           | [] \<Rightarrow> (False, []))"

text \<open>An exponent part \<open>e[+-]digits\<close>; without a digit it is not part of the number.\<close>

definition exponent_of :: "string \<Rightarrow> int" where
  "exponent_of r =
     (case r of
        c # r' \<Rightarrow>
          if c = CHR ''e'' \<or> c = CHR ''E'' then
            (let (neg, ds) = sign_split r'; d = takeWhile dec_digit ds in
             if d = [] then 0 else if neg then - int (digits_value 10 d) else int (digits_value 10 d))
          else 0
      | [] \<Rightarrow> 0)"

definition scale10 :: "real \<Rightarrow> int \<Rightarrow> real" where
  "scale10 m e = (if 0 \<le> e then m * 10 ^ nat e else m / 10 ^ nat (- e))"

text \<open>\<open>parseFloat(s)\<close>: \<open>None\<close> is \<open>NaN\<close>.\<close>

definition js_parseFloat :: "string \<Rightarrow> jsnum option" where
  "js_parseFloat s =
     (let (neg, r) = sign_split (dropWhile js_space s) in
      if take 8 r = ''Infinity'' then Some (if neg then NInf else PInf)
      else
        (let ip = takeWhile dec_digit r; r1 = dropWhile dec_digit r;
             fp = (case r1 of c # r' \<Rightarrow> if c = CHR ''.'' then takeWhile dec_digit r' else [] | [] \<Rightarrow> []);
             r2 = (case r1 of c # r' \<Rightarrow> if c = CHR ''.'' then dropWhile dec_digit r' else r1 | [] \<Rightarrow> r1)
         in if ip = [] \<and> fp = [] then None
            else (let m = real (digits_value 10 ip) + real (digits_value 10 fp) / 10 ^ length fp;
                      v = scale10 m (exponent_of r2)
                  in Some (Fin (if neg then - v else v)))))"

text \<open>\<open>price >= x\<close> and \<open>price <= x\<close> for a parsed \<open>x\<close>; \<open>NaN\<close> compares false.\<close>

fun price_ge :: "int \<Rightarrow> jsnum option \<Rightarrow> bool" where
  "price_ge p (Some (Fin r)) = (r \<le> real_of_int p)"
| "price_ge p (Some PInf) = False"
| "price_ge p (Some NInf) = True"
| "price_ge p None = False"

fun price_le :: "int \<Rightarrow> jsnum option \<Rightarrow> bool" where
  "price_le p (Some (Fin r)) = (real_of_int p \<le> r)"
| "price_le p (Some PInf) = True"
| "price_le p (Some NInf) = False"
| "price_le p None = False"

section \<open>Array.prototype.sort\<close>

fun insert_by :: "('a \<Rightarrow> 'a \<Rightarrow> int) \<Rightarrow> 'a \<Rightarrow> 'a list \<Rightarrow> 'a list" where
  "insert_by cmp x [] = [x]"
| "insert_by cmp x (y # ys) = (if cmp x y \<le> 0 then x # y # ys else y # insert_by cmp x ys)"

definition js_sort :: "('a \<Rightarrow> 'a \<Rightarrow> int) \<Rightarrow> 'a list \<Rightarrow> 'a list" where
  "js_sort cmp xs = foldr (insert_by cmp) xs []"

section \<open>useProductFilter\<close>

record hook_filters =
  hf_category :: string
  hf_minPrice :: string
  hf_maxPrice :: string
  hf_inStock :: bool
  hf_searchQuery :: string

definition hook_init_filters :: hook_filters where
  "hook_init_filters = \<lparr>hf_category = [], hf_minPrice = [], hf_maxPrice = [], hf_inStock = False,
     hf_searchQuery = []\<rparr>"

text \<open>The comparator of the hook. \<open>newest\<close> compares \<open>new Date(x.createdAt || 0)\<close>
  and \<open>popular\<close> compares \<open>x.views || 0\<close>; the eight-column sheet has no
  \<open>createdAt\<close> or \<open>views\<close> column, so both compare 0 with 0.\<close>

definition hook_cmp :: "(string \<Rightarrow> string \<Rightarrow> int) \<Rightarrow> string \<Rightarrow> product \<Rightarrow> product \<Rightarrow> int" where
  "hook_cmp collate sortBy a b =
     (if sortBy = ''name'' then collate (pname a) (pname b)
      else if sortBy = ''name-desc'' then collate (pname b) (pname a)
      else if sortBy = ''price-asc'' then price a - price b
      else if sortBy = ''price-desc'' then price b - price a
      else if sortBy = ''newest'' then 0 - 0
      else if sortBy = ''popular'' then 0 - 0
      else 0)"

definition hook_filter :: "hook_filters \<Rightarrow> product list \<Rightarrow> product list" where
  "hook_filter f ps =
     (let s1 = (if hf_searchQuery f \<noteq> [] then filter (search_matches (to_lower (hf_searchQuery f))) ps
                else ps);
          s2 = (if hf_category f \<noteq> [] then filter (\<lambda>p. category p = hf_category f) s1 else s1);
          s3 = (if hf_minPrice f \<noteq> [] then filter (\<lambda>p. price_ge (price p) (js_parseFloat (hf_minPrice f))) s2
                else s2);
          s4 = (if hf_maxPrice f \<noteq> [] then filter (\<lambda>p. price_le (price p) (js_parseFloat (hf_maxPrice f))) s3
                else s3)
      in if hf_inStock f then filter (\<lambda>p. 0 < stock p) s4 else s4)"

definition filteredAndSortedProducts :: "(string \<Rightarrow> string \<Rightarrow> int) \<Rightarrow> hook_filters \<Rightarrow> string
    \<Rightarrow> product list \<Rightarrow> product list" where
  "filteredAndSortedProducts collate f sortBy ps =
     (if ps = [] then [] else js_sort (hook_cmp collate sortBy) (hook_filter f ps))"

text \<open>The hook's \<open>categories\<close>: the distinct categories, empty ones dropped.\<close>

definition hook_categories :: "product list \<Rightarrow> string list" where
  "hook_categories ps = (if ps = [] then [] else filter (\<lambda>c. c \<noteq> []) (categories_of ps))"

definition hook_priceRange :: "product list \<Rightarrow> int \<times> int" where
  "hook_priceRange ps = (if ps = [] then (0, 1000000) else (Min (set (map price ps)), Max (set (map price ps))))"

text \<open>The hook's state and its setters. \<open>handleFilterChange(newFilters)\<close> is
  \<open>{...prev, ...newFilters}\<close>: each field \<open>newFilters\<close> carries replaces the old
  one (\<open>None\<close> is a field it does not carry). HomePage takes these setters but
  passes the context's \<open>setFilters\<close> and \<open>setSortBy\<close> to FilterSort, so the hook
  keeps its initial state there.\<close>

record hook_state =
  hk_filters :: hook_filters
  hk_sortBy :: string

definition hook_init :: hook_state where
  "hook_init = \<lparr>hk_filters = hook_init_filters, hk_sortBy = ''name''\<rparr>"

record filter_patch =
  np_category :: "string option"
  np_minPrice :: "string option"
  np_maxPrice :: "string option"
  np_inStock :: "bool option"
  np_searchQuery :: "string option"

definition hook_handleFilterChange :: "filter_patch \<Rightarrow> hook_state \<Rightarrow> hook_state" where
  "hook_handleFilterChange np h =
     (let prev = hk_filters h
      in h\<lparr>hk_filters := prev\<lparr>hf_category := case_option (hf_category prev) id (np_category np),
           hf_minPrice := case_option (hf_minPrice prev) id (np_minPrice np),
           hf_maxPrice := case_option (hf_maxPrice prev) id (np_maxPrice np),
           hf_inStock := case_option (hf_inStock prev) id (np_inStock np),
           hf_searchQuery := case_option (hf_searchQuery prev) id (np_searchQuery np)\<rparr>\<rparr>)"

definition hook_handleSortChange :: "string \<Rightarrow> hook_state \<Rightarrow> hook_state" where
  "hook_handleSortChange v h = h\<lparr>hk_sortBy := v\<rparr>"

definition handleSearchChange :: "string \<Rightarrow> hook_filters \<Rightarrow> hook_filters" where
  "handleSearchChange q prev = prev\<lparr>hf_searchQuery := q\<rparr>"

section \<open>The context's pipeline\<close>

record ctx_filters =
  cf_category :: string
  cf_minPrice :: string
  cf_maxPrice :: string
  cf_inStock :: bool

definition ctx_init_filters :: ctx_filters where
  "ctx_init_filters = \<lparr>cf_category = [], cf_minPrice = [], cf_maxPrice = [], cf_inStock = False\<rparr>"

text \<open>\<open>state.currentCategory\<close> is \<open>null\<close> or a string; both \<open>null\<close> and the
  empty string are falsy.\<close>

definition truthy_str :: "string option \<Rightarrow> bool" where
  "truthy_str c = (case c of Some s \<Rightarrow> s \<noteq> [] | None \<Rightarrow> False)"

text \<open>The filters of \<open>getFilteredProducts\<close>; the first component says whether
  any \<open>filter\<close> ran, that is whether \<open>filtered\<close> is still \<open>state.products\<close>
  itself. \<open>product.inStock\<close> reads a column the eight-column sheet does not
  have, so it is \<open>undefined\<close> on every product and the filter keeps nothing.\<close>

definition ctx_filter :: "product list \<Rightarrow> string option \<Rightarrow> string \<Rightarrow> ctx_filters
    \<Rightarrow> bool \<times> product list" where
  "ctx_filter ps cur q f =
     (let (c1, s1) = (if cf_category f \<noteq> [] then (True, filter (\<lambda>p. category p = cf_category f) ps)
                     else if truthy_str cur then (True, filter (\<lambda>p. Some (category p) = cur) ps)
                     else (False, ps));
          (c2, s2) = (if q \<noteq> [] then (True, filter (search_matches (to_lower q)) s1) else (c1, s1));
          (c3, s3) = (if cf_minPrice f \<noteq> [] then (True, filter (\<lambda>p. price_ge (price p) (js_parseFloat (cf_minPrice f))) s2)
                      else (c2, s2));
          (c4, s4) = (if cf_maxPrice f \<noteq> [] then (True, filter (\<lambda>p. price_le (price p) (js_parseFloat (cf_maxPrice f))) s3)
                      else (c3, s3))
      in if cf_inStock f then (True, filter (\<lambda>p. False) s4) else (c4, s4))"

text \<open>The \<open>switch\<close> on \<open>state.sortBy\<close>: \<open>None\<close> where no sort is called.\<close>

definition ctx_cmp :: "(string \<Rightarrow> string \<Rightarrow> int) \<Rightarrow> string \<Rightarrow> (product \<Rightarrow> product \<Rightarrow> int) option" where
  "ctx_cmp collate sortBy =
     (if sortBy = ''name'' then Some (\<lambda>a b. collate (pname a) (pname b))
      else if sortBy = ''name-desc'' then Some (\<lambda>a b. collate (pname b) (pname a))
      else if sortBy = ''price-asc'' then Some (\<lambda>a b. price a - price b)
      else if sortBy = ''price-desc'' then Some (\<lambda>a b. price b - price a)
      else if sortBy = ''newest'' then Some (\<lambda>a b. pid b - pid a)
      else None)"

text \<open>\<open>getFilteredProducts\<close>: the result, and \<open>state.products\<close> afterwards, which
  \<open>filtered.sort(...)\<close> rearranges in place when no filter made a copy.\<close>

definition getFilteredProducts :: "(string \<Rightarrow> string \<Rightarrow> int) \<Rightarrow> product list \<Rightarrow> string option
    \<Rightarrow> string \<Rightarrow> ctx_filters \<Rightarrow> string \<Rightarrow> product list \<times> product list" where
  "getFilteredProducts collate ps cur q f sortBy =
     (let (copied, xs) = ctx_filter ps cur q f;
          ys = (case ctx_cmp collate sortBy of Some cmp \<Rightarrow> js_sort cmp xs | None \<Rightarrow> xs)
      in (ys, if copied then ps else ys))"

section \<open>Slicing\<close>

text \<open>\<open>xs.slice(a, b)\<close>: negative positions count from the end, both are clamped
  to \<open>[0, length]\<close>.\<close>

definition js_index :: "int \<Rightarrow> nat \<Rightarrow> nat" where
  "js_index k n = (if k < 0 then nat (max 0 (int n + k)) else min (nat k) n)"

definition js_slice :: "'a list \<Rightarrow> int \<Rightarrow> int \<Rightarrow> 'a list" where
  "js_slice xs a b = (let i = js_index a (length xs); j = js_index b (length xs) in take (j - i) (drop i xs))"

definition getProductsForCurrentPage :: "int \<Rightarrow> int \<Rightarrow> 'a list \<Rightarrow> 'a list" where
  "getProductsForCurrentPage currentPage perPage xs =
     (let last = currentPage * perPage; first = last - perPage in js_slice xs first last)"

section \<open>Lemmas\<close>

text \<open>The hook's setters: a patch carrying every field sets the filters to exactly
  those values, whatever they were; a patch carrying only \<open>searchQuery\<close> is
  \<open>handleSearchChange\<close>.\<close>

lemma hook_filter_patch_full:
  "hook_handleFilterChange \<lparr>np_category = Some (hf_category f), np_minPrice = Some (hf_minPrice f),
      np_maxPrice = Some (hf_maxPrice f), np_inStock = Some (hf_inStock f), np_searchQuery = Some (hf_searchQuery f)\<rparr> h
   = h\<lparr>hk_filters := f\<rparr>"
  by (simp add: hook_handleFilterChange_def)

lemma hook_filter_patch_search:
  "hook_handleFilterChange \<lparr>np_category = None, np_minPrice = None, np_maxPrice = None, np_inStock = None,
      np_searchQuery = Some q\<rparr> h
   = h\<lparr>hk_filters := handleSearchChange q (hk_filters h)\<rparr>"
  by (simp add: hook_handleFilterChange_def handleSearchChange_def)

lemma insert_by_key:
  assumes "\<And>x y. cmp x y \<le> 0 \<longleftrightarrow> key x \<le> key y"
  shows "insert_by cmp x ys = insort_key key x ys"
  by (induction ys) (simp_all add: assms)

lemma js_sort_key:
  assumes "\<And>x y. cmp x y \<le> 0 \<longleftrightarrow> key x \<le> key y"
  shows "js_sort cmp xs = sort_key key xs"
proof -
  have "insert_by cmp = insort_key key" by (intro ext) (rule insert_by_key [OF assms])
  then show ?thesis by (simp add: js_sort_def sort_key_def)
qed

lemma mset_insert_by [simp]: "mset (insert_by cmp x ys) = add_mset x (mset ys)"
  by (induction ys) auto

lemma mset_js_sort [simp]: "mset (js_sort cmp xs) = mset xs"
  by (induction xs) (simp_all add: js_sort_def)

lemma js_sort_const: "js_sort (\<lambda>a b. 0) xs = xs"
proof -
  have "insert_by (\<lambda>a b. 0) x ys = x # ys" for x :: 'a and ys by (cases ys) simp_all
  then show ?thesis by (induction xs) (simp_all add: js_sort_def)
qed

lemma sign_split_digit: "dec_digit c \<Longrightarrow> sign_split (c # r) = (False, c # r)"
  using dec_digit_not_sign [of c] by (simp add: sign_split_def)

lemma digit_not_I: "dec_digit c \<Longrightarrow> take 8 (c # r) \<noteq> ''Infinity''"
  by (auto simp: dec_digit_def)

lemma parseFloat_signed:
  assumes "\<forall>c\<in>set d. dec_digit c" and "d \<noteq> []" and "sign_split (dropWhile js_space s) = (neg, d)"
  shows "js_parseFloat s = Some (Fin (if neg then - real (digits_value 10 d) else real (digits_value 10 d)))"
proof -
  obtain c r where d: "d = c # r" using assms(2) by (cases d) auto
  have c: "dec_digit c" using assms(1) d by simp
  have tw: "takeWhile dec_digit d = d" using assms(1) by (rule takeWhile_all)
  have dd: "dropWhile dec_digit d = []" using assms(1) by simp
  have "js_parseFloat s = (if take 8 d = ''Infinity'' then Some (if neg then NInf else PInf)
      else (let v = scale10 (real (digits_value 10 d) + real (digits_value 10 []) / 10 ^ 0) (exponent_of [])
            in Some (Fin (if neg then - v else v))))"
    unfolding js_parseFloat_def assms(3) Let_def prod.case tw dd
    using assms(2) by simp
  then show ?thesis
    using d c digit_not_I [OF c] by (simp add: exponent_of_def scale10_def digits_value_def)
qed

lemma parseFloat_nat_to_dec: "js_parseFloat (nat_to_dec n) = Some (Fin (real n))"
proof -
  obtain c r where d: "nat_to_dec n = c # r" by (cases "nat_to_dec n") auto
  have c: "dec_digit c" using nat_to_dec_digits [of n] d by simp
  have "sign_split (dropWhile js_space (nat_to_dec n)) = (False, nat_to_dec n)"
    using d c dec_digit_not_sign [OF c] by (simp add: sign_split_digit)
  from parseFloat_signed [OF nat_to_dec_digits nat_to_dec_ne this] show ?thesis
    by (simp add: nat_to_dec_value)
qed

lemma parseFloat_int_to_dec: "js_parseFloat (int_to_dec i) = Some (Fin (real_of_int i))"
proof (cases "i < 0")
  case True
  have "sign_split (dropWhile js_space (int_to_dec i)) = (True, nat_to_dec (nat (- i)))"
    using True by (simp add: int_to_dec_def sign_split_def js_space_def)
  from parseFloat_signed [OF nat_to_dec_digits nat_to_dec_ne this] show ?thesis
    using True by (simp add: nat_to_dec_value)
next
  case False
  then show ?thesis using parseFloat_nat_to_dec [of "nat i"] by (simp add: int_to_dec_def)
qed


lemma parseFloat_Nil [simp]: "js_parseFloat [] = None"
  by (simp add: js_parseFloat_def sign_split_def)

lemma hook_cmp_price_asc: "js_sort (hook_cmp collate ''price-asc'') xs = sort_key price xs"
  by (rule js_sort_key) (simp add: hook_cmp_def)

text \<open>With a minimum and a maximum price that parseFloat reads as numbers a and b,
  no other filter and the sort "price-asc", the hook returns exactly the products whose
  price lies in [a, b], sorted by price ascending, products of equal price in their
  catalogue order.\<close>

theorem hook_price_range_sorted:
  assumes "js_parseFloat lo = Some (Fin a)" and "js_parseFloat hi = Some (Fin b)"
  shows "filteredAndSortedProducts collate (hook_init_filters\<lparr>hf_minPrice := lo, hf_maxPrice := hi\<rparr>) ''price-asc'' ps
         = sort_key price (filter (\<lambda>p. a \<le> real_of_int (price p) \<and> real_of_int (price p) \<le> b) ps)"
proof -
  have "lo \<noteq> []" "hi \<noteq> []" using assms by auto
  then show ?thesis
    using assms by (simp add: filteredAndSortedProducts_def hook_filter_def hook_init_filters_def
        hook_cmp_price_asc)
qed

theorem hook_price_range_sorted_witness:
  "js_parseFloat ''1000'' = Some (Fin 1000) \<and> js_parseFloat ''5000'' = Some (Fin 5000)
   \<and> filteredAndSortedProducts (\<lambda>x y. 0) (hook_init_filters\<lparr>hf_minPrice := ''1000'', hf_maxPrice := ''5000''\<rparr>)
       ''price-asc'' [demo_product] = sort_key price (filter (\<lambda>p. 1000 \<le> real_of_int (price p) \<and> real_of_int (price p) \<le> 5000) [demo_product])"
proof -
  have a: "js_parseFloat ''1000'' = Some (Fin 1000)" "js_parseFloat ''5000'' = Some (Fin 5000)"
    by (simp_all add: js_parseFloat_def sign_split_def exponent_of_def scale10_def js_eval)
  show ?thesis using hook_price_range_sorted [OF a, of "\<lambda>x y. 0" "[demo_product]"] a by simp
qed

text \<open>C29: the context's stock filter tests the field product.inStock, which no product
  has: with the filter on, getFilteredProducts returns the empty list.\<close>

theorem ctx_inStock_empty:
  assumes "cf_inStock f"
  shows "fst (getFilteredProducts collate ps cur q f sortBy) = []"
  using assms by (auto simp: getFilteredProducts_def ctx_filter_def js_sort_def split: prod.splits option.splits)

theorem ctx_inStock_empty_witness:
  "cf_inStock (ctx_init_filters\<lparr>cf_inStock := True\<rparr>)
   \<and> fst (getFilteredProducts (\<lambda>x y. 0) [demo_product] None [] (ctx_init_filters\<lparr>cf_inStock := True\<rparr>) ''name'') = []"
  using ctx_inStock_empty [of "ctx_init_filters\<lparr>cf_inStock := True\<rparr>" "\<lambda>x y. 0" "[demo_product]" None "[]" "''name''"]
  by simp

text \<open>C27: with no category, search or filter active, getFilteredProducts sorts
  state.products itself in place: after a call with "price-asc" the context's product
  list is the sorted list.\<close>

theorem ctx_sort_mutates_products:
  "getFilteredProducts collate ps None [] ctx_init_filters ''price-asc'' = (sort_key price ps, sort_key price ps)"
proof -
  have "js_sort (\<lambda>a b. price a - price b) ps = sort_key price ps" by (rule js_sort_key) simp
  then show ?thesis
    by (simp add: getFilteredProducts_def ctx_filter_def ctx_init_filters_def truthy_str_def ctx_cmp_def Let_def)
qed


lemma ctx_cmp_hook:
  "s \<in> {''name'', ''name-desc'', ''price-asc'', ''price-desc''} \<Longrightarrow> ctx_cmp collate s = Some (hook_cmp collate s)"
  by (auto simp: ctx_cmp_def hook_cmp_def fun_eq_iff)

lemma ctx_filter_plain:
  "ctx_filter ps None q \<lparr>cf_category = c, cf_minPrice = lo, cf_maxPrice = hi, cf_inStock = False\<rparr>
   = (c \<noteq> [] \<or> q \<noteq> [] \<or> lo \<noteq> [] \<or> hi \<noteq> [],
      hook_filter \<lparr>hf_category = c, hf_minPrice = lo, hf_maxPrice = hi, hf_inStock = False, hf_searchQuery = q\<rparr> ps)"
  by (simp add: ctx_filter_def hook_filter_def truthy_str_def Let_def conj_ac)

text \<open>For the sorts by name and by price, with no current category and the stock
  filter off, the context's getFilteredProducts and the hook's pipeline return the same
  list: they apply the same filters in a different order and the same comparator.\<close>

theorem ctx_hook_agree:
  assumes "s \<in> {''name'', ''name-desc'', ''price-asc'', ''price-desc''}" and "ps \<noteq> []"
  shows "fst (getFilteredProducts collate ps None q \<lparr>cf_category = c, cf_minPrice = lo, cf_maxPrice = hi, cf_inStock = False\<rparr> s)
         = filteredAndSortedProducts collate \<lparr>hf_category = c, hf_minPrice = lo, hf_maxPrice = hi, hf_inStock = False,
             hf_searchQuery = q\<rparr> s ps"
  using assms by (simp add: getFilteredProducts_def ctx_filter_plain ctx_cmp_hook filteredAndSortedProducts_def Let_def)

theorem ctx_hook_agree_witness:
  "''price-desc'' \<in> {''name'', ''name-desc'', ''price-asc'', ''price-desc''} \<and> [demo_product] \<noteq> []
   \<and> fst (getFilteredProducts (\<lambda>x y. 0) [demo_product] None [] \<lparr>cf_category = [], cf_minPrice = [], cf_maxPrice = [],
         cf_inStock = False\<rparr> ''price-desc'')
     = filteredAndSortedProducts (\<lambda>x y. 0) \<lparr>hf_category = [], hf_minPrice = [], hf_maxPrice = [], hf_inStock = False,
         hf_searchQuery = []\<rparr> ''price-desc'' [demo_product]"
  using ctx_hook_agree [of "''price-desc''" "[demo_product]" "\<lambda>x y. 0" "[]" "[]" "[]" "[]"] by simp

text \<open>C28: the two implementations of the sort "newest" disagree: the hook compares the
  missing createdAt fields and leaves the list in catalogue order, the context sorts by
  id descending.\<close>

theorem newest_sorts_diverge:
  "filteredAndSortedProducts collate hook_init_filters ''newest'' ps = ps
   \<and> fst (getFilteredProducts collate ps None [] ctx_init_filters ''newest'') = sort_key (\<lambda>p. - pid p) ps"
proof -
  have h: "hook_cmp collate ''newest'' = (\<lambda>a b. 0)" by (simp add: hook_cmp_def fun_eq_iff)
  have c: "js_sort (\<lambda>a b. pid b - pid a) ps = sort_key (\<lambda>p. - pid p) ps" by (rule js_sort_key) simp
  show ?thesis
    using c by (simp add: filteredAndSortedProducts_def h js_sort_const hook_filter_def hook_init_filters_def
        getFilteredProducts_def ctx_filter_def ctx_init_filters_def truthy_str_def ctx_cmp_def Let_def)
qed

lemma js_slice_nat:
  assumes "a \<le> b"
  shows "js_slice xs (int a) (int b) = take (b - a) (drop a xs)"
proof (cases "a \<le> length xs")
  case True
  then show ?thesis using assms by (simp add: js_slice_def js_index_def min_def)
next
  case False
  then show ?thesis using assms by (simp add: js_slice_def js_index_def min_def)
qed

text \<open>For a page number k of at least 1, getProductsForCurrentPage returns the
  per items that start at position (k - 1) * per.\<close>

theorem page_slice:
  assumes "1 \<le> k"
  shows "getProductsForCurrentPage (int k) (int per) xs = take per (drop ((k - 1) * per) xs)"
proof -
  obtain j where k: "k = Suc j" using assms by (cases k) auto
  have "getProductsForCurrentPage (int k) (int per) xs = js_slice xs (int (j * per)) (int (j * per + per))"
    unfolding getProductsForCurrentPage_def Let_def k by (simp add: algebra_simps)
  then show ?thesis using js_slice_nat [of "j * per" "j * per + per" xs] k by simp
qed

theorem page_slice_witness:
  "1 \<le> (2::nat) \<and> getProductsForCurrentPage 2 2 [1::int, 2, 3, 4, 5] = [3, 4]"
  using page_slice [of 2 2 "[1::int, 2, 3, 4, 5]"] by simp


text \<open>The price range the hook reports bounds every product: entering its minimum
  and maximum, printed in decimal, as the price filter keeps the whole list.\<close>

theorem priceRange_keeps_all:
  assumes "ps \<noteq> []" and "hook_priceRange ps = (lo, hi)"
  shows "hook_filter (hook_init_filters\<lparr>hf_minPrice := int_to_dec lo, hf_maxPrice := int_to_dec hi\<rparr>) ps = ps"
proof -
  have "lo \<le> price p \<and> price p \<le> hi" if "p \<in> set ps" for p
    using assms that by (auto simp: hook_priceRange_def)
  then show ?thesis
    by (simp add: hook_filter_def hook_init_filters_def parseFloat_int_to_dec)
qed

theorem priceRange_keeps_all_witness:
  "[demo_product] \<noteq> [] \<and> hook_priceRange [demo_product] = (price demo_product, price demo_product)
   \<and> hook_filter (hook_init_filters\<lparr>hf_minPrice := int_to_dec (price demo_product),
       hf_maxPrice := int_to_dec (price demo_product)\<rparr>) [demo_product] = [demo_product]"
proof -
  have r: "hook_priceRange [demo_product] = (price demo_product, price demo_product)"
    by (simp add: hook_priceRange_def)
  show ?thesis using priceRange_keeps_all [OF _ r] r by simp
qed

end
