(* ===== verification/Paging.thy ===== *)
theory Paging
  imports Query
begin

text \<open>
  Pagination: the hook \<open>usePagination\<close> (src/src/hooks/usePagination.js), the page
  strip the hook builds (\<open>getPageRange\<close>) and the one \<open>HomePage\<close> builds inline
  for the context's pages (src/src/pages/HomePage.jsx), and the visibility rule of
  src/src/components/Pagination.jsx. Page numbers are JavaScript numbers used as
  integers, so they are \<open>int\<close>; the data is seen only through its length and the
  \<open>slice\<close> of Query. \<open>itemsPerPage\<close> is a positive literal at every call
  (100 in ProductGrid, 60 in the context), so \<open>Math.ceil(n / per)\<close> is the integer
  ceiling \<open>(n + per - 1) div per\<close>.
\<close>

datatype page_item = PageNum int | Dots

definition totalPages :: "nat \<Rightarrow> nat \<Rightarrow> int" where
  "totalPages n per = int ((n + per - 1) div per)"

record pager =
  pg_len :: nat
  pg_page :: int

definition pager_init :: "nat \<Rightarrow> pager" where
  "pager_init n = \<lparr>pg_len = n, pg_page = 1\<rparr>"

definition currentData :: "'a list \<Rightarrow> int \<Rightarrow> nat \<Rightarrow> 'a list" where
  "currentData xs cur per =
     (let startIndex = (cur - 1) * int per; endIndex = startIndex + int per in js_slice xs startIndex endIndex)"

definition nextPage :: "nat \<Rightarrow> pager \<Rightarrow> pager" where
  "nextPage per p = p\<lparr>pg_page := min (pg_page p + 1) (totalPages (pg_len p) per)\<rparr>"

definition prevPage :: "pager \<Rightarrow> pager" where
  "prevPage p = p\<lparr>pg_page := max (pg_page p - 1) 1\<rparr>"

definition goToPage :: "nat \<Rightarrow> int \<Rightarrow> pager \<Rightarrow> pager" where
  "goToPage per page p = p\<lparr>pg_page := max 1 (min page (totalPages (pg_len p) per))\<rparr>"

definition resetPage :: "pager \<Rightarrow> pager" where
  "resetPage p = p\<lparr>pg_page := 1\<rparr>"

definition hasNextPage :: "nat \<Rightarrow> pager \<Rightarrow> bool" where
  "hasNextPage per p \<longleftrightarrow> pg_page p < totalPages (pg_len p) per"

definition hasPrevPage :: "pager \<Rightarrow> bool" where
  "hasPrevPage p \<longleftrightarrow> 1 < pg_page p"

definition startIndex :: "nat \<Rightarrow> pager \<Rightarrow> int" where
  "startIndex per p = (pg_page p - 1) * int per + 1"

definition endIndex :: "nat \<Rightarrow> pager \<Rightarrow> int" where
  "endIndex per p = min (pg_page p * int per) (int (pg_len p))"

text \<open>The \<open>for\<close> loop of \<open>getPageRange\<close>: \<open>i\<close> counts up from the start
  and \<open>range.push(i)\<close> appends while \<open>i <= stop\<close>. It terminates because
  \<open>stop - i + 1\<close> decreases on every iteration.\<close>

function range_loop :: "int \<Rightarrow> int \<Rightarrow> int list \<Rightarrow> int list" where
  "range_loop i stop rg = (if i \<le> stop then range_loop (i + 1) stop (rg @ [i]) else rg)"
  by pat_completeness auto
termination
  by (relation "measure (\<lambda>(i, stop, _). nat (stop - i + 1))") auto

declare range_loop.simps [simp del]

text \<open>The hook's \<open>getPageRange\<close>, with \<open>delta = 2\<close>.\<close>

definition hook_page_range :: "int \<Rightarrow> int \<Rightarrow> page_item list" where
  "hook_page_range cur tp =
     (let range = map PageNum (range_loop (max 2 (cur - 2)) (min (tp - 1) (cur + 2)) [])
      in (if cur - 2 > 2 then [PageNum 1, Dots] else [PageNum 1]) @ range
         @ (if cur + 2 < tp - 1 then [Dots, PageNum tp] else [PageNum tp]))"

text \<open>The \<open>getPageRange\<close> that HomePage passes to Pagination.\<close>

definition home_page_range :: "int \<Rightarrow> int \<Rightarrow> page_item list" where
  "home_page_range cur tp =
     (let start = max 1 (cur - 2); stop = min tp (cur + 2)
      in (if start > 1 then PageNum 1 # (if start > 2 then [Dots] else []) else [])
         @ map PageNum [start..stop]
         @ (if stop < tp then (if stop < tp - 1 then [Dots] else []) @ [PageNum tp] else []))"

text \<open>Pagination renders nothing when \<open>totalPages <= 1\<close>.\<close>

definition pagination_visible :: "int \<Rightarrow> bool" where
  "pagination_visible tp \<longleftrightarrow> \<not> tp \<le> 1"

fun page_nums :: "page_item list \<Rightarrow> int list" where
  "page_nums [] = []"
| "page_nums (PageNum k # r) = k # page_nums r"
| "page_nums (Dots # r) = page_nums r"

text \<open>A page strip is well formed when it starts and ends with a page number, and
  an ellipsis stands exactly where pages are skipped: two page numbers side by side
  are consecutive, and the two around an ellipsis are not.\<close>

fun gaps_marked :: "page_item list \<Rightarrow> bool" where
  "gaps_marked [PageNum a] = True"
| "gaps_marked (PageNum a # PageNum b # r) = (b = a + 1 \<and> gaps_marked (PageNum b # r))"
| "gaps_marked (PageNum a # Dots # PageNum b # r) = (a + 1 < b \<and> gaps_marked (PageNum b # r))"
| "gaps_marked _ = False"

text \<open>What the user does to the hook: the buttons of Pagination (which call
  \<open>goToPage\<close> through \<open>onPageChange\<close>, or \<open>nextPage\<close> and \<open>prevPage\<close>) and a
  new \<open>products\<close> array, on which ProductGrid's effect calls \<open>resetPage\<close>.\<close>

datatype pager_event = Next | Prev | GoTo int | NewData nat

fun pager_step :: "nat \<Rightarrow> pager_event \<Rightarrow> pager \<Rightarrow> pager" where
  "pager_step per Next p = nextPage per p"
| "pager_step per Prev p = prevPage p"
| "pager_step per (GoTo k) p = goToPage per k p"
| "pager_step per (NewData n) p = resetPage (p\<lparr>pg_len := n\<rparr>)"

text \<open>Pagination is only rendered, and its buttons only enabled, when there are at
  least two pages; next and previous are disabled at the ends.\<close>

fun pager_enabled :: "nat \<Rightarrow> pager_event \<Rightarrow> pager \<Rightarrow> bool" where
  "pager_enabled per Next p = (pagination_visible (totalPages (pg_len p) per) \<and> hasNextPage per p)"
| "pager_enabled per Prev p = (pagination_visible (totalPages (pg_len p) per) \<and> hasPrevPage p)"
| "pager_enabled per (GoTo k) p = pagination_visible (totalPages (pg_len p) per)"
| "pager_enabled per (NewData n) p = True"

inductive pager_reach :: "nat \<Rightarrow> nat \<Rightarrow> pager \<Rightarrow> bool" where
  start: "pager_reach per n (pager_init n)"
| step: "pager_reach per n p \<Longrightarrow> pager_enabled per e p \<Longrightarrow> pager_reach per n (pager_step per e p)"

section \<open>Pagination's props and what it renders\<close>

record pagination_props =
  pp_currentPage :: int
  pp_totalPages :: int
  pp_hasNextPage :: bool
  pp_hasPrevPage :: bool
  pp_pageRange :: "page_item list"
  pp_totalItems :: int
  pp_startIndex :: int
  pp_endIndex :: int

text \<open>What \<open>usePagination\<close> returns, as ProductGrid passes it on to Pagination.\<close>

definition hook_props :: "nat \<Rightarrow> pager \<Rightarrow> pagination_props" where
  "hook_props per p =
     \<lparr>pp_currentPage = pg_page p, pp_totalPages = totalPages (pg_len p) per,
      pp_hasNextPage = hasNextPage per p, pp_hasPrevPage = hasPrevPage p,
      pp_pageRange = hook_page_range (pg_page p) (totalPages (pg_len p) per),
      pp_totalItems = int (pg_len p), pp_startIndex = startIndex per p, pp_endIndex = endIndex per p\<rparr>"

text \<open>The props HomePage computes inline for its own Pagination, from the current
  page, \<open>productsPerPage\<close> and the length of \<open>productsAfterFilter\<close>.\<close>

definition home_props :: "int \<Rightarrow> int \<Rightarrow> int \<Rightarrow> pagination_props" where
  "home_props cur per n =
     (let tp = totalPages (nat n) (nat per)
      in \<lparr>pp_currentPage = cur, pp_totalPages = tp, pp_hasNextPage = cur < tp, pp_hasPrevPage = 1 < cur,
          pp_pageRange = home_page_range cur tp, pp_totalItems = n, pp_startIndex = (cur - 1) * per + 1,
          pp_endIndex = min (cur * per) n\<rparr>)"

text \<open>What Pagination renders, when it renders: the "from - to of" label, whether
  the previous button is disabled, the page buttons and ellipses with the current page
  marked, whether the next button is disabled, and the small screens' "page of"
  line.\<close>

datatype pagination_view = PaginationView int int int bool "(page_item \<times> bool) list" bool int int

definition pagination_render :: "pagination_props \<Rightarrow> pagination_view option" where
  "pagination_render pp =
     (if pagination_visible (pp_totalPages pp)
      then Some (PaginationView (pp_startIndex pp) (pp_endIndex pp) (pp_totalItems pp) (\<not> pp_hasPrevPage pp)
                  (map (\<lambda>i. (i, i = PageNum (pp_currentPage pp))) (pp_pageRange pp)) (\<not> pp_hasNextPage pp)
                  (pp_currentPage pp) (pp_totalPages pp))
      else None)"

section \<open>Lemmas\<close>

lemma range_loop_upto [simp]: "range_loop i stop rg = rg @ [i..stop]"
proof (induction i stop rg rule: range_loop.induct)
  case (1 i stop rg)
  then show ?case by (cases "i \<le> stop") (simp_all add: range_loop.simps upto_rec1 [of i stop])
qed

lemma upto_snoc: "a \<le> b \<Longrightarrow> [a..b] = [a..b - 1] @ [b]"
  by (simp add: upto_rec2)

lemma upto_cons: "a \<le> b \<Longrightarrow> [a..b] = a # [a + 1..b]"
  by (simp add: upto_rec1)

text \<open>On every page of a list of at least two pages, the page strip of the
  usePagination hook and the one HomePage builds inline are the same list of page
  numbers and ellipses.\<close>

theorem page_ranges_agree:
  assumes "2 \<le> tp" and "1 \<le> cur" and "cur \<le> tp"
  shows "hook_page_range cur tp = home_page_range cur tp"
proof -
  define lo where "lo = max 2 (cur - 2)"
  define hi where "hi = min (tp - 1) (cur + 2)"
  have pre: "(if max 1 (cur - 2) > 1 then PageNum 1 # (if max 1 (cur - 2) > 2 then [Dots] else []) else [])
      @ map PageNum [max 1 (cur - 2)..min tp (cur + 2)]
    = (if cur - 2 > 2 then [PageNum 1, Dots] else [PageNum 1]) @ map PageNum [lo..min tp (cur + 2)]"
  proof (cases "cur \<le> 3")
    case True
    then have "[max 1 (cur - 2)..min tp (cur + 2)] = 1 # [lo..min tp (cur + 2)]"
      using assms upto_cons [of 1 "min tp (cur + 2)"] by (simp add: lo_def)
    then show ?thesis using True by simp
  next
    case False
    then show ?thesis by (simp add: lo_def)
  qed
  have suf: "map PageNum [lo..min tp (cur + 2)]
      @ (if min tp (cur + 2) < tp then (if min tp (cur + 2) < tp - 1 then [Dots] else []) @ [PageNum tp] else [])
    = map PageNum [lo..hi] @ (if cur + 2 < tp - 1 then [Dots, PageNum tp] else [PageNum tp])"
  proof (cases "cur + 2 < tp")
    case True
    then show ?thesis by (simp add: hi_def)
  next
    case False
    then have "[lo..min tp (cur + 2)] = [lo..hi] @ [tp]"
      using assms upto_snoc [of lo tp] by (simp add: lo_def hi_def)
    then show ?thesis using False by simp
  qed
  have "home_page_range cur tp
      = ((if max 1 (cur - 2) > 1 then PageNum 1 # (if max 1 (cur - 2) > 2 then [Dots] else []) else [])
         @ map PageNum [max 1 (cur - 2)..min tp (cur + 2)])
        @ (if min tp (cur + 2) < tp then (if min tp (cur + 2) < tp - 1 then [Dots] else []) @ [PageNum tp] else [])"
    by (simp add: home_page_range_def Let_def)
  also have "\<dots> = (if cur - 2 > 2 then [PageNum 1, Dots] else [PageNum 1])
      @ (map PageNum [lo..min tp (cur + 2)]
         @ (if min tp (cur + 2) < tp then (if min tp (cur + 2) < tp - 1 then [Dots] else []) @ [PageNum tp] else []))"
    unfolding pre by simp
  also have "\<dots> = hook_page_range cur tp"
    unfolding suf by (simp add: hook_page_range_def Let_def lo_def hi_def)
  finally show ?thesis by simp
qed


lemma page_nums_append [simp]: "page_nums (xs @ ys) = page_nums xs @ page_nums ys"
  by (induction xs rule: page_nums.induct) simp_all

lemma page_nums_map [simp]: "page_nums (map PageNum ks) = ks"
  by (induction ks) simp_all

lemma page_nums_home:
  "page_nums (home_page_range cur tp)
   = (if max 1 (cur - 2) > 1 then [1] else []) @ [max 1 (cur - 2)..min tp (cur + 2)]
     @ (if min tp (cur + 2) < tp then [tp] else [])"
  by (simp add: home_page_range_def Let_def)

text \<open>The page strip HomePage builds for a page between 1 and the last page lists
  strictly increasing page numbers, all between 1 and the last page, and always
  includes the first page, the current page and the last page.\<close>

theorem home_page_range_shape:
  assumes "1 \<le> cur" and "cur \<le> tp"
  shows "sorted_wrt (<) (page_nums (home_page_range cur tp))
         \<and> set (page_nums (home_page_range cur tp)) \<subseteq> {1..tp}
         \<and> {1, cur, tp} \<subseteq> set (page_nums (home_page_range cur tp))"
  using assms by (auto simp: page_nums_home sorted_wrt_append)

lemma gaps_marked_upto:
  "a \<le> b \<Longrightarrow> gaps_marked (map PageNum [a..b] @ r) = gaps_marked (PageNum b # r)"
proof (induction a b rule: upto.induct)
  case (1 a b)
  show ?case
  proof (cases "a = b")
    case True
    then show ?thesis by simp
  next
    case False
    then have "a + 1 \<le> b" using 1(2) by simp
    then show ?thesis using 1 upto_rec1 [of a b] upto_rec1 [of "a + 1" b] by simp
  qed
qed

lemma page_nums_hook:
  assumes "2 \<le> tp" and "1 \<le> cur" and "cur \<le> tp"
  shows "page_nums (hook_page_range cur tp)
   = (if max 1 (cur - 2) > 1 then [1] else []) @ [max 1 (cur - 2)..min tp (cur + 2)]
     @ (if min tp (cur + 2) < tp then [tp] else [])"
  using page_ranges_agree [OF assms] page_nums_home by simp

text \<open>C31: the page strip of usePagination, for a list of at least two pages
  (Pagination renders nothing otherwise) and any page between 1 and the last, lists
  the first page, the last page and every page within two of the current one, and no
  other, in increasing order, with an ellipsis exactly where pages are skipped.\<close>

theorem hook_page_range_strip:
  assumes "2 \<le> tp" and "1 \<le> cur" and "cur \<le> tp"
  shows "set (page_nums (hook_page_range cur tp)) = {1, tp} \<union> {max 1 (cur - 2)..min tp (cur + 2)}
    \<and> sorted_wrt (<) (page_nums (hook_page_range cur tp))
    \<and> gaps_marked (hook_page_range cur tp)"
proof -
  define lo where "lo = max 1 (cur - 2)"
  define hi where "hi = min tp (cur + 2)"
  have lh: "lo \<le> hi" "1 \<le> lo" "hi \<le> tp" using assms by (simp_all add: lo_def hi_def)
  have suf: "gaps_marked (PageNum hi # (if hi < tp then (if hi < tp - 1 then [Dots] else []) @ [PageNum tp] else []))"
    by auto
  have g: "gaps_marked ((if lo > 1 then PageNum 1 # (if lo > 2 then [Dots] else []) else [])
      @ map PageNum [lo..hi]
      @ (if hi < tp then (if hi < tp - 1 then [Dots] else []) @ [PageNum tp] else []))"
  proof -
    have m: "gaps_marked (map PageNum [lo..hi]
        @ (if hi < tp then (if hi < tp - 1 then [Dots] else []) @ [PageNum tp] else []))"
      using gaps_marked_upto [OF lh(1)] suf by simp
    show ?thesis
    proof (cases "lo > 1")
      case True
      then show ?thesis using m upto_rec1 [of lo hi] lh(1) by (auto simp del: upto.simps)
    qed (use m in simp)
  qed
  have "set (page_nums (hook_page_range cur tp)) = {1, tp} \<union> {lo..hi}"
    using page_nums_hook [OF assms] lh by (auto simp: lo_def hi_def)
  moreover have "sorted_wrt (<) (page_nums (hook_page_range cur tp))"
    using page_nums_hook [OF assms] lh by (auto simp: sorted_wrt_append lo_def hi_def)
  moreover have "hook_page_range cur tp = (if lo > 1 then PageNum 1 # (if lo > 2 then [Dots] else []) else [])
      @ map PageNum [lo..hi] @ (if hi < tp then (if hi < tp - 1 then [Dots] else []) @ [PageNum tp] else [])"
    using page_ranges_agree [OF assms] by (simp add: home_page_range_def Let_def lo_def hi_def)
  then have "gaps_marked (hook_page_range cur tp)" using g by simp
  ultimately show ?thesis by (simp add: lo_def hi_def)
qed

theorem hook_page_range_strip_witness:
  "2 \<le> (10::int) \<and> 1 \<le> (5::int) \<and> (5::int) \<le> 10
   \<and> set (page_nums (hook_page_range 5 10)) = {1, 10} \<union> {3..7}
   \<and> sorted_wrt (<) (page_nums (hook_page_range 5 10)) \<and> gaps_marked (hook_page_range 5 10)"
  using hook_page_range_strip [of 10 5] by simp

lemma take_chunks:
  "concat (map (\<lambda>j. take per (drop (j * per) xs)) [0..<m]) = take (m * per) xs"
proof (induction m)
  case 0
  then show ?case by simp
next
  case (Suc m)
  have "take (Suc m * per) xs = take (m * per + per) xs" by (simp add: add.commute)
  also have "\<dots> = take (m * per) xs @ take per (drop (m * per) xs)" by (rule take_add)
  finally show ?case using Suc.IH by simp
qed

lemma currentData_chunk: "currentData xs (1 + int j) per = take per (drop (j * per) xs)"
  using js_slice_nat [of "j * per" "j * per + per" xs] by (simp add: currentData_def algebra_simps)

lemma totalPages_cover:
  assumes "0 < per"
  shows "n \<le> nat (totalPages n per) * per"
proof -
  have "(n + per - 1) div per * per + (n + per - 1) mod per = n + per - 1" by (rule div_mult_mod_eq)
  moreover have "(n + per - 1) mod per < per" using assms by simp
  ultimately have "n \<le> (n + per - 1) div per * per" using assms by linarith
  then show ?thesis by (simp add: totalPages_def)
qed

text \<open>The pages of usePagination, from 1 to totalPages, concatenated give back the
  whole list: no item is skipped or shown twice.\<close>

theorem pages_partition:
  assumes "0 < per"
  shows "concat (map (\<lambda>k. currentData xs (int k) per) [1..<nat (totalPages (length xs) per) + 1]) = xs"
proof -
  have "[1..<nat (totalPages (length xs) per) + 1] = map Suc [0..<nat (totalPages (length xs) per)]"
    by (simp add: map_Suc_upt)
  then have "concat (map (\<lambda>k. currentData xs (int k) per) [1..<nat (totalPages (length xs) per) + 1])
      = take (nat (totalPages (length xs) per) * per) xs"
    by (simp add: comp_def currentData_chunk take_chunks)
  then show ?thesis using totalPages_cover [OF assms, of "length xs"] by simp
qed


text \<open>C32: through any sequence of the Pagination buttons and data changes the page of
  usePagination stays between 1 and the number of pages (1 when the list is empty).\<close>

theorem pager_reach_bounds:
  assumes "pager_reach per n p"
  shows "1 \<le> pg_page p \<and> pg_page p \<le> max 1 (totalPages (pg_len p) per)"
  using assms
proof (induction rule: pager_reach.induct)
  case start
  then show ?case by (simp add: pager_init_def)
next
  case (step per n p e)
  then show ?case
    by (cases e) (auto simp: nextPage_def prevPage_def goToPage_def resetPage_def hasNextPage_def
        hasPrevPage_def pagination_visible_def)
qed

lemma page_before_end:
  assumes "0 < per" and "int j < totalPages n per"
  shows "j * per < n"
proof -
  have "Suc j \<le> (n + per - 1) div per" using assms(2) by (simp add: totalPages_def)
  then have "Suc j * per \<le> n + per - 1" using assms(1) by (simp add: less_eq_div_iff_mult_less_eq)
  then show ?thesis using assms(1) by simp
qed

text \<open>On a page between 1 and totalPages, the label "showing startIndex to
  endIndex" counts exactly the items currentData shows.\<close>

theorem page_label_matches:
  assumes "0 < per" and "1 \<le> pg_page p" and "pg_page p \<le> totalPages (length xs) per"
    and "pg_len p = length xs"
  shows "startIndex per p \<le> endIndex per p
         \<and> endIndex per p - startIndex per p + 1 = int (length (currentData xs (pg_page p) per))"
proof -
  obtain j where j: "pg_page p = 1 + int j" using assms(2) by (metis add.commute le_add_diff_inverse zero_le_imp_eq_int
      diff_ge_0_iff_ge)
  have "int j < totalPages (length xs) per" using assms(3) j by simp
  then have lt: "j * per < length xs" by (rule page_before_end [OF assms(1)])
  define m where "m = j * per"
  have len: "length (currentData xs (pg_page p) per) = min per (length xs - m)"
    by (simp add: j currentData_chunk m_def)
  have s: "startIndex per p = int m + 1" by (simp add: startIndex_def j m_def algebra_simps)
  have e: "endIndex per p = min (int m + int per) (int (length xs))"
    using assms(4) by (simp add: endIndex_def j m_def algebra_simps)
  show ?thesis
    unfolding s e len using lt assms(1) by (simp add: m_def [symmetric] min_def) linarith
qed


text \<open>C30: ProductGrid (through usePagination) and HomePage (inline) hand Pagination
  the same props for the same list, page size and page: the same page count,
  enabled buttons, page strip, and "from - to of" numbers; and Pagination then
  renders.\<close>

theorem pagination_props_agree:
  assumes "2 \<le> totalPages n per" and "1 \<le> cur" and "cur \<le> totalPages n per"
  shows "hook_props per \<lparr>pg_len = n, pg_page = cur\<rparr> = home_props cur (int per) (int n)
    \<and> pagination_render (home_props cur (int per) (int n)) \<noteq> None"
  using page_ranges_agree [OF assms] assms(1)
  by (simp add: hook_props_def home_props_def hasNextPage_def hasPrevPage_def startIndex_def endIndex_def
      pagination_render_def pagination_visible_def Let_def)

theorem pagination_props_agree_witness:
  "2 \<le> totalPages 250 100 \<and> 1 \<le> (2::int) \<and> 2 \<le> totalPages 250 100
   \<and> hook_props 100 \<lparr>pg_len = 250, pg_page = 2\<rparr> = home_props 2 100 250
   \<and> pagination_render (home_props 2 100 250) \<noteq> None"
  using pagination_props_agree [of 250 100 2] by (simp add: totalPages_def)

theorem page_ranges_agree_witness:
  "2 \<le> (10::int) \<and> 1 \<le> (5::int) \<and> (5::int) \<le> 10 \<and> hook_page_range 5 10 = home_page_range 5 10"
  using page_ranges_agree [of 10 5] by simp

theorem home_page_range_shape_witness:
  "1 \<le> (5::int) \<and> (5::int) \<le> 10 \<and> sorted_wrt (<) (page_nums (home_page_range 5 10))
   \<and> {1, 5, 10} \<subseteq> set (page_nums (home_page_range 5 10))"
  using home_page_range_shape [of 5 10] by simp

theorem pages_partition_witness:
  "0 < (2::nat) \<and> concat (map (\<lambda>k. currentData [1::int, 2, 3, 4, 5] (int k) 2) [1..<nat (totalPages 5 2) + 1])
     = [1, 2, 3, 4, 5]"
  using pages_partition [of 2 "[1::int, 2, 3, 4, 5]"] by (simp add: totalPages_def)

theorem pager_reach_bounds_witness:
  "pager_reach 100 250 (pager_step 100 Next (pager_init 250))
   \<and> pg_page (pager_step 100 Next (pager_init 250)) = 2
   \<and> pg_page (pager_step 100 Next (pager_init 250))
       \<le> max 1 (totalPages (pg_len (pager_step 100 Next (pager_init 250))) 100)"
proof -
  have r: "pager_reach 100 250 (pager_step 100 Next (pager_init 250))"
    by (rule pager_reach.step [OF pager_reach.start])
       (simp add: pager_init_def pagination_visible_def hasNextPage_def totalPages_def)
  show ?thesis
    using r pager_reach_bounds [OF r] by (simp add: pager_init_def nextPage_def totalPages_def)
qed

theorem page_label_matches_witness:
  "0 < (100::nat) \<and> startIndex 100 \<lparr>pg_len = 250, pg_page = 3\<rparr> = 201
   \<and> endIndex 100 \<lparr>pg_len = 250, pg_page = 3\<rparr> = 250
   \<and> endIndex 100 \<lparr>pg_len = 250, pg_page = 3\<rparr> - startIndex 100 \<lparr>pg_len = 250, pg_page = 3\<rparr> + 1
     = int (length (currentData (replicate 250 (0::int)) 3 100))"
  using page_label_matches [of 100 "\<lparr>pg_len = 250, pg_page = 3\<rparr>" "replicate 250 (0::int)"]
  by (simp add: totalPages_def startIndex_def endIndex_def)

end
