(* ===== verification/AppState.thy ===== *)
theory AppState
  imports Cart Query Paging
begin

text \<open>
  The application state coordinator, src/src/context/AppContext.jsx: the state of
  \<open>useReducer\<close>, the actions and \<open>appReducer\<close>, and the provider's asynchronous
  loaders; with it the handlers that drive it, those of Header
  (src/src/components/Header.jsx) and HomePage (src/src/pages/HomePage.jsx), and the
  product list HomePage renders. The reducer calls the cart service for the cart
  actions, so it acts on a \<open>world\<close>: the cart service's \<open>this.cart\<close>, the catalog
  service's caches and the one localStorage both services share. A handler is the
  sequence of actions it dispatches; React applies them in order.
\<close>

record world =
  w_cart :: cart
  w_sheets :: sheets
  w_store :: storage

record app_state =
  products :: "product list"
  categories :: "string list"
  app_cart :: cart
  loading :: bool
  app_error :: "string option"
  currentCategory :: "string option"
  searchQuery :: string
  filters :: ctx_filters
  sortBy :: string
  productsPerPage :: int
  currentPage :: int

definition initialState :: app_state where
  "initialState = \<lparr>products = [], categories = [], app_cart = [], loading = False, app_error = None,
     currentCategory = None, searchQuery = [], filters = ctx_init_filters, sortBy = ''name'',
     productsPerPage = 60, currentPage = 1\<rparr>"

datatype action =
    SET_LOADING bool
  | SET_ERROR string
  | SET_PRODUCTS "product list"
  | SET_CATEGORIES "string list"
  | SET_CART cart
  | SET_CURRENT_CATEGORY "string option"
  | SET_SEARCH_QUERY string
  | SET_CURRENT_PAGE int
  | SET_FILTERS ctx_filters
  | SET_SORT_BY string
  | ADD_TO_CART product int
  | REMOVE_FROM_CART product_id
  | UPDATE_CART_QUANTITY product_id int
  | CLEAR_CART
  | UNKNOWN_ACTION

text \<open>A cart action runs the cart service's method, which changes \<open>this.cart\<close> and
  the storage, and stores the array the method returns.\<close>

definition cart_action :: "cart_op \<Rightarrow> app_state \<Rightarrow> world \<Rightarrow> app_state \<times> world" where
  "cart_action op st w =
     (let (c, s) = cart_apply op (w_cart w) (w_store w)
      in (st\<lparr>app_cart := c\<rparr>, w\<lparr>w_cart := c, w_store := s\<rparr>))"

fun appReducer :: "action \<Rightarrow> app_state \<Rightarrow> world \<Rightarrow> app_state \<times> world" where
  "appReducer (SET_LOADING b) st w = (st\<lparr>loading := b\<rparr>, w)"
| "appReducer (SET_ERROR e) st w = (st\<lparr>app_error := Some e, loading := False\<rparr>, w)"
| "appReducer (SET_PRODUCTS ps) st w = (st\<lparr>products := ps, loading := False, app_error := None\<rparr>, w)"
| "appReducer (SET_CATEGORIES cs) st w = (st\<lparr>categories := cs\<rparr>, w)"
| "appReducer (SET_CART c) st w = (st\<lparr>app_cart := c\<rparr>, w)"
| "appReducer (SET_CURRENT_CATEGORY c) st w = (st\<lparr>currentCategory := c\<rparr>, w)"
| "appReducer (SET_SEARCH_QUERY q) st w = (st\<lparr>searchQuery := q\<rparr>, w)"
| "appReducer (SET_CURRENT_PAGE k) st w = (st\<lparr>currentPage := k\<rparr>, w)"
| "appReducer (SET_FILTERS f) st w = (st\<lparr>filters := f\<rparr>, w)"
| "appReducer (SET_SORT_BY s) st w = (st\<lparr>sortBy := s\<rparr>, w)"
| "appReducer (ADD_TO_CART p q) st w = cart_action (AddOp p q) st w"
| "appReducer (REMOVE_FROM_CART k) st w = cart_action (RemoveOp k) st w"
| "appReducer (UPDATE_CART_QUANTITY k q) st w = cart_action (UpdateOp k q) st w"
| "appReducer CLEAR_CART st w = cart_action ClearOp st w"
| "appReducer UNKNOWN_ACTION st w = (st, w)"

fun dispatch_all :: "action list \<Rightarrow> app_state \<Rightarrow> world \<Rightarrow> app_state \<times> world" where
  "dispatch_all [] st w = (st, w)"
| "dispatch_all (a # as) st w = (case appReducer a st w of (st', w') \<Rightarrow> dispatch_all as st' w')"

text \<open>The message \<open>SET_ERROR\<close> carries when loading fails.\<close>

definition load_error_msg :: string where
  "load_error_msg = utf8 [0xD8, 0xAE, 0xD8, 0xB7, 0xD8, 0xA3, 0x20, 0xD9, 0x81, 0xD9, 0x8A, 0x20, 0xD8, 0xAA,
     0xD8, 0xAD, 0xD9, 0x85, 0xD9, 0x8A, 0xD9, 0x84, 0x20, 0xD8, 0xA7, 0xD9, 0x84, 0xD8, 0xA8, 0xD9, 0x8A,
     0xD8, 0xA7, 0xD9, 0x86, 0xD8, 0xA7, 0xD8, 0xAA]"

text \<open>\<open>loadInitialData\<close>: two awaited calls of the catalog service, at times
  \<open>t0\<close>/\<open>t1\<close> (fetchProducts) and \<open>t2\<close>/\<open>t3\<close> (getCategories, which fetches again),
  each with its own random draws; the actions it dispatches and the world after.\<close>

definition loadInitialData :: "int \<Rightarrow> int \<Rightarrow> int \<Rightarrow> int \<Rightarrow> (string \<Rightarrow> net_reply) \<Rightarrow> (nat \<Rightarrow> real)
    \<Rightarrow> (nat \<Rightarrow> real) \<Rightarrow> world \<Rightarrow> action list \<times> world" where
  "loadInitialData t0 t1 t2 t3 net rnd1 rnd2 w =
     (case fetchProducts t0 t1 net rnd1 (w_sheets w) (w_store w) of
        (Inl _, sh1, s1) \<Rightarrow> ([SET_LOADING True, SET_ERROR load_error_msg], w\<lparr>w_sheets := sh1, w_store := s1\<rparr>)
      | (Inr ps, sh1, s1) \<Rightarrow>
          (case getCategories t2 t3 net rnd2 sh1 s1 of
             (Inl _, sh2, s2) \<Rightarrow> ([SET_LOADING True, SET_ERROR load_error_msg], w\<lparr>w_sheets := sh2, w_store := s2\<rparr>)
           | (Inr cs, sh2, s2) \<Rightarrow>
               ([SET_LOADING True, SET_PRODUCTS ps, SET_CATEGORIES cs], w\<lparr>w_sheets := sh2, w_store := s2\<rparr>)))"

text \<open>The provider's \<open>loadCart\<close>: \<open>cartService.getCart()\<close>, the service's array.\<close>

definition provider_loadCart :: "world \<Rightarrow> action list" where
  "provider_loadCart w = [SET_CART (getCart (w_cart w))]"

text \<open>\<open>refreshData\<close>: \<open>clearCache()\<close>, then \<open>loadInitialData()\<close>. Neither
  \<open>clearCache\<close> nor \<open>refreshData\<close> catches: when \<open>localStorage.removeItem\<close>
  throws, the memory cache is already reset and the exception leaves \<open>refreshData\<close>
  before \<open>loadInitialData\<close> starts, so nothing is dispatched.\<close>

definition refreshData :: "int \<Rightarrow> int \<Rightarrow> int \<Rightarrow> int \<Rightarrow> (string \<Rightarrow> net_reply) \<Rightarrow> (nat \<Rightarrow> real)
    \<Rightarrow> (nat \<Rightarrow> real) \<Rightarrow> world \<Rightarrow> action list \<times> world" where
  "refreshData t0 t1 t2 t3 net rnd1 rnd2 w =
     (case clearCache (w_sheets w) (w_store w) of
        (Inl _, sh, s) \<Rightarrow> ([], w\<lparr>w_sheets := sh, w_store := s\<rparr>)
      | (Inr _, sh, s) \<Rightarrow> loadInitialData t0 t1 t2 t3 net rnd1 rnd2 (w\<lparr>w_sheets := sh, w_store := s\<rparr>))"

section \<open>Handlers\<close>

text \<open>Header: the search form, a category link and the logo.\<close>

definition header_search :: "string \<Rightarrow> action list" where
  "header_search q = [SET_SEARCH_QUERY q, SET_CURRENT_CATEGORY None]"

definition header_category :: "string \<Rightarrow> action list" where
  "header_category c = [SET_CURRENT_CATEGORY (Some c), SET_SEARCH_QUERY []]"

definition header_logo :: "action list" where
  "header_logo = [SET_CURRENT_CATEGORY None, SET_SEARCH_QUERY []]"

text \<open>HomePage: a category card, a page button, and FilterSort's callbacks, which
  are the context's \<open>setFilters\<close> and \<open>setSortBy\<close>.\<close>

definition home_category_click :: "string \<Rightarrow> action list" where
  "home_category_click c = [SET_CURRENT_CATEGORY (Some c)]"

definition home_page_change :: "int \<Rightarrow> action list" where
  "home_page_change k = [SET_CURRENT_PAGE k]"

section \<open>The product list of HomePage\<close>

definition productsAfterFilter :: "(string \<Rightarrow> string \<Rightarrow> int) \<Rightarrow> app_state \<Rightarrow> product list" where
  "productsAfterFilter collate st =
     (if truthy_str (currentCategory st) \<or> searchQuery st \<noteq> []
      then fst (getFilteredProducts collate (products st) (currentCategory st) (searchQuery st) (filters st) (sortBy st))
      else products st)"

definition home_totalPages :: "(string \<Rightarrow> string \<Rightarrow> int) \<Rightarrow> app_state \<Rightarrow> int" where
  "home_totalPages collate st = totalPages (length (productsAfterFilter collate st)) (nat (productsPerPage st))"

definition productsToShow :: "(string \<Rightarrow> string \<Rightarrow> int) \<Rightarrow> app_state \<Rightarrow> product list" where
  "productsToShow collate st =
     getProductsForCurrentPage (currentPage st) (productsPerPage st) (productsAfterFilter collate st)"

text \<open>HomePage renders Pagination only when the page shows a product, and
  Pagination renders only when there are two pages or more.\<close>

definition home_pagination_shown :: "(string \<Rightarrow> string \<Rightarrow> int) \<Rightarrow> app_state \<Rightarrow> bool" where
  "home_pagination_shown collate st \<longleftrightarrow>
     productsToShow collate st \<noteq> [] \<and> pagination_visible (home_totalPages collate st)"

section \<open>The running application\<close>

text \<open>What can happen to the provider after it mounted: a load of the catalog (the
  mount's own call, HomePage's reload of an empty list, or the retry button), the
  provider's \<open>loadCart\<close>, a cart operation from a page, and the handlers of Header
  and HomePage. A load is one event: its actions are dispatched in order after the
  awaited calls.\<close>

datatype ui_event =
    LoadData int int int int "string \<Rightarrow> net_reply" "nat \<Rightarrow> real" "nat \<Rightarrow> real"
  | RefreshData int int int int "string \<Rightarrow> net_reply" "nat \<Rightarrow> real" "nat \<Rightarrow> real"
  | LoadCartEv
  | CartEv cart_op
  | HeaderSearch string
  | HeaderCategory string
  | HeaderLogo
  | HomeCategory string
  | HomePage int
  | FiltersChange ctx_filters
  | SortChange string

fun ui_actions :: "ui_event \<Rightarrow> world \<Rightarrow> action list \<times> world" where
  "ui_actions (LoadData t0 t1 t2 t3 net r1 r2) w = loadInitialData t0 t1 t2 t3 net r1 r2 w"
| "ui_actions (RefreshData t0 t1 t2 t3 net r1 r2) w = refreshData t0 t1 t2 t3 net r1 r2 w"
| "ui_actions LoadCartEv w = (provider_loadCart w, w)"
| "ui_actions (CartEv (AddOp p q)) w = ([ADD_TO_CART p q], w)"
| "ui_actions (CartEv (RemoveOp k)) w = ([REMOVE_FROM_CART k], w)"
| "ui_actions (CartEv (UpdateOp k q)) w = ([UPDATE_CART_QUANTITY k q], w)"
| "ui_actions (CartEv ClearOp) w = ([CLEAR_CART], w)"
| "ui_actions (HeaderSearch q) w = (header_search q, w)"
| "ui_actions (HeaderCategory c) w = (header_category c, w)"
| "ui_actions HeaderLogo w = (header_logo, w)"
| "ui_actions (HomeCategory c) w = (home_category_click c, w)"
| "ui_actions (HomePage k) w = (home_page_change k, w)"
| "ui_actions (FiltersChange f) w = ([SET_FILTERS f], w)"
| "ui_actions (SortChange s) w = ([SET_SORT_BY s], w)"

definition app_step :: "ui_event \<Rightarrow> app_state \<Rightarrow> world \<Rightarrow> app_state \<times> world" where
  "app_step ev st w = (case ui_actions ev w of (as, w1) \<Rightarrow> dispatch_all as st w1)"

text \<open>The pages only ever add a positive quantity (see \<open>op_ok\<close>).\<close>

fun ui_ok :: "ui_event \<Rightarrow> bool" where
  "ui_ok (CartEv op) = op_ok op"
| "ui_ok _ = True"

text \<open>The mounted provider: the cart service has loaded a cart from the storage,
  and the mount effect has dispatched the provider's \<open>loadCart\<close>. The loaded cart
  is one this application saved.\<close>

definition mounted :: "cart \<Rightarrow> storage \<Rightarrow> app_state \<times> world" where
  "mounted c s = dispatch_all (provider_loadCart \<lparr>w_cart = c, w_sheets = init_sheets, w_store = s\<rparr>)
     initialState \<lparr>w_cart = c, w_sheets = init_sheets, w_store = s\<rparr>"

inductive app_reach :: "app_state \<Rightarrow> world \<Rightarrow> bool" where
  init: "loadCart s = Inr c \<Longrightarrow> cart_wf c \<Longrightarrow> mounted c s = (st, w) \<Longrightarrow> app_reach st w"
| step: "app_reach st w \<Longrightarrow> ui_ok ev \<Longrightarrow> app_step ev st w = (st', w') \<Longrightarrow> app_reach st' w'"

section \<open>Lemmas\<close>

definition cart_frame :: "storage \<Rightarrow> storage \<Rightarrow> bool" where
  "cart_frame s s' \<longleftrightarrow> readable s' = readable s \<and> writable s' = writable s \<and> slots s' STORAGE_KEY = slots s STORAGE_KEY"

lemma cart_frame_refl [simp]: "cart_frame s s"
  by (simp add: cart_frame_def)

lemma cart_frame_trans: "cart_frame s1 s2 \<Longrightarrow> cart_frame s2 s3 \<Longrightarrow> cart_frame s1 s3"
  by (simp add: cart_frame_def)

lemma keys_differ [simp]: "PRODUCTS_CACHE_KEY \<noteq> STORAGE_KEY" "STORAGE_KEY \<noteq> PRODUCTS_CACHE_KEY"
  by (simp_all add: PRODUCTS_CACHE_KEY_def STORAGE_KEY_def)

lemma loadCart_frame: "cart_frame s s' \<Longrightarrow> loadCart s' = loadCart s"
  by (simp add: cart_frame_def loadCart_def get_item_def)

lemma set_products_frame:
  "set_item PRODUCTS_CACHE_KEY v s = Inr s' \<Longrightarrow> cart_frame s s'"
  by (auto simp: set_item_def cart_frame_def split: if_splits)

lemma fetch_frame: "fetchProducts t0 t1 net rnd sh s = (r, sh', s') \<Longrightarrow> cart_frame s s'"
  by (auto dest!: fetch_cases intro: set_products_frame)

lemma fetch_view_frame: "fetch_view f t0 t1 net rnd sh s = (r, sh', s') \<Longrightarrow> cart_frame s s'"
  by (auto simp: fetch_view_def split: prod.splits dest: fetch_frame)

lemma clearCache_frame: "clearCache sh s = (r, sh', s') \<Longrightarrow> cart_frame s s'"
  by (auto simp: clearCache_def remove_item_def cart_frame_def Let_def split: if_splits)

fun inert_action :: "action \<Rightarrow> bool" where
  "inert_action (SET_CART c) = False"
| "inert_action (ADD_TO_CART p q) = False"
| "inert_action (REMOVE_FROM_CART k) = False"
| "inert_action (UPDATE_CART_QUANTITY k q) = False"
| "inert_action CLEAR_CART = False"
| "inert_action _ = True"

lemma inert_reducer:
  "inert_action a \<Longrightarrow> snd (appReducer a st w) = w \<and> app_cart (fst (appReducer a st w)) = app_cart st"
  by (cases a) simp_all

lemma inert_dispatch:
  "list_all inert_action as \<Longrightarrow> snd (dispatch_all as st w) = w \<and> app_cart (fst (dispatch_all as st w)) = app_cart st"
proof (induction as arbitrary: st w)
  case Nil
  then show ?case by simp
next
  case (Cons a as)
  obtain st1 w1 where r: "appReducer a st w = (st1, w1)" by fastforce
  then have "w1 = w" "app_cart st1 = app_cart st" using inert_reducer [of a st w] Cons.prems by simp_all
  then show ?case using Cons r by simp
qed

lemma loadInitialData_world:
  "loadInitialData t0 t1 t2 t3 net r1 r2 w = (as, w') \<Longrightarrow>
   list_all inert_action as \<and> w_cart w' = w_cart w \<and> cart_frame (w_store w) (w_store w')"
  by (auto simp: loadInitialData_def getCategories_def split: prod.splits sum.splits
      dest!: fetch_frame fetch_view_frame intro: cart_frame_trans)

lemma refreshData_world:
  "refreshData t0 t1 t2 t3 net r1 r2 w = (as, w') \<Longrightarrow>
   list_all inert_action as \<and> w_cart w' = w_cart w \<and> cart_frame (w_store w) (w_store w')"
  by (auto simp: refreshData_def split: prod.splits sum.splits dest!: clearCache_frame loadInitialData_world
      intro: cart_frame_trans)


definition app_inv :: "app_state \<Rightarrow> world \<Rightarrow> bool" where
  "app_inv st w \<longleftrightarrow> app_cart st = w_cart w \<and> cart_wf (w_cart w)
     \<and> (readable (w_store w) \<and> writable (w_store w) \<longrightarrow> loadCart (w_store w) = Inr (w_cart w))"

lemma app_inv_frame:
  "app_inv st w \<Longrightarrow> app_cart st' = app_cart st \<Longrightarrow> w_cart w' = w_cart w \<Longrightarrow>
   cart_frame (w_store w) (w_store w') \<Longrightarrow> app_inv st' w'"
  by (simp add: app_inv_def loadCart_frame) (simp add: cart_frame_def)

lemma app_inv_inert:
  assumes "app_inv st w" and "list_all inert_action as" and "dispatch_all as st w = (st', w')"
  shows "app_inv st' w'"
  using inert_dispatch [OF assms(2), of st w] assms(3) app_inv_frame [OF assms(1)] by simp

lemma cart_action_inv:
  assumes "app_inv st w" and "op_ok op" and "cart_action op st w = (st', w')"
  shows "app_inv st' w'"
proof -
  obtain c s where cs: "cart_apply op (w_cart w) (w_store w) = (c, s)" by fastforce
  then have st': "st' = st\<lparr>app_cart := c\<rparr>" and w': "w' = w\<lparr>w_cart := c, w_store := s\<rparr>"
    using assms(3) by (simp_all add: cart_action_def)
  have wf: "cart_wf c" using cart_apply_wf [OF assms(2), of "w_cart w" "w_store w"] assms(1) cs
    by (simp add: app_inv_def)
  have "readable s \<and> writable s \<longrightarrow> loadCart s = Inr c"
  proof
    assume rw: "readable s \<and> writable s"
    show "loadCart s = Inr c"
      using cart_apply_saves [of op "w_cart w" "w_store w"] cs
    proof (elim disjE)
      assume "snd (cart_apply op (w_cart w) (w_store w)) = saveCart (fst (cart_apply op (w_cart w) (w_store w))) (w_store w)"
      then have "s = saveCart c (w_store w)" using cs by simp
      then show ?thesis using rw saveCart_flags [of c "w_store w"] load_save by auto
    next
      assume "cart_apply op (w_cart w) (w_store w) = (w_cart w, w_store w)"
      then show ?thesis using cs rw assms(1) by (simp add: app_inv_def)
    qed
  qed
  then show ?thesis using wf by (simp add: app_inv_def st' w')
qed

lemma app_step_inv:
  assumes "app_inv st w" and "ui_ok ev" and "app_step ev st w = (st', w')"
  shows "app_inv st' w'"
proof (cases ev)
  case (LoadData t0 t1 t2 t3 net r1 r2)
  obtain as w1 where l: "loadInitialData t0 t1 t2 t3 net r1 r2 w = (as, w1)" by fastforce
  then have d: "dispatch_all as st w1 = (st', w')" using assms(3) LoadData by (simp add: app_step_def)
  have i: "app_inv st w1" using loadInitialData_world [OF l] app_inv_frame [OF assms(1)] by simp
  show ?thesis using app_inv_inert [OF i _ d] loadInitialData_world [OF l] by simp
next
  case (RefreshData t0 t1 t2 t3 net r1 r2)
  obtain as w1 where l: "refreshData t0 t1 t2 t3 net r1 r2 w = (as, w1)" by fastforce
  then have d: "dispatch_all as st w1 = (st', w')" using assms(3) RefreshData by (simp add: app_step_def)
  have i: "app_inv st w1" using refreshData_world [OF l] app_inv_frame [OF assms(1)] by simp
  show ?thesis using app_inv_inert [OF i _ d] refreshData_world [OF l] by simp
next
  case LoadCartEv
  then show ?thesis using assms by (auto simp: app_step_def provider_loadCart_def getCart_def app_inv_def)
next
  case (CartEv op)
  have "op_ok op" using assms(2) CartEv by simp
  moreover have "cart_action op st w = (st', w')"
    using assms(3) CartEv by (cases op) (simp_all add: app_step_def split: prod.splits)
  ultimately show ?thesis by (rule cart_action_inv [OF assms(1)])
qed (use assms in \<open>auto simp: app_step_def header_search_def header_category_def
       header_logo_def home_category_click_def home_page_change_def app_inv_def\<close>)

lemma app_reach_inv: "app_reach st w \<Longrightarrow> app_inv st w"
proof (induction rule: app_reach.induct)
  case (init s c st w)
  then show ?case by (auto simp: mounted_def provider_loadCart_def getCart_def initialState_def app_inv_def)
next
  case (step st w ev st' w')
  then show ?case using app_step_inv by blast
qed

text \<open>C1: in every state the running application reaches, through loads, refreshes,
  the pages' cart operations and the navigation handlers, the context's cart is the cart
  service's cart, with one line item per product and positive quantities.\<close>

theorem app_cart_coherent:
  assumes "app_reach st w"
  shows "app_cart st = w_cart w \<and> cart_wf (app_cart st)"
  using app_reach_inv [OF assms] by (simp add: app_inv_def)

text \<open>C2: in every reachable state, with a storage that can be read and written, the
  cart slot reloads to exactly the context's cart: reloading the page restores the cart,
  whatever the catalog service wrote to the same storage meanwhile.\<close>

theorem app_cart_durable:
  assumes "app_reach st w" and "readable (w_store w)" and "writable (w_store w)"
  shows "loadCart (w_store w) = Inr (app_cart st)"
  using app_reach_inv [OF assms(1)] assms(2,3) by (simp add: app_inv_def)


lemma mounted_empty_reach:
  "app_reach (fst (mounted [] empty_storage)) (snd (mounted [] empty_storage))"
  by (rule app_reach.init [of empty_storage "[]"])
     (simp_all add: loadCart_def get_item_def empty_storage_def cart_wf_def)

theorem app_cart_coherent_witness:
  "app_reach (fst (mounted [] empty_storage)) (snd (mounted [] empty_storage))
   \<and> app_cart (fst (mounted [] empty_storage)) = w_cart (snd (mounted [] empty_storage))
   \<and> cart_wf (app_cart (fst (mounted [] empty_storage)))"
  using app_cart_coherent [OF mounted_empty_reach] mounted_empty_reach by blast

theorem app_cart_durable_witness:
  "app_reach (fst (app_step (CartEv (AddOp sample_product 2)) (fst (mounted [] empty_storage)) (snd (mounted [] empty_storage))))
     (snd (app_step (CartEv (AddOp sample_product 2)) (fst (mounted [] empty_storage)) (snd (mounted [] empty_storage))))
   \<and> loadCart (w_store (snd (app_step (CartEv (AddOp sample_product 2)) (fst (mounted [] empty_storage)) (snd (mounted [] empty_storage)))))
     = Inr [new_item sample_product 2]"
proof -
  let ?st = "fst (mounted [] empty_storage)" and ?w = "snd (mounted [] empty_storage)"
  let ?ev = "CartEv (AddOp sample_product 2)"
  have r: "app_reach (fst (app_step ?ev ?st ?w)) (snd (app_step ?ev ?st ?w))"
    by (rule app_reach.step [OF mounted_empty_reach]) simp_all
  have c: "app_cart (fst (app_step ?ev ?st ?w)) = [new_item sample_product 2]"
    by (simp add: app_step_def mounted_def provider_loadCart_def getCart_def cart_action_def addToCart_def add_line_def)
  have f: "readable (w_store (snd (app_step ?ev ?st ?w))) \<and> writable (w_store (snd (app_step ?ev ?st ?w)))"
    by (simp add: app_step_def mounted_def provider_loadCart_def getCart_def cart_action_def addToCart_def
        saveCart_def set_item_def empty_storage_def)
  show ?thesis using app_cart_durable [OF r] f c r by simp
qed


lemma dispatch_load_ok:
  "dispatch_all [SET_LOADING True, SET_PRODUCTS ps, SET_CATEGORIES cs] st w
   = (st\<lparr>loading := False, products := ps, app_error := None, categories := cs\<rparr>, w)"
  by simp

lemma fresh_mono: "fresh_products t0 sh = None \<Longrightarrow> t0 \<le> t2 \<Longrightarrow> fresh_products t2 sh = None"
  by (auto simp: fresh_products_def split: option.splits)

text \<open>C36: when the network fails and no copy is stored, loadInitialData sets the
  products from one sample dataset and the categories from a second, independently drawn
  one, because getCategories fetches again and the sample data is not cached.\<close>

theorem load_categories_from_second_sample:
  assumes "fresh_products t0 (w_sheets w) = None" and "t0 \<le> t2" and "net (csv_url (w_sheets w)) = NetFailure"
    and "readable (w_store w)" and "slots (w_store w) PRODUCTS_CACHE_KEY = None"
    and "loadInitialData t0 t1 t2 t3 net rnd1 rnd2 w = (as, w')"
  shows "products (fst (dispatch_all as st w')) = getFallbackData rnd1
         \<and> categories (fst (dispatch_all as st w')) = categories_of (getFallbackData rnd2)"
  using assms fresh_mono [OF assms(1,2)]
  by (auto simp: loadInitialData_def getCategories_def fetch_view_def fetchProducts_def fetch_resume_def fetch_fallback_def
      get_item_def)

theorem load_categories_from_second_sample_witness:
  "fresh_products 0 init_sheets = None \<and> (0::int) \<le> 2 \<and> (\<lambda>u. NetFailure) (csv_url init_sheets) = NetFailure
   \<and> readable empty_storage \<and> slots empty_storage PRODUCTS_CACHE_KEY = None
   \<and> products (fst (dispatch_all (fst (loadInitialData 0 1 2 3 (\<lambda>u. NetFailure) (\<lambda>k. 0) (\<lambda>k. 9 / 10)
         \<lparr>w_cart = [], w_sheets = init_sheets, w_store = empty_storage\<rparr>)) initialState
         (snd (loadInitialData 0 1 2 3 (\<lambda>u. NetFailure) (\<lambda>k. 0) (\<lambda>k. 9 / 10)
         \<lparr>w_cart = [], w_sheets = init_sheets, w_store = empty_storage\<rparr>))))
       = getFallbackData (\<lambda>k. 0)"
proof -
  let ?w = "\<lparr>w_cart = [], w_sheets = init_sheets, w_store = empty_storage\<rparr>"
  have h: "fresh_products 0 (w_sheets ?w) = None" "(0::int) \<le> 2" "(\<lambda>u. NetFailure) (csv_url (w_sheets ?w)) = NetFailure"
    "readable (w_store ?w)" "slots (w_store ?w) PRODUCTS_CACHE_KEY = None"
    by (simp_all add: fresh_products_def init_sheets_def empty_storage_def)
  show ?thesis
    using load_categories_from_second_sample [OF h, of 1 3 "\<lambda>k. 0" "\<lambda>k. 9 / 10"
        "fst (loadInitialData 0 1 2 3 (\<lambda>u. NetFailure) (\<lambda>k. 0) (\<lambda>k. 9 / 10) ?w)"
        "snd (loadInitialData 0 1 2 3 (\<lambda>u. NetFailure) (\<lambda>k. 0) (\<lambda>k. 9 / 10) ?w)" initialState] h
    by simp
qed

text \<open>When the first fetch downloads and stores the catalogue and the second
  call comes within the cache timeout, loadInitialData sets the products and their
  categories from the same download and clears the error.\<close>

theorem load_categories_consistent_when_fresh:
  assumes "fresh_products t0 (w_sheets w) = None" and "net (csv_url (w_sheets w)) = Reply csv"
    and "readable (w_store w)" and "writable (w_store w)" and "t1 \<noteq> 0" and "t2 - t1 < CACHE_TIMEOUT"
    and "loadInitialData t0 t1 t2 t3 net rnd1 rnd2 w = (as, w')"
  shows "products (fst (dispatch_all as st w')) = csvToJson csv
         \<and> categories (fst (dispatch_all as st w')) = categories_of (csvToJson csv)
         \<and> app_error (fst (dispatch_all as st w')) = None"
proof -
  obtain s' where set: "set_item PRODUCTS_CACHE_KEY (JsonText (cache_json (csvToJson csv) t1)) (w_store w) = Inr s'"
    using assms(3,4) by (auto simp: set_item_def)
  show ?thesis
    using assms set fresh_after_download [OF assms(5,6)]
    by (auto simp: loadInitialData_def getCategories_def fetch_view_def fetchProducts_def fetch_resume_def Let_def)
qed

text \<open>When fetchProducts rejects (network failure and an unreadable stored copy),
  loadInitialData leaves the products as they were, sets the error message and turns the
  loading flag off; the storage and caches are unchanged.\<close>

theorem load_error_state:
  assumes "fresh_products t0 (w_sheets w) = None" and "net (csv_url (w_sheets w)) = NetFailure"
    and "readable (w_store w)" and "slots (w_store w) PRODUCTS_CACHE_KEY = Some GarbageText"
    and "loadInitialData t0 t1 t2 t3 net rnd1 rnd2 w = (as, w')"
  shows "fst (dispatch_all as st w') = st\<lparr>loading := False, app_error := Some load_error_msg\<rparr> \<and> w' = w"
  using assms by (auto simp: loadInitialData_def fetchProducts_def fetch_resume_def fetch_fallback_def get_item_def)


theorem load_categories_consistent_when_fresh_witness:
  "products (fst (dispatch_all (fst (loadInitialData 0 1 2 3 (\<lambda>u. Reply ''id'') (\<lambda>k. 0) (\<lambda>k. 0)
       \<lparr>w_cart = [], w_sheets = init_sheets, w_store = empty_storage\<rparr>)) initialState
       (snd (loadInitialData 0 1 2 3 (\<lambda>u. Reply ''id'') (\<lambda>k. 0) (\<lambda>k. 0)
       \<lparr>w_cart = [], w_sheets = init_sheets, w_store = empty_storage\<rparr>)))) = csvToJson ''id''"
proof -
  let ?w = "\<lparr>w_cart = [], w_sheets = init_sheets, w_store = empty_storage\<rparr>"
  have h: "fresh_products 0 (w_sheets ?w) = None" "(\<lambda>u. Reply ''id'') (csv_url (w_sheets ?w)) = Reply ''id''"
    "readable (w_store ?w)" "writable (w_store ?w)" "(1::int) \<noteq> 0" "(2::int) - 1 < CACHE_TIMEOUT"
    by (simp_all add: fresh_products_def init_sheets_def empty_storage_def CACHE_TIMEOUT_def)
  show ?thesis
    using load_categories_consistent_when_fresh [OF h, of 3 "\<lambda>k. 0" "\<lambda>k. 0"
        "fst (loadInitialData 0 1 2 3 (\<lambda>u. Reply ''id'') (\<lambda>k. 0) (\<lambda>k. 0) ?w)"
        "snd (loadInitialData 0 1 2 3 (\<lambda>u. Reply ''id'') (\<lambda>k. 0) (\<lambda>k. 0) ?w)" initialState]
    by simp
qed

theorem load_error_state_witness:
  "fst (dispatch_all (fst (loadInitialData 0 1 2 3 (\<lambda>u. NetFailure) (\<lambda>k. 0) (\<lambda>k. 0)
       \<lparr>w_cart = [], w_sheets = init_sheets,
        w_store = \<lparr>slots = [PRODUCTS_CACHE_KEY \<mapsto> GarbageText], readable = True, writable = True\<rparr>\<rparr>))
     initialState
     (snd (loadInitialData 0 1 2 3 (\<lambda>u. NetFailure) (\<lambda>k. 0) (\<lambda>k. 0)
       \<lparr>w_cart = [], w_sheets = init_sheets,
        w_store = \<lparr>slots = [PRODUCTS_CACHE_KEY \<mapsto> GarbageText], readable = True, writable = True\<rparr>\<rparr>)))
   = initialState\<lparr>loading := False, app_error := Some load_error_msg\<rparr>"
proof -
  let ?w = "\<lparr>w_cart = [], w_sheets = init_sheets,
        w_store = \<lparr>slots = [PRODUCTS_CACHE_KEY \<mapsto> GarbageText], readable = True, writable = True\<rparr>\<rparr>"
  have h: "fresh_products 0 (w_sheets ?w) = None" "(\<lambda>u. NetFailure) (csv_url (w_sheets ?w)) = NetFailure"
    "readable (w_store ?w)" "slots (w_store ?w) PRODUCTS_CACHE_KEY = Some GarbageText"
    by (simp_all add: fresh_products_def init_sheets_def)
  show ?thesis
    using load_error_state [OF h, of 1 2 3 "\<lambda>k. 0" "\<lambda>k. 0"
        "fst (loadInitialData 0 1 2 3 (\<lambda>u. NetFailure) (\<lambda>k. 0) (\<lambda>k. 0) ?w)"
        "snd (loadInitialData 0 1 2 3 (\<lambda>u. NetFailure) (\<lambda>k. 0) (\<lambda>k. 0) ?w)" initialState]
    by (rule conjunct1) simp
qed

lemma length_js_sort [simp]: "length (js_sort cmp xs) = length xs"
  using mset_js_sort [of cmp xs] by (metis size_mset)

lemma page_past_end:
  assumes "0 < per" and "int (length xs) \<le> (k - 1) * per"
  shows "getProductsForCurrentPage k per xs = []"
proof (cases "k < 1")
  case True
  then have "k * per \<le> 0" using assms(1) by (simp add: mult_nonpos_nonneg)
  then show ?thesis using assms by (simp add: algebra_simps)
next
  case False
  then show ?thesis
    using assms by (simp add: getProductsForCurrentPage_def js_slice_def js_index_def algebra_simps)
qed

text \<open>C34: choosing a category on HomePage keeps the current page number; when the
  category has no more products than the pages before the current one hold, HomePage
  shows no product and hides Pagination, so no control leads back to the first page.\<close>

theorem home_page_not_reset:
  assumes "productsPerPage st = 60" and "app_step (HomeCategory c) st w = (st', w')"
    and "int (length (productsAfterFilter collate st')) \<le> (currentPage st - 1) * 60"
  shows "currentPage st' = currentPage st \<and> productsToShow collate st' = []
         \<and> \<not> home_pagination_shown collate st'"
proof -
  have st': "st' = st\<lparr>currentCategory := Some c\<rparr>" and "productsPerPage st' = 60"
    using assms(1,2) by (auto simp: app_step_def home_category_click_def)
  then have "productsToShow collate st' = []"
    using page_past_end [of 60 "productsAfterFilter collate st'" "currentPage st"] assms(3)
    by (simp add: productsToShow_def)
  then show ?thesis using st' by (simp add: home_pagination_shown_def)
qed

text \<open>C35: on HomePage without a category or a search, a change of the price or stock
  filters from FilterSort does not change the listed products.\<close>

theorem home_filters_ignored:
  assumes "\<not> truthy_str (currentCategory st)" and "searchQuery st = []"
  shows "productsAfterFilter collate (fst (app_step (FiltersChange f) st w)) = products st"
  using assms by (simp add: app_step_def productsAfterFilter_def)

theorem home_filters_ignored_witness:
  "\<not> truthy_str (currentCategory initialState) \<and> searchQuery initialState = []
   \<and> productsAfterFilter (\<lambda>x y. 0) (fst (app_step (FiltersChange (ctx_init_filters\<lparr>cf_minPrice := ''1000''\<rparr>))
       (initialState\<lparr>products := [demo_product]\<rparr>) (snd (mounted [] empty_storage)))) = [demo_product]"
  using home_filters_ignored [of "initialState\<lparr>products := [demo_product]\<rparr>" "\<lambda>x y. 0"
      "ctx_init_filters\<lparr>cf_minPrice := ''1000''\<rparr>" "snd (mounted [] empty_storage)"]
  by (simp add: initialState_def truthy_str_def)


theorem home_page_not_reset_witness:
  "productsToShow (\<lambda>x y. 0) (initialState\<lparr>products := replicate 60 demo_product @ [demo_product\<lparr>category := ''x''\<rparr>],
       currentPage := 2\<rparr>) = [demo_product\<lparr>category := ''x''\<rparr>]
   \<and> productsToShow (\<lambda>x y. 0) (fst (app_step (HomeCategory ''c'') (initialState\<lparr>products := replicate 60 demo_product
       @ [demo_product\<lparr>category := ''x''\<rparr>], currentPage := 2\<rparr>) (snd (mounted [] empty_storage)))) = []"
proof -
  let ?st = "initialState\<lparr>products := replicate 60 demo_product @ [demo_product\<lparr>category := ''x''\<rparr>], currentPage := 2\<rparr>"
  let ?w = "snd (mounted [] empty_storage)"
  have a: "productsPerPage ?st = 60" by (simp add: initialState_def)
  have b: "app_step (HomeCategory ''c'') ?st ?w = (fst (app_step (HomeCategory ''c'') ?st ?w), snd (app_step (HomeCategory ''c'') ?st ?w))"
    by simp
  have c: "int (length (productsAfterFilter (\<lambda>x y. 0) (fst (app_step (HomeCategory ''c'') ?st ?w)))) \<le> (currentPage ?st - 1) * 60"
    by (simp add: app_step_def home_category_click_def productsAfterFilter_def getFilteredProducts_def
        ctx_filter_def truthy_str_def initialState_def ctx_init_filters_def demo_product_def Let_def
        split: option.splits)
  have "productsToShow (\<lambda>x y. 0) ?st = [demo_product\<lparr>category := ''x''\<rparr>]"
    by (simp add: productsToShow_def productsAfterFilter_def initialState_def truthy_str_def
        getProductsForCurrentPage_def js_slice_def js_index_def)
  then show ?thesis using home_page_not_reset [OF a b c] by simp
qed

end
