(* ===== verification/Order.thy ===== *)
theory Order
  imports Cart
begin

text \<open>
  The order hand-off of the cart service (src/src/services/cartService.js,
  \<open>formatPrice\<close>, \<open>generateWhatsAppMessage\<close>, \<open>generateWhatsAppLink\<close>,
  \<open>sendOrderToWhatsApp\<close>). \<open>formatPrice\<close> is \<open>Intl.NumberFormat('ar-IQ', ...)\<close>, a
  library formatter: it is the parameter \<open>fmt\<close> of the definitions, and no
  theorem depends on what it prints. Every literal of the message is given by its
  UTF-8 bytes; \<open>window.open\<close> is modelled by returning the URL it opens.
\<close>

definition nl :: char where
  "nl = CHR 0x0A"

definition msg_empty :: string where
  "msg_empty = utf8 [0xD8, 0xA7, 0xD9, 0x84, 0xD8, 0xB3, 0xD9, 0x84, 0xD8, 0xA9, 0x20, 0xD9, 0x81, 0xD8, 0xA7,
     0xD8, 0xB1, 0xD8, 0xBA, 0xD8, 0xA9]"

definition msg_head :: string where
  "msg_head = utf8 [0xF0, 0x9F, 0x9B, 0x92, 0x20, 0x2A, 0xD8, 0xB7, 0xD9, 0x84, 0xD8, 0xA8, 0x20, 0xD8, 0xAC,
     0xD8, 0xAF, 0xD9, 0x8A, 0xD8, 0xAF, 0x20, 0xD9, 0x85, 0xD9, 0x86, 0x20] @ ''Gn store*'' @ [nl, nl]"

definition lbl_category :: string where
  "lbl_category = ''   '' @ utf8 [0xD8, 0xA7, 0xD9, 0x84, 0xD9, 0x82, 0xD8, 0xB3, 0xD9, 0x85] @ '': ''"

definition lbl_price :: string where
  "lbl_price = ''   '' @ utf8 [0xD8, 0xA7, 0xD9, 0x84, 0xD8, 0xB3, 0xD8, 0xB9, 0xD8, 0xB1] @ '': ''"

definition lbl_quantity :: string where
  "lbl_quantity = ''   '' @ utf8 [0xD8, 0xA7, 0xD9, 0x84, 0xD9, 0x83, 0xD9, 0x85, 0xD9, 0x8A, 0xD8, 0xA9] @ '': ''"

definition lbl_subtotal :: string where
  "lbl_subtotal = ''   '' @ utf8 [0xD8, 0xA7, 0xD9, 0x84, 0xD9, 0x85, 0xD8, 0xAC, 0xD9, 0x85, 0xD9, 0x88, 0xD8, 0xB9]
     @ '': ''"

definition lbl_total :: string where
  "lbl_total = utf8 [0xF0, 0x9F, 0x92, 0xB0, 0x20, 0x2A, 0xD8, 0xA5, 0xD8, 0xAC, 0xD9, 0x85, 0xD8, 0xA7, 0xD9,
     0x84, 0xD9, 0x8A, 0x20, 0xD8, 0xA7, 0xD9, 0x84, 0xD8, 0xB7, 0xD9, 0x84, 0xD8, 0xA8] @ '': ''"

definition lbl_count :: string where
  "lbl_count = utf8 [0xF0, 0x9F, 0x93, 0xA6, 0x20, 0x2A, 0xD8, 0xB9, 0xD8, 0xAF, 0xD8, 0xAF, 0x20, 0xD8, 0xA7,
     0xD9, 0x84, 0xD8, 0xB9, 0xD9, 0x86, 0xD8, 0xA7, 0xD8, 0xB5, 0xD8, 0xB1] @ '': ''"

definition msg_closing :: string where
  "msg_closing = utf8 [0xF0, 0x9F, 0x93, 0x9E, 0x20, 0xD9, 0x8A, 0xD8, 0xB1, 0xD8, 0xAC, 0xD9, 0x89, 0x20, 0xD8,
     0xA7, 0xD9, 0x84, 0xD8, 0xAA, 0xD9, 0x88, 0xD8, 0xA7, 0xD8, 0xB5, 0xD9, 0x84, 0x20, 0xD9, 0x85, 0xD8, 0xB9,
     0xD9, 0x8A, 0x20, 0xD9, 0x84, 0xD8, 0xAA, 0xD8, 0xA3, 0xD9, 0x83, 0xD9, 0x8A, 0xD8, 0xAF, 0x20, 0xD8, 0xA7,
     0xD9, 0x84, 0xD8, 0xB7, 0xD9, 0x84, 0xD8, 0xA8, 0x20, 0xD9, 0x88, 0xD8, 0xAA, 0xD8, 0xAD, 0xD8, 0xAF, 0xD9,
     0x8A, 0xD8, 0xAF, 0x20, 0xD8, 0xB7, 0xD8, 0xB1, 0xD9, 0x8A, 0xD9, 0x82, 0xD8, 0xA9, 0x20, 0xD8, 0xA7, 0xD9,
     0x84, 0xD8, 0xAA, 0xD8, 0xB3, 0xD9, 0x84, 0xD9, 0x8A, 0xD9, 0x85, 0x20, 0xD9, 0x88, 0xD8, 0xA7, 0xD9, 0x84,
     0xD8, 0xAF, 0xD9, 0x81, 0xD8, 0xB9, 0x2E]"

text \<open>The block the \<open>forEach\<close> appends for the item at position \<open>k\<close> (from 1).\<close>

definition msg_item :: "(int \<Rightarrow> string) \<Rightarrow> nat \<Rightarrow> cart_item \<Rightarrow> string" where
  "msg_item fmt k i =
     nat_to_dec k @ ''. *'' @ item_name i @ ''*'' @ [nl]
     @ lbl_category @ item_category i @ [nl]
     @ lbl_price @ fmt (item_price i) @ [nl]
     @ lbl_quantity @ int_to_dec (quantity i) @ [nl]
     @ lbl_subtotal @ fmt (item_price i * quantity i) @ [nl, nl]"

fun msg_items :: "(int \<Rightarrow> string) \<Rightarrow> nat \<Rightarrow> cart \<Rightarrow> string" where
  "msg_items fmt k [] = []"
| "msg_items fmt k (i # is) = msg_item fmt k i @ msg_items fmt (Suc k) is"

definition generateWhatsAppMessage :: "(int \<Rightarrow> string) \<Rightarrow> cart \<Rightarrow> string" where
  "generateWhatsAppMessage fmt c =
     (if c = [] then msg_empty
      else msg_head @ msg_items fmt 1 c
        @ lbl_total @ fmt (getCartTotal c) @ ''*'' @ [nl]
        @ lbl_count @ int_to_dec (getCartItemsCount c) @ ''*'' @ [nl, nl]
        @ msg_closing)"

text \<open>\<open>s.replace('+', '')\<close> with a string pattern: the first occurrence only.\<close>

fun replace_first :: "char \<Rightarrow> string \<Rightarrow> string" where
  "replace_first d [] = []"
| "replace_first d (c # cs) = (if c = d then cs else c # replace_first d cs)"

definition DEFAULT_PHONE :: string where
  "DEFAULT_PHONE = ''+9647707409507''"

definition generateWhatsAppLink :: "(int \<Rightarrow> string) \<Rightarrow> string \<Rightarrow> cart \<Rightarrow> string" where
  "generateWhatsAppLink fmt phone c =
     ''https://wa.me/'' @ replace_first (CHR ''+'') phone @ ''?text=''
     @ encodeURIComponent (generateWhatsAppMessage fmt c)"

definition sendOrderToWhatsApp :: "(int \<Rightarrow> string) \<Rightarrow> string \<Rightarrow> cart \<Rightarrow> string" where
  "sendOrderToWhatsApp fmt phone c = generateWhatsAppLink fmt phone c"

text \<open>The reading side of the link, a reference definition: the receiver's
  percent-decoding of the \<open>text\<close> parameter, byte by byte.\<close>

fun percent_decode :: "string \<Rightarrow> string" where
  "percent_decode [] = []"
| "percent_decode (c # r) =
     (if c = CHR ''%'' then
        (case r of
           h1 # h2 # r' \<Rightarrow>
             (case (hex_value h1, hex_value h2) of
                (Some a, Some b) \<Rightarrow> char_of (16 * a + b) # percent_decode r'
              | _ \<Rightarrow> c # percent_decode r)
         | _ \<Rightarrow> c # percent_decode r)
      else c # percent_decode r)"

section \<open>Lemmas\<close>

lemma hex_value_hex_upper [simp]: "d < 16 \<Longrightarrow> hex_value (hex_upper d) = Some d"
  by (auto simp: hex_upper_def hex_value_def Let_def)

lemma hex_upper_unreserved [simp]: "d < 16 \<Longrightarrow> uri_unreserved (hex_upper d)"
  by (auto simp: hex_upper_def uri_unreserved_def Let_def)

lemma percent_reserved [simp]: "\<not> uri_unreserved (CHR ''%'')"
  by (simp add: uri_unreserved_def)

lemma encodeURIComponent_Cons:
  "encodeURIComponent (c # s) = (if uri_unreserved c then [c]
      else [CHR ''%'', hex_upper (of_char c div 16), hex_upper (of_char c mod 16)]) @ encodeURIComponent s"
  by (simp add: encodeURIComponent_def)

lemma of_char_div_16: "(of_char c :: nat) div 16 < 16"
  using nat_of_char_less_256 [of c] by (simp add: div_less_iff_less_mult)

lemma percent_decode_encode: "percent_decode (encodeURIComponent s) = s"
proof (induction s)
  case Nil
  then show ?case by (simp add: encodeURIComponent_def)
next
  case (Cons c s)
  show ?case
  proof (cases "uri_unreserved c")
    case True
    then have "c \<noteq> CHR ''%''" by auto
    then show ?thesis using True Cons by (simp add: encodeURIComponent_Cons)
  next
    case False
    have "of_char c div 16 < (16::nat)" by (rule of_char_div_16)
    moreover have "16 * (of_char c div 16) + of_char c mod 16 = (of_char c :: nat)" by simp
    ultimately show ?thesis using False Cons by (simp add: encodeURIComponent_Cons)
  qed
qed

lemma encode_safe: "list_all (\<lambda>x. uri_unreserved x \<or> x = CHR ''%'') (encodeURIComponent s)"
  by (induction s) (simp_all add: encodeURIComponent_Cons encodeURIComponent_def [of "[]"] of_char_div_16)

text \<open>C15: the order link carries the whole message: its \<open>text\<close> parameter is made
  only of unreserved characters and percent escapes, so no \<open>&\<close> or \<open>#\<close> of the message
  can cut it, and percent-decoding it gives back the message byte for byte.\<close>

theorem whatsapp_link_roundtrip:
  "\<exists>t. generateWhatsAppLink fmt phone c = ''https://wa.me/'' @ replace_first (CHR ''+'') phone @ ''?text='' @ t
       \<and> list_all (\<lambda>x. uri_unreserved x \<or> x = CHR ''%'') t
       \<and> percent_decode t = generateWhatsAppMessage fmt c"
  by (auto simp: generateWhatsAppLink_def percent_decode_encode encode_safe)

end
