(* ===== verification/Pages.thy ===== *)
theory Pages
  imports AppState Order
begin

text \<open>
  The pages' handlers: the header src/src/components/Header.jsx with its search box
  and menu, src/src/components/ProductCard.jsx, the product page
  src/src/pages/ProductDetail.jsx with its local quantity, the cart page
  src/src/pages/CartPage.jsx, and the filter panel src/src/components/FilterSort.jsx
  with its local copy of the filters. A handler returns the actions it dispatches to
  the context (AppState) and, where the component keeps local state, that state
  updated. The theorems below hold without the pages' rendering guards (buttons shown
  only for a product in stock, disabled at the ends of the quantity range), so those
  guards are not part of the model.
\<close>

section \<open>Header\<close>

text \<open>Header's local state: \<open>isMenuOpen\<close> and the search box \<open>searchInput\<close>. The
  mobile menu is an uncontrolled \<open>Sheet\<close>: its open state is the Sheet's own,
  opened by its trigger and closed by its overlay or Escape; \<open>isMenuOpen\<close> is never
  passed to it. A handler returns the actions it dispatches (AppState's
  \<open>header_search\<close>, \<open>header_category\<close>, \<open>header_logo\<close>) and the path it navigates to.\<close>

record header_local =
  h_isMenuOpen :: bool
  h_searchInput :: string

definition header_init :: header_local where
  "header_init = \<lparr>h_isMenuOpen = False, h_searchInput = []\<rparr>"

record header_ui =
  h_local :: header_local
  sheet_open :: bool

datatype header_event = HInput string | HSubmit | HCategory string | HLogo | HContact | HTrigger | HSheetDismiss

fun header_step :: "header_event \<Rightarrow> header_ui \<Rightarrow> header_ui \<times> action list \<times> string option" where
  "header_step (HInput v) u = (u\<lparr>h_local := (h_local u)\<lparr>h_searchInput := v\<rparr>\<rparr>, [], None)"
| "header_step HSubmit u =
     (u\<lparr>h_local := (h_local u)\<lparr>h_isMenuOpen := False\<rparr>\<rparr>, header_search (h_searchInput (h_local u)), Some ''/'')"
| "header_step (HCategory c) u =
     (u\<lparr>h_local := (h_local u)\<lparr>h_searchInput := [], h_isMenuOpen := False\<rparr>\<rparr>, header_category c, Some ''/'')"
| "header_step HLogo u =
     (u\<lparr>h_local := (h_local u)\<lparr>h_searchInput := [], h_isMenuOpen := False\<rparr>\<rparr>, header_logo, Some ''/'')"
| "header_step HContact u = (u\<lparr>h_local := (h_local u)\<lparr>h_isMenuOpen := False\<rparr>\<rparr>, [], Some ''/contact'')"
| "header_step HTrigger u = (u\<lparr>sheet_open := True\<rparr>, [], None)"
| "header_step HSheetDismiss u = (u\<lparr>sheet_open := False\<rparr>, [], None)"

section \<open>ProductCard\<close>

text \<open>\<open>handleAddToCart\<close>: \<open>addToCart(product, 1)\<close>; the button is rendered only
  when \<open>product.stock > 0\<close>.\<close>

definition card_handleAddToCart :: "product \<Rightarrow> action list" where
  "card_handleAddToCart p = [ADD_TO_CART p 1]"

section \<open>ProductDetail\<close>

text \<open>The context's \<open>getProductById\<close>: \<open>state.products.find(p => p.id === parseInt(id))\<close>.\<close>

definition ctx_getProductById :: "app_state \<Rightarrow> string \<Rightarrow> product option" where
  "ctx_getProductById st sid = product_by_id sid (products st)"

text \<open>The page's local state: \<open>useState(1)\<close> for the quantity and
  \<open>useState(false)\<close> for \<open>imageError\<close>.\<close>

record detail =
  d_quantity :: int
  d_imageError :: bool

definition detail_init :: detail where
  "detail_init = \<lparr>d_quantity = 1, d_imageError = False\<rparr>"

definition detail_handleQuantityChange :: "product \<Rightarrow> int \<Rightarrow> detail \<Rightarrow> detail" where
  "detail_handleQuantityChange p n d =
     (if 1 \<le> n \<and> n \<le> stock p then d\<lparr>d_quantity := n\<rparr> else d)"

text \<open>\<open>handleImageError\<close>, the image's \<open>onError\<close>: \<open>setImageError(true)\<close>.\<close>

definition detail_handleImageError :: "detail \<Rightarrow> detail" where
  "detail_handleImageError d = d\<lparr>d_imageError := True\<rparr>"

definition detail_handleAddToCart :: "product option \<Rightarrow> detail \<Rightarrow> action list" where
  "detail_handleAddToCart po d =
     (case po of Some p \<Rightarrow> if 0 < stock p then [ADD_TO_CART p (d_quantity d)] else [] | None \<Rightarrow> [])"

section \<open>CartPage\<close>

definition cart_handleQuantityChange :: "product_id \<Rightarrow> int \<Rightarrow> action list" where
  "cart_handleQuantityChange k n = (if n \<le> 0 then [REMOVE_FROM_CART k] else [UPDATE_CART_QUANTITY k n])"

text \<open>The context's \<open>sendOrderToWhatsApp()\<close>: \<open>cartService.sendOrderToWhatsApp()\<close>,
  with the default number, for the service's own cart; the URL it opens.\<close>

definition ctx_sendOrderToWhatsApp :: "(int \<Rightarrow> string) \<Rightarrow> world \<Rightarrow> string" where
  "ctx_sendOrderToWhatsApp fmt w = sendOrderToWhatsApp fmt DEFAULT_PHONE (w_cart w)"

text \<open>\<open>handleCheckout\<close>: with a non-empty cart, the context's
  \<open>sendOrderToWhatsApp()\<close>.\<close>

definition cart_handleCheckout :: "(int \<Rightarrow> string) \<Rightarrow> app_state \<Rightarrow> world \<Rightarrow> string option" where
  "cart_handleCheckout fmt st w = (if app_cart st \<noteq> [] then Some (ctx_sendOrderToWhatsApp fmt w) else None)"

section \<open>FilterSort\<close>

record filter_panel =
  fp_filters :: ctx_filters
  fp_sortBy :: string
  fp_isOpen :: bool

text \<open>\<open>useState(currentFilters || ...)\<close> and \<open>useState(currentSortBy || "name")\<close>:
  HomePage passes the context's filters and sort.\<close>

definition fp_init :: "app_state \<Rightarrow> filter_panel" where
  "fp_init st = \<lparr>fp_filters = filters st, fp_sortBy = (if sortBy st = [] then ''name'' else sortBy st), fp_isOpen = False\<rparr>"

datatype filter_change = FCategory string | FMinPrice string | FMaxPrice string | FInStock bool

fun set_filter :: "filter_change \<Rightarrow> ctx_filters \<Rightarrow> ctx_filters" where
  "set_filter (FCategory v) f = f\<lparr>cf_category := v\<rparr>"
| "set_filter (FMinPrice v) f = f\<lparr>cf_minPrice := v\<rparr>"
| "set_filter (FMaxPrice v) f = f\<lparr>cf_maxPrice := v\<rparr>"
| "set_filter (FInStock v) f = f\<lparr>cf_inStock := v\<rparr>"

definition fp_handleFilterChange :: "filter_change \<Rightarrow> filter_panel \<Rightarrow> filter_panel \<times> action list" where
  "fp_handleFilterChange ch fp =
     (let nf = set_filter ch (fp_filters fp) in (fp\<lparr>fp_filters := nf\<rparr>, [SET_FILTERS nf]))"

definition fp_handleSortChange :: "string \<Rightarrow> filter_panel \<Rightarrow> filter_panel \<times> action list" where
  "fp_handleSortChange v fp = (fp\<lparr>fp_sortBy := v\<rparr>, [SET_SORT_BY v])"

definition fp_clearFilters :: "filter_panel \<Rightarrow> filter_panel \<times> action list" where
  "fp_clearFilters fp =
     (fp\<lparr>fp_filters := ctx_init_filters, fp_sortBy := ''name''\<rparr>, [SET_FILTERS ctx_init_filters, SET_SORT_BY ''name''])"

text \<open>The small screens' toggle: \<open>setIsOpen(!isOpen)\<close>.\<close>

definition fp_toggle :: "filter_panel \<Rightarrow> filter_panel" where
  "fp_toggle fp = fp\<lparr>fp_isOpen := \<not> fp_isOpen fp\<rparr>"

section \<open>The pages together\<close>

datatype page_event =
    CardAdd product
  | DetailMinus product
  | DetailPlus product
  | DetailAdd string
  | DetailImageError
  | CartMinus cart_item
  | CartPlus cart_item
  | CartRemove product_id
  | CartClear
  | PanelFilter filter_change
  | PanelSort string
  | PanelClear
  | PanelToggle

record pages =
  pg_detail :: detail
  pg_panel :: filter_panel

text \<open>A page event: the local state after it and the actions it dispatches.\<close>

fun page_step :: "page_event \<Rightarrow> app_state \<Rightarrow> pages \<Rightarrow> pages \<times> action list" where
  "page_step (CardAdd p) st pg = (pg, card_handleAddToCart p)"
| "page_step (DetailMinus p) st pg =
     (pg\<lparr>pg_detail := detail_handleQuantityChange p (d_quantity (pg_detail pg) - 1) (pg_detail pg)\<rparr>, [])"
| "page_step (DetailPlus p) st pg =
     (pg\<lparr>pg_detail := detail_handleQuantityChange p (d_quantity (pg_detail pg) + 1) (pg_detail pg)\<rparr>, [])"
| "page_step (DetailAdd sid) st pg = (pg, detail_handleAddToCart (ctx_getProductById st sid) (pg_detail pg))"
| "page_step DetailImageError st pg = (pg\<lparr>pg_detail := detail_handleImageError (pg_detail pg)\<rparr>, [])"
| "page_step (CartMinus i) st pg = (pg, cart_handleQuantityChange (item_id i) (quantity i - 1))"
| "page_step (CartPlus i) st pg = (pg, cart_handleQuantityChange (item_id i) (quantity i + 1))"
| "page_step (CartRemove k) st pg = (pg, [REMOVE_FROM_CART k])"
| "page_step CartClear st pg = (pg, [CLEAR_CART])"
| "page_step (PanelFilter ch) st pg = (case fp_handleFilterChange ch (pg_panel pg) of (fp, as) \<Rightarrow> (pg\<lparr>pg_panel := fp\<rparr>, as))"
| "page_step (PanelSort v) st pg = (case fp_handleSortChange v (pg_panel pg) of (fp, as) \<Rightarrow> (pg\<lparr>pg_panel := fp\<rparr>, as))"
| "page_step PanelClear st pg = (case fp_clearFilters (pg_panel pg) of (fp, as) \<Rightarrow> (pg\<lparr>pg_panel := fp\<rparr>, as))"
| "page_step PanelToggle st pg = (pg\<lparr>pg_panel := fp_toggle (pg_panel pg)\<rparr>, [])"

text \<open>Each action a page dispatches is the action of one event of the running
  application (AppState): the cart operations and the filter and sort changes.\<close>

fun action_event :: "action \<Rightarrow> ui_event option" where
  "action_event (ADD_TO_CART p q) = Some (CartEv (AddOp p q))"
| "action_event (REMOVE_FROM_CART k) = Some (CartEv (RemoveOp k))"
| "action_event (UPDATE_CART_QUANTITY k q) = Some (CartEv (UpdateOp k q))"
| "action_event CLEAR_CART = Some (CartEv ClearOp)"
| "action_event (SET_FILTERS f) = Some (FiltersChange f)"
| "action_event (SET_SORT_BY s) = Some (SortChange s)"
| "action_event _ = None"

definition ui_action :: "action \<Rightarrow> bool" where
  "ui_action a \<longleftrightarrow> (case action_event a of Some ev \<Rightarrow> ui_ok ev | None \<Rightarrow> False)"

text \<open>The filter panel seen from the context: its local filters and sort, the
  state it mirrors (\<open>state.filters\<close>, \<open>state.sortBy\<close>). Only the panel's
  callbacks \<open>setFilters\<close> and \<open>setSortBy\<close> dispatch the actions that change it.\<close>

definition panel_abs :: "filter_panel \<Rightarrow> ctx_filters \<times> string" where
  "panel_abs fp = (fp_filters fp, fp_sortBy fp)"

fun panel_action :: "action \<Rightarrow> bool" where
  "panel_action (SET_FILTERS f) = True"
| "panel_action (SET_SORT_BY s) = True"
| "panel_action _ = False"

fun panel_event :: "ui_event \<Rightarrow> bool" where
  "panel_event (FiltersChange f) = True"
| "panel_event (SortChange s) = True"
| "panel_event _ = False"

section \<open>Lemmas\<close>

lemma action_event_step:
  "action_event a = Some ev \<Longrightarrow> app_step ev st w = appReducer a st w"
  by (cases a) (auto simp: app_step_def split: prod.splits)

lemma dispatch_ui_reach:
  "list_all ui_action as \<Longrightarrow> app_reach st w \<Longrightarrow> dispatch_all as st w = (st', w') \<Longrightarrow> app_reach st' w'"
proof (induction as arbitrary: st w)
  case Nil
  then show ?case by simp
next
  case (Cons a as)
  obtain ev where ev: "action_event a = Some ev" "ui_ok ev"
    using Cons.prems(1) by (auto simp: ui_action_def split: option.splits)
  obtain st1 w1 where r: "appReducer a st w = (st1, w1)" by fastforce
  have "app_reach st1 w1"
    using app_reach.step [OF Cons.prems(2) ev(2)] action_event_step [OF ev(1)] r by simp
  then show ?case using Cons r by simp
qed

lemma detail_quantity_pos:
  "1 \<le> d_quantity d \<Longrightarrow> 1 \<le> d_quantity (detail_handleQuantityChange p n d)"
  by (simp add: detail_handleQuantityChange_def)

lemma page_step_ui:
  assumes "1 \<le> d_quantity (pg_detail pg)" and "page_step pe st pg = (pg', as)"
  shows "list_all ui_action as \<and> 1 \<le> d_quantity (pg_detail pg')"
  using assms
  by (cases pe)
     (auto simp: ui_action_def card_handleAddToCart_def detail_handleAddToCart_def
        cart_handleQuantityChange_def fp_handleFilterChange_def fp_handleSortChange_def fp_clearFilters_def fp_toggle_def
        detail_handleImageError_def detail_quantity_pos Let_def split: option.splits if_splits)

lemma reducer_keeps_panel:
  "\<not> panel_action a \<Longrightarrow> filters (fst (appReducer a st w)) = filters st \<and> sortBy (fst (appReducer a st w)) = sortBy st"
  by (cases a) (auto simp: cart_action_def split: prod.splits)

lemma dispatch_keeps_panel:
  "list_all (\<lambda>a. \<not> panel_action a) as \<Longrightarrow>
   filters (fst (dispatch_all as st w)) = filters st \<and> sortBy (fst (dispatch_all as st w)) = sortBy st"
proof (induction as arbitrary: st w)
  case Nil
  then show ?case by simp
next
  case (Cons a as)
  obtain st1 w1 where r: "appReducer a st w = (st1, w1)" by fastforce
  then show ?case using Cons reducer_keeps_panel [of a st w] by simp
qed

lemma load_no_panel: "list_all (\<lambda>a. \<not> panel_action a) (fst (loadInitialData t0 t1 t2 t3 net r1 r2 w))"
  by (auto simp: loadInitialData_def split: prod.splits sum.splits)

lemma ui_actions_no_panel: "\<not> panel_event ev \<Longrightarrow> list_all (\<lambda>a. \<not> panel_action a) (fst (ui_actions ev w))"
  by (induction ev w rule: ui_actions.induct)
     (auto simp: load_no_panel refreshData_def provider_loadCart_def getCart_def header_search_def header_category_def
        header_logo_def home_category_click_def home_page_change_def split: prod.splits sum.splits)

text \<open>C4: every handler of ProductCard, ProductDetail, CartPage and FilterSort, run
  from a reachable state of the application with the product page's quantity at least
  1, dispatches only actions of the running application's events, so the state after it
  is again reachable (and the cart invariants hold there); the product page's quantity
  stays at least 1.\<close>

theorem pages_keep_app_invariant:
  assumes "app_reach st w" and "1 \<le> d_quantity (pg_detail pg)"
    and "page_step pe st pg = (pg', as)" and "dispatch_all as st w = (st', w')"
  shows "app_reach st' w' \<and> 1 \<le> d_quantity (pg_detail pg')"
  using page_step_ui [OF assms(2,3)] dispatch_ui_reach assms(1,4) by blast


text \<open>C7: FilterSort's local copy of the filters and the sort refines the context's:
  started from the context (with a sort set), it stays equal to \<open>state.filters\<close> and
  \<open>state.sortBy\<close> after every event of the four pages, the panel's own included, and
  after every event of the running application that is not one of the panel's
  callbacks.\<close>

theorem panel_refines_context:
  assumes "panel_abs (pg_panel pg) = (filters st, sortBy st)"
  shows "(sortBy st \<noteq> [] \<longrightarrow> panel_abs (fp_init st) = (filters st, sortBy st))
    \<and> (page_step pe st pg = (pg', as) \<longrightarrow>
         panel_abs (pg_panel pg') = (filters (fst (dispatch_all as st w)), sortBy (fst (dispatch_all as st w))))
    \<and> (\<not> panel_event ev \<longrightarrow>
         panel_abs (pg_panel pg) = (filters (fst (app_step ev st w)), sortBy (fst (app_step ev st w))))"
proof (intro conjI impI)
  show "sortBy st \<noteq> [] \<Longrightarrow> panel_abs (fp_init st) = (filters st, sortBy st)"
    by (simp add: panel_abs_def fp_init_def)
next
  assume ps: "page_step pe st pg = (pg', as)"
  show "panel_abs (pg_panel pg') = (filters (fst (dispatch_all as st w)), sortBy (fst (dispatch_all as st w)))"
  proof (cases "pe \<in> range PanelFilter \<or> pe \<in> range PanelSort \<or> pe = PanelClear")
    case True
    then show ?thesis using ps assms
      by (auto simp: panel_abs_def fp_handleFilterChange_def fp_handleSortChange_def fp_clearFilters_def fp_toggle_def Let_def)
  next
    case False
    then have "list_all (\<lambda>a. \<not> panel_action a) as \<and> panel_abs (pg_panel pg') = panel_abs (pg_panel pg)"
      using ps by (cases pe) (auto simp: card_handleAddToCart_def detail_handleAddToCart_def
          cart_handleQuantityChange_def fp_toggle_def panel_abs_def split: option.splits)
    then show ?thesis using dispatch_keeps_panel [of as st w] assms by simp
  qed
next
  assume "\<not> panel_event ev"
  then show "panel_abs (pg_panel pg) = (filters (fst (app_step ev st w)), sortBy (fst (app_step ev st w)))"
    using ui_actions_no_panel [of ev w] dispatch_keeps_panel assms
    by (simp add: app_step_def split_beta)
qed

theorem panel_refines_context_witness:
  "panel_abs (fp_init initialState) = (filters initialState, sortBy initialState)
   \<and> panel_abs (pg_panel (fst (page_step PanelClear initialState \<lparr>pg_detail = detail_init, pg_panel = fp_init initialState\<rparr>)))
     = (filters (fst (dispatch_all (snd (page_step PanelClear initialState \<lparr>pg_detail = detail_init, pg_panel = fp_init initialState\<rparr>))
          initialState (snd (mounted [] empty_storage)))),
        sortBy (fst (dispatch_all (snd (page_step PanelClear initialState \<lparr>pg_detail = detail_init, pg_panel = fp_init initialState\<rparr>))
          initialState (snd (mounted [] empty_storage)))))
   \<and> panel_abs (fp_init initialState)
     = (filters (fst (app_step HeaderLogo initialState (snd (mounted [] empty_storage)))),
        sortBy (fst (app_step HeaderLogo initialState (snd (mounted [] empty_storage)))))"
proof -
  have a: "panel_abs (pg_panel \<lparr>pg_detail = detail_init, pg_panel = fp_init initialState\<rparr>) = (filters initialState, sortBy initialState)"
    by (simp add: panel_abs_def fp_init_def initialState_def)
  let ?ps = "page_step PanelClear initialState \<lparr>pg_detail = detail_init, pg_panel = fp_init initialState\<rparr>"
  have "sortBy initialState \<noteq> []" by (simp add: initialState_def)
  moreover have "?ps = (fst ?ps, snd ?ps)" by simp
  moreover have "\<not> panel_event HeaderLogo" by simp
  ultimately show ?thesis
    using panel_refines_context [OF a, where pe = PanelClear and ev = HeaderLogo and w = "snd (mounted [] empty_storage)"
        and pg' = "fst (page_step PanelClear initialState \<lparr>pg_detail = detail_init, pg_panel = fp_init initialState\<rparr>)"
        and as = "snd (page_step PanelClear initialState \<lparr>pg_detail = detail_init, pg_panel = fp_init initialState\<rparr>)"]
    by (simp only: pages.select_convs) blast
qed

lemma card_add_step:
  assumes "app_reach st w" and "appReducer (ADD_TO_CART p 1) st w = (st1, w1)"
  shows "app_reach st1 w1 \<and> getProductQuantity (pid p) (app_cart st1) = getProductQuantity (pid p) (app_cart st) + 1"
proof -
  have c: "app_cart st = w_cart w" using app_reach_inv [OF assms(1)] by (simp add: app_inv_def)
  have "app_reach st1 w1"
    using app_reach.step [OF assms(1), of "CartEv (AddOp p 1)"] assms(2) by (simp add: app_step_def)
  moreover have "app_cart st1 = add_line p 1 (w_cart w)"
    using assms(2) by (auto simp: cart_action_def addToCart_def Let_def)
  ultimately show ?thesis using c qty_add_line [of p 1 "w_cart w"] by (simp add: qty_of_def fun_eq_iff)
qed

text \<open>C17: nothing bounds a cart quantity by the stock: each click on ProductCard's add
  button adds one unit, so n clicks on a product in stock raise its quantity in the
  cart by n, past its stock.\<close>

theorem card_adds_exceed_stock:
  assumes "app_reach st w"
  shows "getProductQuantity (pid p) (app_cart (fst (dispatch_all (concat (replicate n (card_handleAddToCart p))) st w)))
         = getProductQuantity (pid p) (app_cart st) + int n"
  using assms
proof (induction n arbitrary: st w)
  case 0
  then show ?case by simp
next
  case (Suc n)
  obtain st1 w1 where r: "appReducer (ADD_TO_CART p 1) st w = (st1, w1)" by fastforce
  have "dispatch_all (concat (replicate (Suc n) (card_handleAddToCart p))) st w
      = dispatch_all (concat (replicate n (card_handleAddToCart p))) st1 w1"
    using r by (simp add: card_handleAddToCart_def)
  then show ?case using Suc.IH card_add_step [OF Suc.prems r] by simp
qed


theorem pages_keep_app_invariant_witness:
  "app_reach (fst (dispatch_all (snd (page_step (CardAdd demo_product) (fst (mounted [] empty_storage))
       \<lparr>pg_detail = detail_init, pg_panel = fp_init initialState\<rparr>)) (fst (mounted [] empty_storage))
       (snd (mounted [] empty_storage))))
     (snd (dispatch_all (snd (page_step (CardAdd demo_product) (fst (mounted [] empty_storage))
       \<lparr>pg_detail = detail_init, pg_panel = fp_init initialState\<rparr>)) (fst (mounted [] empty_storage))
       (snd (mounted [] empty_storage))))"
proof -
  let ?st = "fst (mounted [] empty_storage)" and ?w = "snd (mounted [] empty_storage)"
  let ?pg = "\<lparr>pg_detail = detail_init, pg_panel = fp_init initialState\<rparr>"
  have q: "1 \<le> d_quantity (pg_detail ?pg)" by (simp add: detail_init_def)
  show ?thesis
    using pages_keep_app_invariant [OF mounted_empty_reach q, of "CardAdd demo_product"
        "fst (page_step (CardAdd demo_product) ?st ?pg)" "snd (page_step (CardAdd demo_product) ?st ?pg)"
        "fst (dispatch_all (snd (page_step (CardAdd demo_product) ?st ?pg)) ?st ?w)"
        "snd (dispatch_all (snd (page_step (CardAdd demo_product) ?st ?pg)) ?st ?w)"]
    by simp
qed

theorem card_adds_exceed_stock_witness:
  "getProductQuantity (pid demo_product) (app_cart (fst (dispatch_all (concat (replicate 4 (card_handleAddToCart demo_product)))
      (fst (mounted [] empty_storage)) (snd (mounted [] empty_storage))))) = 4
   \<and> stock demo_product < 4"
proof -
  have z: "getProductQuantity (pid demo_product) (app_cart (fst (mounted [] empty_storage))) = 0"
    by (simp add: mounted_def provider_loadCart_def getCart_def getProductQuantity_def)
  show ?thesis
    using card_adds_exceed_stock [OF mounted_empty_reach, of demo_product 4] z by (simp add: demo_product_def)
qed

end
