(* ===== verification/PWA.thy ===== *)
theory PWA
  imports Prelude
begin

text \<open>
  The install prompt: the hook \<open>usePWA\<close> (src/src/hooks/usePWA.js) and the banner
  that renders it (src/src/components/InstallPrompt.jsx). The hook's three
  \<open>useState\<close> slots are the record \<open>pwa\<close>; the browser's
  \<open>beforeinstallprompt\<close> event objects are named by numbers. \<open>installApp\<close> is
  asynchronous: it calls \<open>prompt()\<close> and suspends on \<open>userChoice\<close>; the field
  \<open>awaiting\<close> lists the events whose \<open>installApp\<close> call is suspended, and the
  user's answer is a later event that resumes it, so other browser events can
  interleave. Service-worker registration and console output change no state and
  are not modelled; the dismiss button writes the shared \<open>localStorage\<close> of the
  Prelude.
\<close>

type_synonym prompt_event = nat

datatype outcome = Accepted | Dismissed

record pwa =
  deferredPrompt :: "prompt_event option"
  isInstallable :: bool
  isInstalled :: bool
  awaiting :: "prompt_event list"

definition pwa_init :: pwa where
  "pwa_init = \<lparr>deferredPrompt = None, isInstallable = False, isInstalled = False, awaiting = []\<rparr>"

text \<open>The mount effect: only the \<open>display-mode: standalone\<close> check changes state.\<close>

definition pwa_mount :: "bool \<Rightarrow> pwa \<Rightarrow> pwa" where
  "pwa_mount standalone p = (if standalone then p\<lparr>isInstalled := True\<rparr> else p)"

definition handleBeforeInstallPrompt :: "prompt_event \<Rightarrow> pwa \<Rightarrow> pwa" where
  "handleBeforeInstallPrompt e p = p\<lparr>deferredPrompt := Some e, isInstallable := True\<rparr>"

definition handleAppInstalled :: "pwa \<Rightarrow> pwa" where
  "handleAppInstalled p = p\<lparr>isInstalled := True, isInstallable := False, deferredPrompt := None\<rparr>"

text \<open>\<open>installApp\<close> up to its \<open>await\<close>: with a deferred prompt it calls
  \<open>prompt()\<close>, which throws on an event already prompted (the promise rejects
  before any state is set), and otherwise suspends on \<open>userChoice\<close>.\<close>

definition installApp_start :: "pwa \<Rightarrow> pwa" where
  "installApp_start p =
     (case deferredPrompt p of
        None \<Rightarrow> p
      | Some e \<Rightarrow> if e \<in> set (awaiting p) then p else p\<lparr>awaiting := awaiting p @ [e]\<rparr>)"

text \<open>\<open>installApp\<close> after its \<open>await\<close>, resumed with the user's choice.\<close>

definition installApp_resume :: "prompt_event \<Rightarrow> outcome \<Rightarrow> pwa \<Rightarrow> pwa" where
  "installApp_resume e oc p =
     p\<lparr>isInstalled := (if oc = Accepted then True else isInstalled p),
       deferredPrompt := None, isInstallable := False, awaiting := remove1 e (awaiting p)\<rparr>"

text \<open>InstallPrompt renders nothing when \<open>isInstalled || !isInstallable\<close>.\<close>

definition installPrompt_shown :: "pwa \<Rightarrow> bool" where
  "installPrompt_shown p \<longleftrightarrow> \<not> (isInstalled p \<or> \<not> isInstallable p)"

definition DISMISS_KEY :: string where
  "DISMISS_KEY = ''installPromptDismissed''"

text \<open>The dismiss button: \<open>localStorage.setItem('installPromptDismissed', 'true')\<close>;
  when it throws, the click handler fails and nothing changes.\<close>

definition installPrompt_dismiss :: "storage \<Rightarrow> storage" where
  "installPrompt_dismiss s = (case set_item DISMISS_KEY (JsonText (JBool True)) s of Inr s' \<Rightarrow> s' | Inl _ \<Rightarrow> s)"

datatype pwa_event = BeforeInstallPrompt prompt_event | AppInstalled | InstallClick
  | UserChoice prompt_event outcome | DismissClick

fun pwa_step :: "pwa_event \<Rightarrow> pwa \<times> storage \<Rightarrow> pwa \<times> storage" where
  "pwa_step (BeforeInstallPrompt e) (p, s) = (handleBeforeInstallPrompt e p, s)"
| "pwa_step AppInstalled (p, s) = (handleAppInstalled p, s)"
| "pwa_step InstallClick (p, s) = (installApp_start p, s)"
| "pwa_step (UserChoice e oc) (p, s) = (installApp_resume e oc p, s)"
| "pwa_step DismissClick (p, s) = (p, installPrompt_dismiss s)"

text \<open>The buttons exist only while the banner is shown; a choice only resumes a
  suspended \<open>installApp\<close>; the browser fires its events at any time.\<close>

fun pwa_enabled :: "pwa_event \<Rightarrow> pwa \<Rightarrow> bool" where
  "pwa_enabled InstallClick p = installPrompt_shown p"
| "pwa_enabled DismissClick p = installPrompt_shown p"
| "pwa_enabled (UserChoice e oc) p = (e \<in> set (awaiting p))"
| "pwa_enabled _ p = True"

inductive pwa_reach :: "storage \<Rightarrow> pwa \<times> storage \<Rightarrow> bool" for s0 :: storage where
  mount: "pwa_reach s0 (pwa_mount standalone pwa_init, s0)"
| step: "pwa_reach s0 ps \<Longrightarrow> pwa_enabled e (fst ps) \<Longrightarrow> pwa_reach s0 (pwa_step e ps)"

definition pwa_inv :: "pwa \<Rightarrow> bool" where
  "pwa_inv p \<longleftrightarrow> (isInstallable p \<longleftrightarrow> deferredPrompt p \<noteq> None)"

definition same_but :: "string \<Rightarrow> storage \<Rightarrow> storage \<Rightarrow> bool" where
  "same_but k s0 s \<longleftrightarrow> readable s = readable s0 \<and> writable s = writable s0 \<and> (\<forall>k'. k' \<noteq> k \<longrightarrow> slots s k' = slots s0 k')"

section \<open>Lemmas\<close>

lemma pwa_step_inv: "pwa_inv p \<Longrightarrow> pwa_inv (fst (pwa_step e (p, s)))"
  by (cases e) (auto simp: pwa_inv_def handleBeforeInstallPrompt_def handleAppInstalled_def
      installApp_start_def installApp_resume_def split: option.splits)

lemma pwa_reach_inv: "pwa_reach s0 ps \<Longrightarrow> pwa_inv (fst ps)"
proof (induction rule: pwa_reach.induct)
  case (mount standalone)
  then show ?case by (simp add: pwa_inv_def pwa_mount_def pwa_init_def)
next
  case (step ps e)
  then show ?case using pwa_step_inv [of "fst ps" e "snd ps"] by simp
qed

lemma dismiss_same_but: "same_but DISMISS_KEY s (installPrompt_dismiss s)"
  by (simp add: same_but_def installPrompt_dismiss_def set_item_def)

lemma same_but_trans: "same_but k s0 s \<Longrightarrow> same_but k s s' \<Longrightarrow> same_but k s0 s'"
  by (simp add: same_but_def)

lemma pwa_step_storage: "same_but DISMISS_KEY s (snd (pwa_step e (p, s)))"
  by (cases e) (simp_all add: same_but_def dismiss_same_but [unfolded same_but_def])

lemma shown_deferred: "pwa_inv p \<Longrightarrow> installPrompt_shown p \<Longrightarrow> \<exists>e. deferredPrompt p = Some e"
  by (auto simp: pwa_inv_def installPrompt_shown_def)

section \<open>Properties\<close>

text \<open>C37: in every state the install prompt reaches from its mount, \<open>isInstallable\<close>
  holds exactly when a deferred \<open>beforeinstallprompt\<close> event is kept, and the only
  storage slot the prompt ever writes is \<open>installPromptDismissed\<close>.\<close>

theorem pwa_reach_consistent:
  assumes "pwa_reach s0 (p, s)"
  shows "pwa_inv p \<and> same_but DISMISS_KEY s0 s"
proof -
  have "pwa_inv (fst ps) \<and> same_but DISMISS_KEY s0 (snd ps)" if "pwa_reach s0 ps" for ps
    using that
  proof (induction rule: pwa_reach.induct)
    case (mount standalone)
    then show ?case by (simp add: pwa_inv_def pwa_mount_def pwa_init_def same_but_def)
  next
    case (step ps e)
    obtain q t where ps: "ps = (q, t)" by fastforce
    show ?case
      using step pwa_step_inv [of q e t] same_but_trans [OF _ pwa_step_storage [of t e q]] by (simp add: ps)
  qed
  then show ?thesis using assms by fastforce
qed

lemma pwa_reach_consistent_witness:
  "pwa_inv (fst (pwa_step DismissClick (pwa_step (BeforeInstallPrompt 7)
      (pwa_mount False pwa_init, \<lparr>slots = Map.empty, readable = True, writable = True\<rparr>))))
   \<and> same_but DISMISS_KEY \<lparr>slots = Map.empty, readable = True, writable = True\<rparr>
      (snd (pwa_step DismissClick (pwa_step (BeforeInstallPrompt 7)
      (pwa_mount False pwa_init, \<lparr>slots = Map.empty, readable = True, writable = True\<rparr>))))"
proof -
  let ?s0 = "\<lparr>slots = Map.empty, readable = True, writable = True\<rparr> :: storage"
  have r1: "pwa_reach ?s0 (pwa_step (BeforeInstallPrompt 7) (pwa_mount False pwa_init, ?s0))"
    by (rule pwa_reach.step [OF pwa_reach.mount]) simp
  have "pwa_reach ?s0 (pwa_step DismissClick (pwa_step (BeforeInstallPrompt 7) (pwa_mount False pwa_init, ?s0)))"
    by (rule pwa_reach.step [OF r1])
      (simp add: pwa_mount_def pwa_init_def handleBeforeInstallPrompt_def installPrompt_shown_def)
  then show ?thesis using pwa_reach_consistent by (metis prod.collapse)
qed

text \<open>C38: whenever the install banner is shown, the user can always make it go away
  with Install: the click suspends \<open>installApp\<close> on the deferred event, and whatever
  the user answers, resuming it hides the banner (and an accepted prompt marks the app
  installed). The dismiss button does not: after it the banner is still shown.\<close>

theorem install_prompt_answered:
  assumes "pwa_reach s0 (p, s)" and "installPrompt_shown p"
  shows "\<exists>e. pwa_enabled InstallClick p
           \<and> pwa_enabled (UserChoice e oc) (fst (pwa_step InstallClick (p, s)))
           \<and> \<not> installPrompt_shown (fst (pwa_step (UserChoice e oc) (pwa_step InstallClick (p, s))))
           \<and> (oc = Accepted \<longrightarrow> isInstalled (fst (pwa_step (UserChoice e oc) (pwa_step InstallClick (p, s)))))
           \<and> installPrompt_shown (fst (pwa_step DismissClick (p, s)))"
proof -
  have "pwa_inv p" using pwa_reach_inv [OF assms(1)] by simp
  then obtain e where e: "deferredPrompt p = Some e"
    using shown_deferred assms(2) by blast
  then have "e \<in> set (awaiting (installApp_start p))"
    by (simp add: installApp_start_def)
  then show ?thesis using assms(2)
    by (auto simp: installApp_resume_def installPrompt_shown_def)
qed

lemma install_prompt_answered_witness:
  "\<exists>e. pwa_enabled InstallClick (handleBeforeInstallPrompt 7 pwa_init)
      \<and> pwa_enabled (UserChoice e Dismissed) (fst (pwa_step InstallClick (handleBeforeInstallPrompt 7 pwa_init, \<lparr>slots = Map.empty, readable = True, writable = True\<rparr>)))
      \<and> \<not> installPrompt_shown (fst (pwa_step (UserChoice e Dismissed) (pwa_step InstallClick (handleBeforeInstallPrompt 7 pwa_init, \<lparr>slots = Map.empty, readable = True, writable = True\<rparr>))))
      \<and> (Dismissed = Accepted \<longrightarrow> isInstalled (fst (pwa_step (UserChoice e Dismissed) (pwa_step InstallClick (handleBeforeInstallPrompt 7 pwa_init, \<lparr>slots = Map.empty, readable = True, writable = True\<rparr>)))))
      \<and> installPrompt_shown (fst (pwa_step DismissClick (handleBeforeInstallPrompt 7 pwa_init, \<lparr>slots = Map.empty, readable = True, writable = True\<rparr>)))"
proof -
  let ?s0 = "\<lparr>slots = Map.empty, readable = True, writable = True\<rparr> :: storage"
  have "pwa_reach ?s0 (pwa_step (BeforeInstallPrompt 7) (pwa_mount False pwa_init, ?s0))"
    by (rule pwa_reach.step [OF pwa_reach.mount]) simp
  then have r: "pwa_reach ?s0 (handleBeforeInstallPrompt 7 pwa_init, ?s0)"
    by (simp add: pwa_mount_def)
  have "installPrompt_shown (handleBeforeInstallPrompt 7 pwa_init)"
    by (simp add: pwa_init_def handleBeforeInstallPrompt_def installPrompt_shown_def)
  then show ?thesis using install_prompt_answered [OF r] by blast
qed

end
