(* ===== verification/Views.thy ===== *)
theory Views
  imports Pages
begin

text \<open>
  What the product pages render, as values: ProductGrid
  (src/src/components/ProductGrid.jsx), FeaturedProductsSlider
  (src/src/components/FeaturedProductsSlider.jsx), HomePage
  (src/src/pages/HomePage.jsx), CartPage (src/src/pages/CartPage.jsx) and
  ProductDetail (src/src/pages/ProductDetail.jsx), ProductCard
  (src/src/components/ProductCard.jsx) and FilterSort
  (src/src/components/FilterSort.jsx) and Header (src/src/components/Header.jsx),
  each a function of the context's state and the component's own state. A view keeps
  what the component decides: which branch renders, the titles and messages, the
  products listed, the badges and icons, which pagers are shown, and where its links
  and buttons lead. HomePage's mount effect is here too. Markup and styling are left
  out.
\<close>

section \<open>ProductGrid\<close>

text \<open>ProductGrid's own \<open>usePagination(products || [], 100)\<close>, with the label
  "startIndex - endIndex" shown when \<open>totalPages > 1\<close>, and its Pagination.\<close>

datatype grid_view =
    GridLoading
  | GridEmpty string
  | GridList "string option" int "(int \<times> int) option" "product list" bool

definition grid_default_empty :: string where
  "grid_default_empty = utf8 [0xD9, 0x84, 0xD8, 0xA7, 0x20, 0xD8, 0xAA, 0xD9, 0x88, 0xD8, 0xAC, 0xD8, 0xAF, 0x20,
     0xD9, 0x85, 0xD9, 0x86, 0xD8, 0xAA, 0xD8, 0xAC, 0xD8, 0xA7, 0xD8, 0xAA]"

definition GRID_PER_PAGE :: nat where
  "GRID_PER_PAGE = 100"

definition productGrid_view :: "product list \<Rightarrow> bool \<Rightarrow> string \<Rightarrow> string \<Rightarrow> pager \<Rightarrow> grid_view" where
  "productGrid_view ps ld title emptyMessage p =
     (if ld then GridLoading
      else if ps = [] then GridEmpty (if emptyMessage = [] then grid_default_empty else emptyMessage)
      else GridList (if title = [] then None else Some title) (int (length ps))
             (if 1 < totalPages (length ps) GRID_PER_PAGE
              then Some (startIndex GRID_PER_PAGE p, endIndex GRID_PER_PAGE p) else None)
             (currentData ps (pg_page p) GRID_PER_PAGE)
             (pagination_visible (totalPages (length ps) GRID_PER_PAGE)))"

text \<open>The grid after its effect \<open>resetPage()\<close> has run for the \<open>products\<close> it was given.\<close>

definition grid_after_reset :: "product list \<Rightarrow> pager" where
  "grid_after_reset ps = resetPage (pager_init (length ps))"

section \<open>FeaturedProductsSlider\<close>

text \<open>Its state \<open>featuredProducts\<close>; the effect copies the context's
  \<open>getFeaturedProducts()\<close> (\<open>state.products.filter(p => p.featured)\<close>) when
  nothing is loading and there is no error.\<close>

definition ctx_getFeaturedProducts :: "app_state \<Rightarrow> product list" where
  "ctx_getFeaturedProducts st = filter featured (products st)"

definition slider_effect :: "app_state \<Rightarrow> product list \<Rightarrow> product list" where
  "slider_effect st fs = (if \<not> loading st \<and> \<not> truthy_str (app_error st) then ctx_getFeaturedProducts st else fs)"

datatype slider_view = SliderLoading | SliderError string | SliderHidden | SliderShow "product list"

definition slider_view :: "app_state \<Rightarrow> product list \<Rightarrow> slider_view" where
  "slider_view st fs =
     (if loading st then SliderLoading
      else if truthy_str (app_error st) then SliderError (the (app_error st))
      else if fs = [] then SliderHidden
      else SliderShow fs)"

section \<open>Category icons\<close>

text \<open>\<open>categoryIcons\<close>, the same table in Header and HomePage, and
  \<open>categoryIcons[category] || Smartphone\<close>. Its key for screen protectors is
  spelled differently from the category of the sample data
  (\<open>cat_protectors\<close>).\<close>

datatype icon = Headphones | Zap | Cable | Shield | Smartphone

definition icon_key_protectors :: string where
  "icon_key_protectors = utf8 [0xD9, 0x84, 0xD8, 0xB2, 0xD9, 0x83, 0xD8, 0xA7, 0xD8, 0xAA] @ '' '' @ utf8 [0xD8, 0xB4, 0xD8, 0xA7, 0xD8, 0xB4, 0xD8, 0xA9]"

definition categoryIcons :: "string \<Rightarrow> icon option" where
  "categoryIcons c =
     (if c = cat_headphones then Some Headphones
      else if c = cat_chargers then Some Zap
      else if c = cat_cables then Some Cable
      else if c = icon_key_protectors then Some Shield
      else if c = cat_accessories then Some Smartphone
      else None)"

definition category_icon :: "string \<Rightarrow> icon" where
  "category_icon c = (case categoryIcons c of Some i \<Rightarrow> i | None \<Rightarrow> Smartphone)"

section \<open>HomePage\<close>

definition title_search_prefix :: string where
  "title_search_prefix = utf8 [0xD9, 0x86, 0xD8, 0xAA, 0xD8, 0xA7, 0xD8, 0xA6, 0xD8, 0xAC, 0x20, 0xD8, 0xA7,
     0xD9, 0x84, 0xD8, 0xA8, 0xD8, 0xAD, 0xD8, 0xAB, 0x20, 0xD8, 0xB9, 0xD9, 0x86, 0x3A, 0x20]"

definition title_all :: string where
  "title_all = utf8 [0xD8, 0xAC, 0xD9, 0x85, 0xD9, 0x8A, 0xD8, 0xB9, 0x20, 0xD8, 0xA7, 0xD9, 0x84, 0xD9, 0x85,
     0xD9, 0x86, 0xD8, 0xAA, 0xD8, 0xAC, 0xD8, 0xA7, 0xD8, 0xAA]"

definition getPageTitle :: "app_state \<Rightarrow> string" where
  "getPageTitle st =
     (if searchQuery st \<noteq> [] then title_search_prefix @ [dquote] @ searchQuery st @ [dquote]
      else if truthy_str (currentCategory st) then the (currentCategory st)
      else title_all)"

definition empty_search_prefix :: string where
  "empty_search_prefix = utf8 [0xD9, 0x84, 0xD9, 0x85, 0x20, 0xD9, 0x8A, 0xD8, 0xAA, 0xD9, 0x85, 0x20, 0xD8, 0xA7,
     0xD9, 0x84, 0xD8, 0xB9, 0xD8, 0xAB, 0xD9, 0x88, 0xD8, 0xB1, 0x20, 0xD8, 0xB9, 0xD9, 0x84, 0xD9, 0x89, 0x20,
     0xD9, 0x86, 0xD8, 0xAA, 0xD8, 0xA7, 0xD8, 0xA6, 0xD8, 0xAC, 0x20, 0xD9, 0x84, 0xD9, 0x84, 0xD8, 0xA8, 0xD8,
     0xAD, 0xD8, 0xAB, 0x20]"

definition empty_category_prefix :: string where
  "empty_category_prefix = utf8 [0xD9, 0x84, 0xD8, 0xA7, 0x20, 0xD8, 0xAA, 0xD9, 0x88, 0xD8, 0xAC, 0xD8, 0xAF,
     0x20, 0xD9, 0x85, 0xD9, 0x86, 0xD8, 0xAA, 0xD8, 0xAC, 0xD8, 0xA7, 0xD8, 0xAA, 0x20, 0xD9, 0x81, 0xD9, 0x8A,
     0x20, 0xD9, 0x82, 0xD8, 0xB3, 0xD9, 0x85, 0x20]"

definition empty_all :: string where
  "empty_all = utf8 [0xD9, 0x84, 0xD8, 0xA7, 0x20, 0xD8, 0xAA, 0xD9, 0x88, 0xD8, 0xAC, 0xD8, 0xAF, 0x20, 0xD9,
     0x85, 0xD9, 0x86, 0xD8, 0xAA, 0xD8, 0xAC, 0xD8, 0xA7, 0xD8, 0xAA, 0x20, 0xD8, 0xAD, 0xD8, 0xA7, 0xD9, 0x84,
     0xD9, 0x8A, 0xD8, 0xA7, 0xD9, 0x8B]"

definition home_emptyMessage :: "app_state \<Rightarrow> string" where
  "home_emptyMessage st =
     (if searchQuery st \<noteq> [] then empty_search_prefix @ [dquote] @ searchQuery st @ [dquote]
      else if truthy_str (currentCategory st) then empty_category_prefix @ the (currentCategory st)
      else empty_all)"

text \<open>The banner, the category cards, the slider and the info section render only
  when no category and no search is active.\<close>

definition home_landing :: "app_state \<Rightarrow> bool" where
  "home_landing st \<longleftrightarrow> \<not> truthy_str (currentCategory st) \<and> searchQuery st = []"

text \<open>\<open>allProducts\<close>, the list HomePage hands to \<open>useProductFilter\<close>: the
  context's filtered list when a category or a search is active, else all products
  (the expression \<open>productsAfterFilter\<close> repeats).\<close>

definition home_allProducts :: "(string \<Rightarrow> string \<Rightarrow> int) \<Rightarrow> app_state \<Rightarrow> product list" where
  "home_allProducts collate st =
     (if truthy_str (currentCategory st) \<or> searchQuery st \<noteq> []
      then fst (getFilteredProducts collate (products st) (currentCategory st) (searchQuery st) (filters st) (sortBy st))
      else products st)"

text \<open>FilterSort renders when a category or a search is active or
  \<open>useProductFilter(allProducts).totalResults > 0\<close>; the hook starts with its
  initial filters and the sort \<open>name\<close>, with its own collation \<open>hcollate\<close>.\<close>

definition home_filter_panel :: "(string \<Rightarrow> string \<Rightarrow> int) \<Rightarrow> (string \<Rightarrow> string \<Rightarrow> int) \<Rightarrow> app_state \<Rightarrow> bool" where
  "home_filter_panel collate hcollate st \<longleftrightarrow>
     \<not> home_landing st
     \<or> 0 < length (filteredAndSortedProducts hcollate hook_init_filters ''name'' (home_allProducts collate st))"

text \<open>HomePage's grid: \<open>productsToShow\<close>, the title and the empty message.\<close>

definition home_grid :: "(string \<Rightarrow> string \<Rightarrow> int) \<Rightarrow> app_state \<Rightarrow> grid_view" where
  "home_grid collate st =
     productGrid_view (productsToShow collate st) (loading st) (getPageTitle st) (home_emptyMessage st)
       (grid_after_reset (productsToShow collate st))"

text \<open>HomePage's Pagination: rendered when the page shows products; it renders
  nothing for fewer than two pages. It shows the current page, the page count
  and the inline page strip.\<close>

definition home_pager :: "(string \<Rightarrow> string \<Rightarrow> int) \<Rightarrow> app_state \<Rightarrow> (int \<times> int \<times> page_item list) option" where
  "home_pager collate st =
     (if home_pagination_shown collate st
      then Some (currentPage st, home_totalPages collate st, home_page_range (currentPage st) (home_totalPages collate st))
      else None)"

datatype home_view =
    HomeError string
  | HomeMain "((string \<times> icon) list \<times> slider_view) option" bool grid_view "(int \<times> int \<times> page_item list) option"

text \<open>The whole page: the error screen (with its retry button) when the context
  holds an error message; otherwise the landing sections (the category cards with
  their icons and the slider, here after its effect), FilterSort, the grid and the
  pager.\<close>

definition home_view :: "(string \<Rightarrow> string \<Rightarrow> int) \<Rightarrow> (string \<Rightarrow> string \<Rightarrow> int) \<Rightarrow> product list \<Rightarrow> app_state \<Rightarrow> home_view" where
  "home_view collate hcollate fs st =
     (if truthy_str (app_error st) then HomeError (the (app_error st))
      else HomeMain
        (if home_landing st then Some (map (\<lambda>c. (c, category_icon c)) (categories st), slider_view st (slider_effect st fs))
         else None)
        (home_filter_panel collate hcollate st)
        (home_grid collate st)
        (home_pager collate st))"

text \<open>HomePage's mount effect, \<open>useEffect(() => ..., [])\<close>: it reads the state of
  the page's first render and calls \<open>refreshData()\<close> when that state is not
  loading, holds no product and no error.\<close>

definition home_mount_effect :: "app_state \<Rightarrow> bool" where
  "home_mount_effect st \<longleftrightarrow> \<not> loading st \<and> products st = [] \<and> \<not> truthy_str (app_error st)"

fun is_error_view :: "home_view \<Rightarrow> bool" where
  "is_error_view (HomeError _) = True"
| "is_error_view (HomeMain _ _ _ _) = False"

section \<open>CartPage\<close>

text \<open>The context's getters \<open>getCartItemsCount()\<close> and \<open>getCartTotal()\<close> ask the
  cart service, so they read the service's cart, not \<open>state.cart\<close>.\<close>

definition ctx_getCartItemsCount :: "world \<Rightarrow> int" where
  "ctx_getCartItemsCount w = getCartItemsCount (w_cart w)"

definition ctx_getCartTotal :: "world \<Rightarrow> int" where
  "ctx_getCartTotal w = getCartTotal (w_cart w)"

text \<open>One line of the cart list: the link id, the name, \<open>formatPrice(item.price)\<close>,
  the quantity and \<open>formatPrice(item.price * item.quantity)\<close>.\<close>

definition cart_line_view :: "(int \<Rightarrow> string) \<Rightarrow> cart_item \<Rightarrow> product_id \<times> string \<times> string \<times> int \<times> string" where
  "cart_line_view fmt i = (item_id i, item_name i, fmt (item_price i), quantity i, fmt (item_price i * quantity i))"

datatype cart_view =
    CartEmptyView
  | CartListView int "(product_id \<times> string \<times> string \<times> int \<times> string) list" int string

text \<open>CartPage: the empty screen when \<open>cart.length === 0\<close>; otherwise the count in
  the heading, the lines of \<open>state.cart\<close>, and the summary with the count and the
  formatted total.\<close>

definition cart_page_view :: "(int \<Rightarrow> string) \<Rightarrow> app_state \<Rightarrow> world \<Rightarrow> cart_view" where
  "cart_page_view fmt st w =
     (if app_cart st = [] then CartEmptyView
      else CartListView (ctx_getCartItemsCount w) (map (cart_line_view fmt) (app_cart st))
             (ctx_getCartItemsCount w) (fmt (ctx_getCartTotal w)))"

text \<open>CartPage's links and buttons: the empty screen's "browse products" link,
  and beside the list the checkout button (\<open>handleCheckout\<close>) and the "continue
  shopping" link. A click gives the URL \<open>window.open\<close> opens and the path the
  browser goes to; a button the page does not render does nothing.\<close>

datatype cart_button = BrowseProducts | CheckoutButton | ContinueShopping

definition cart_page_click :: "(int \<Rightarrow> string) \<Rightarrow> app_state \<Rightarrow> world \<Rightarrow> cart_button \<Rightarrow> string option \<times> string option" where
  "cart_page_click fmt st w b =
     (if app_cart st = []
      then (case b of BrowseProducts \<Rightarrow> (None, Some ''/'') | _ \<Rightarrow> (None, None))
      else (case b of
              CheckoutButton \<Rightarrow> (cart_handleCheckout fmt st w, None)
            | ContinueShopping \<Rightarrow> (None, Some ''/'')
            | BrowseProducts \<Rightarrow> (None, None)))"

section \<open>Header\<close>

text \<open>What Header shows: the cart badge, \<open>getCartItemsCount()\<close> of the cart
  service when positive; the search box; whether the menu sheet is open; and the
  menu's category links with their icons, between the fixed home and contact
  links.\<close>

datatype header_view = HeaderView "int option" string bool "(string \<times> icon) list"

definition header_view :: "app_state \<Rightarrow> world \<Rightarrow> header_ui \<Rightarrow> header_view" where
  "header_view st w u =
     HeaderView (if 0 < ctx_getCartItemsCount w then Some (ctx_getCartItemsCount w) else None)
       (h_searchInput (h_local u)) (sheet_open u) (map (\<lambda>c. (c, category_icon c)) (categories st))"

section \<open>ProductDetail\<close>

definition stock_pieces :: string where
  "stock_pieces = utf8 [0x20, 0xD9, 0x82, 0xD8, 0xB7, 0xD8, 0xB9, 0xD8, 0xA9]"

definition stock_out :: string where
  "stock_out = utf8 [0xD9, 0x86, 0xD9, 0x81, 0xD8, 0xAF, 0x20, 0xD8, 0xA7, 0xD9, 0x84, 0xD9, 0x85, 0xD8, 0xAE,
     0xD8, 0xB2, 0xD9, 0x88, 0xD9, 0x86]"

text \<open>The product page: the loading skeleton, the not-found screen, or the product
  with \<open>formatPrice(product.price)\<close>, the featured and "limited quantity" badges,
  the stock label, and, for a product in stock, the quantity controls (the quantity,
  whether \<open>-\<close> and \<open>+\<close> are disabled, and the add button's
  \<open>formatPrice(product.price * quantity)\<close>); for \<open>stock === 0\<close> the
  out-of-stock notice.\<close>

datatype detail_view =
    DetailLoading
  | DetailNotFound
  | DetailShown product string bool bool string "(int \<times> bool \<times> bool \<times> string) option" bool

definition detail_page_view :: "(int \<Rightarrow> string) \<Rightarrow> app_state \<Rightarrow> string \<Rightarrow> detail \<Rightarrow> detail_view" where
  "detail_page_view fmt st sid d =
     (if loading st then DetailLoading
      else case ctx_getProductById st sid of
        None \<Rightarrow> DetailNotFound
      | Some p \<Rightarrow>
          DetailShown p (fmt (price p)) (featured p) (stock p \<le> 5 \<and> 0 < stock p)
            (if 0 < stock p then int_to_dec (stock p) @ stock_pieces else stock_out)
            (if 0 < stock p
             then Some (d_quantity d, d_quantity d \<le> 1, stock p \<le> d_quantity d, fmt (price p * d_quantity d))
             else None)
            (stock p = 0))"

text \<open>The image: the product's \<open>image_url\<close>, or the placeholder once the image
  failed to load (\<open>imageError\<close>).\<close>

definition detail_placeholder :: string where
  "detail_placeholder = ''https://via.placeholder.com/600x600?text='' @ utf8 [0xD8, 0xB5, 0xD9, 0x88, 0xD8, 0xB1, 0xD8, 0xA9] @ ''+'' @ utf8 [0xD8, 0xBA, 0xD9, 0x8A, 0xD8, 0xB1] @ ''+'' @ utf8 [0xD9, 0x85, 0xD8, 0xAA, 0xD9, 0x88, 0xD9, 0x81, 0xD8, 0xB1, 0xD8, 0xA9]"

definition detail_image_src :: "detail \<Rightarrow> product \<Rightarrow> string" where
  "detail_image_src d p = (if d_imageError d then detail_placeholder else image_url p)"

text \<open>The breadcrumb's two links, \<open>/\<close> and \<open>/?category=${product.category}\<close>,
  and the not-found screen's button \<open>navigate('/')\<close>.\<close>

definition detail_breadcrumb :: "product \<Rightarrow> string list" where
  "detail_breadcrumb p = [''/'', ''/?category='' @ category p]"

definition detail_notFound_back :: string where
  "detail_notFound_back = ''/''"

section \<open>ProductCard\<close>

text \<open>A product card: the whole card is a link to \<open>/product/<id>\<close>; it shows the
  featured badge, the out-of-stock badge for \<open>stock === 0\<close>, the name, category,
  description and stock, the "limited quantity" badge, \<open>formatPrice(price)\<close>, and
  the add buttons only for \<open>stock > 0\<close>.\<close>

definition product_path :: "product_id \<Rightarrow> string" where
  "product_path k = ''/product/'' @ int_to_dec k"

datatype card_view = CardView string bool bool string string string int bool string bool

definition productCard_view :: "(int \<Rightarrow> string) \<Rightarrow> product \<Rightarrow> card_view" where
  "productCard_view fmt p =
     CardView (product_path (pid p)) (featured p) (stock p = 0) (pname p) (category p) (description p)
       (stock p) (stock p \<le> 5 \<and> 0 < stock p) (fmt (price p)) (0 < stock p)"

text \<open>The card's image: \<open>product.image_url\<close>, until its \<open>onError\<close>
  (\<open>handleImageError\<close>) writes the placeholder into the image element's \<open>src\<close>.\<close>

definition card_placeholder :: string where
  "card_placeholder = ''https://via.placeholder.com/300x300?text='' @ utf8 [0xD8, 0xB5, 0xD9, 0x88, 0xD8, 0xB1, 0xD8, 0xA9] @ ''+'' @ utf8 [0xD8, 0xBA, 0xD9, 0x8A, 0xD8, 0xB1] @ ''+'' @ utf8 [0xD9, 0x85, 0xD8, 0xAA, 0xD9, 0x88, 0xD9, 0x81, 0xD8, 0xB1, 0xD8, 0xA9]"

definition card_image_src :: "bool \<Rightarrow> product \<Rightarrow> string" where
  "card_image_src failed p = (if failed then card_placeholder else image_url p)"

text \<open>A click on the card: on an add button (rendered only in stock) the handler
  calls \<open>preventDefault()\<close> and \<open>stopPropagation()\<close>, so it adds one unit and does
  not follow the link; anywhere else the link navigates.\<close>

definition card_click :: "product \<Rightarrow> bool \<Rightarrow> action list \<times> string option" where
  "card_click p on_add =
     (if on_add \<and> 0 < stock p then (card_handleAddToCart p, None) else ([], Some (product_path (pid p))))"

section \<open>FilterSort\<close>

definition toggle_hide :: string where
  "toggle_hide = utf8 [0xD8, 0xA5, 0xD8, 0xAE, 0xD9, 0x81, 0xD8, 0xA7, 0xD8, 0xA1]"

definition toggle_show :: string where
  "toggle_show = utf8 [0xD8, 0xA5, 0xD8, 0xB8, 0xD9, 0x87, 0xD8, 0xA7, 0xD8, 0xB1]"

definition SORT_OPTIONS :: "string list" where
  "SORT_OPTIONS = [''name'', ''name-desc'', ''price-asc'', ''price-desc'', ''newest'', ''popular'']"

text \<open>The panel as rendered: whether the options are open on small screens and the
  toggle's word, the category options (\<open>""\<close> for all, then the categories), the
  values of the four filter inputs, the maximum price's placeholder
  \<open>priceRange?.max || "1000000"\<close>, and the sort options with the selected one.\<close>

datatype panel_view = PanelView bool string "string list" string string string string bool "string list" string

definition filterSort_view :: "string list \<Rightarrow> int \<times> int \<Rightarrow> filter_panel \<Rightarrow> panel_view" where
  "filterSort_view cats pr fp =
     PanelView (fp_isOpen fp) (if fp_isOpen fp then toggle_hide else toggle_show) ([] # cats)
       (cf_category (fp_filters fp)) (cf_minPrice (fp_filters fp)) (cf_maxPrice (fp_filters fp))
       (if snd pr = 0 then ''1000000'' else int_to_dec (snd pr))
       (cf_inStock (fp_filters fp)) SORT_OPTIONS (fp_sortBy fp)"

text \<open>The FilterSort HomePage renders: the context's categories and the hook's
  price range over \<open>allProducts\<close>, with the panel's own state.\<close>

definition home_filterSort_view :: "(string \<Rightarrow> string \<Rightarrow> int) \<Rightarrow> app_state \<Rightarrow> filter_panel \<Rightarrow> panel_view" where
  "home_filterSort_view collate st fp =
     filterSort_view (categories st) (hook_priceRange (home_allProducts collate st)) fp"

section \<open>Lemmas\<close>

lemma home_allProducts_eq: "home_allProducts collate st = productsAfterFilter collate st"
  by (simp add: home_allProducts_def productsAfterFilter_def)

lemma clearCache_readable:
  "readable s \<Longrightarrow> \<exists>sh' s'. clearCache sh s = (Inr (), sh', s') \<and> readable s' \<and> cache_slot_ok s'"
  by (simp add: clearCache_def remove_item_def cache_slot_ok_def Let_def)

lemma clearCache_unreadable:
  "\<not> readable s \<Longrightarrow> \<exists>e sh'. clearCache sh s = (Inl e, sh', s)"
  by (simp add: clearCache_def remove_item_def Let_def)

lemma load_readable_actions:
  assumes "readable (w_store w)" and "cache_slot_ok (w_store w)"
  shows "\<exists>ps cs w'. loadInitialData t0 t1 t2 t3 net r1 r2 w = ([SET_LOADING True, SET_PRODUCTS ps, SET_CATEGORIES cs], w')"
proof -
  obtain r sh1 s1 where f1: "fetchProducts t0 t1 net r1 (w_sheets w) (w_store w) = (r, sh1, s1)"
    by (metis prod_cases3)
  obtain ps where r: "r = Inr ps" using fetch_resolves_result [OF assms f1] by blast
  have s1: "cache_slot_ok s1 \<and> readable s1" using fetch_keeps_slot [OF assms(2) f1] assms(1) by simp
  obtain r' sh2 s2 where f2: "fetchProducts t2 t3 net r2 sh1 s1 = (r', sh2, s2)"
    by (metis prod_cases3)
  obtain ps' where "r' = Inr ps'" using fetch_resolves_result [of s1, OF _ _ f2] s1 by blast
  then show ?thesis using f1 f2 r
    by (simp add: loadInitialData_def getCategories_def fetch_view_def)
qed

lemma refresh_readable_actions:
  "readable (w_store w) \<Longrightarrow>
   \<exists>ps cs w'. refreshData t0 t1 t2 t3 net r1 r2 w = ([SET_LOADING True, SET_PRODUCTS ps, SET_CATEGORIES cs], w')"
  using clearCache_readable [of "w_store w" "w_sheets w"] load_readable_actions
  by (fastforce simp: refreshData_def)

lemma refresh_unreadable:
  "\<not> readable (w_store w) \<Longrightarrow> fst (refreshData t0 t1 t2 t3 net r1 r2 w) = []"
  using clearCache_unreadable [of "w_store w" "w_sheets w"] by (auto simp: refreshData_def)

lemma reducer_per_page: "productsPerPage (fst (appReducer a st w)) = productsPerPage st"
  by (cases a) (auto simp: cart_action_def split: prod.splits)

lemma dispatch_per_page: "productsPerPage (fst (dispatch_all as st w)) = productsPerPage st"
proof (induction as arbitrary: st w)
  case Nil
  then show ?case by simp
next
  case (Cons a as)
  obtain st1 w1 where r: "appReducer a st w = (st1, w1)" by fastforce
  then show ?case using Cons reducer_per_page [of a st w] by simp
qed

lemma app_reach_per_page: "app_reach st w \<Longrightarrow> productsPerPage st = 60"
proof (induction rule: app_reach.induct)
  case (init s c st w)
  then show ?case using dispatch_per_page [of "provider_loadCart \<lparr>w_cart = c, w_sheets = init_sheets, w_store = s\<rparr>"]
    by (metis fst_conv mounted_def initialState_def app_state.select_convs(10))
next
  case (step st w ev st' w')
  then show ?case using dispatch_per_page by (metis app_step_def fst_conv split_beta)
qed

lemma js_slice_length: "a \<le> b \<Longrightarrow> length (js_slice xs a b) \<le> nat (b - a)"
  by (auto simp: js_slice_def js_index_def Let_def)

lemma page_window_length: "0 \<le> per \<Longrightarrow> length (getProductsForCurrentPage cur per xs) \<le> nat per"
  using js_slice_length [of "cur * per - per" "cur * per" xs] by (simp add: getProductsForCurrentPage_def)

lemma getPageTitle_ne: "getPageTitle st \<noteq> []"
  by (auto simp: getPageTitle_def truthy_str_def title_all_def utf8_def split: option.splits)

lemma one_grid_page:
  assumes "ps \<noteq> []" and "length ps \<le> 100"
  shows "totalPages (length ps) GRID_PER_PAGE = 1 \<and> currentData ps (pg_page (grid_after_reset ps)) GRID_PER_PAGE = ps"
proof -
  have pos: "Suc 0 \<le> length ps" using assms(1) by (simp add: Suc_le_eq)
  then have "(length ps + 99) div 100 = 1" using assms(2) by (intro div_nat_eqI) simp_all
  then show ?thesis using assms pos
    by (simp add: totalPages_def GRID_PER_PAGE_def grid_after_reset_def resetPage_def pager_init_def
        currentData_def js_slice_def js_index_def)
qed

lemma one_row_feed:
  "csvToJson (''id,name'' @ [CHR 0x0A] @ ''1,a'')
   = [\<lparr>pid = 1, pname = ''a'', category = [], price = 0, description = [], image_url = [], stock = 0, featured = False\<rparr>]"
  by (simp add: csv_simps js_simps)

lemma sum_quantity_pos:
  assumes "\<forall>i\<in>set xs. 0 < quantity i" and "xs \<noteq> []"
  shows "0 < sum_list (map quantity xs)"
proof (cases xs)
  case (Cons a ys)
  have "0 \<le> sum_list (map quantity ys)"
    using assms(1) Cons by (intro sum_list_nonneg) auto
  then show ?thesis using assms(1) Cons by simp
qed (use assms in simp)

text \<open>The icon table misses the sample data's screen-protector category: its card
  and menu link get the default icon, the four others their own.\<close>

theorem protectors_default_icon:
  "categoryIcons cat_protectors = None \<and> category_icon cat_protectors = Smartphone
   \<and> map category_icon [cat_headphones, cat_chargers, cat_cables, cat_accessories] = [Headphones, Zap, Cable, Smartphone]"
  by (simp add: category_icon_def categoryIcons_def cat_protectors_def cat_headphones_def cat_chargers_def
      cat_cables_def cat_accessories_def icon_key_protectors_def utf8_def)

section \<open>Properties\<close>

text \<open>In every state of the running application, when HomePage's grid has
  products and nothing is loading, ProductGrid lists exactly HomePage's window of
  \<open>productsToShow\<close> (at most 60 products) under the page title, on a single page:
  its own "from - to" label and its own Pagination never render, so the only pager
  on HomePage is HomePage's.\<close>

theorem home_grid_single_page:
  assumes "app_reach st w" and "\<not> loading st" and "productsToShow collate st \<noteq> []"
  shows "home_grid collate st
         = GridList (Some (getPageTitle st)) (int (length (productsToShow collate st))) None
             (productsToShow collate st) False"
proof -
  have "length (productsToShow collate st) \<le> 60"
    using page_window_length [of 60 "currentPage st" "productsAfterFilter collate st"]
      app_reach_per_page [OF assms(1)] by (simp add: productsToShow_def)
  then have "length (productsToShow collate st) \<le> 100" by simp
  then show ?thesis
    using one_grid_page [OF assms(3)] assms(2,3) getPageTitle_ne [of st]
    by (simp add: home_grid_def productGrid_view_def pagination_visible_def)
qed

theorem home_grid_single_page_witness:
  "home_grid (\<lambda>x y. 0) (fst (app_step (LoadData 0 1 2 3 (\<lambda>u. Reply (''id,name'' @ [CHR 0x0A] @ ''1,a'')) (\<lambda>k. 0) (\<lambda>k. 0))
      (fst (mounted [] empty_storage)) (snd (mounted [] empty_storage))))
   = GridList (Some title_all) 1 None
       [\<lparr>pid = 1, pname = ''a'', category = [], price = 0, description = [], image_url = [], stock = 0, featured = False\<rparr>]
       False"
proof -
  let ?ev = "LoadData 0 1 2 3 (\<lambda>u. Reply (''id,name'' @ [CHR 0x0A] @ ''1,a'')) (\<lambda>k. 0) (\<lambda>k. 0)"
  let ?st = "fst (app_step ?ev (fst (mounted [] empty_storage)) (snd (mounted [] empty_storage)))"
  let ?p = "\<lparr>pid = 1, pname = ''a'', category = [], price = 0, description = [], image_url = [], stock = 0, featured = False\<rparr>"
  have r: "app_reach ?st (snd (app_step ?ev (fst (mounted [] empty_storage)) (snd (mounted [] empty_storage))))"
    by (rule app_reach.step [OF mounted_empty_reach]) simp_all
  have st: "\<not> loading ?st \<and> products ?st = [?p] \<and> currentCategory ?st = None \<and> searchQuery ?st = []
      \<and> currentPage ?st = 1 \<and> productsPerPage ?st = 60"
    by (simp add: app_step_def mounted_def provider_loadCart_def getCart_def loadInitialData_def fetchProducts_def fetch_resume_def
        fresh_products_def init_sheets_def getCategories_def fetch_view_def Let_def set_item_def
        empty_storage_def one_row_feed [simplified] CACHE_TIMEOUT_def initialState_def split: prod.splits)
  then have pts: "productsToShow (\<lambda>x y. 0) ?st = [?p]"
    by (simp add: productsToShow_def productsAfterFilter_def truthy_str_def getProductsForCurrentPage_def
        js_slice_def js_index_def)
  have "getPageTitle ?st = title_all" using st by (simp add: getPageTitle_def truthy_str_def)
  then show ?thesis
    using home_grid_single_page [OF r, of "\<lambda>x y. 0"] st pts by simp
qed

text \<open>C33: HomePage's error screen can always be left with its retry button while
  the storage can be read: \<open>refreshData\<close> then always ends with products loaded
  (downloaded, stored or sample data), no error and nothing loading, so HomePage
  renders its main view. When the storage cannot be read, \<open>clearCache\<close> throws
  before anything is loaded and the button leaves the state unchanged.\<close>

theorem retry_recovers:
  assumes "app_step (RefreshData t0 t1 t2 t3 net r1 r2) st w = (st', w')"
  shows "(readable (w_store w) \<longrightarrow> \<not> is_error_view (home_view collate hcollate fs st') \<and> \<not> loading st')
         \<and> (\<not> readable (w_store w) \<longrightarrow> st' = st)"
proof (cases "readable (w_store w)")
  case True
  then obtain ps cs w1 where
    "refreshData t0 t1 t2 t3 net r1 r2 w = ([SET_LOADING True, SET_PRODUCTS ps, SET_CATEGORIES cs], w1)"
    using refresh_readable_actions by blast
  then have "app_error st' = None \<and> \<not> loading st'" using assms by (auto simp: app_step_def)
  then show ?thesis using True by (simp add: home_view_def truthy_str_def)
next
  case False
  then show ?thesis using assms refresh_unreadable [OF False, of t0 t1 t2 t3 net r1 r2]
    by (auto simp: app_step_def split: prod.splits)
qed

theorem retry_recovers_witness:
  "\<not> is_error_view (home_view (\<lambda>x y. 0) (\<lambda>x y. 0) []
       (fst (app_step (RefreshData 0 1 2 3 (\<lambda>u. NetFailure) (\<lambda>k. 0) (\<lambda>k. 0))
          (fst (mounted [] empty_storage)) (snd (mounted [] empty_storage)))))
   \<and> \<not> loading (fst (app_step (RefreshData 0 1 2 3 (\<lambda>u. NetFailure) (\<lambda>k. 0) (\<lambda>k. 0))
          (fst (mounted [] empty_storage)) (snd (mounted [] empty_storage))))
   \<and> fst (app_step (RefreshData 0 1 2 3 (\<lambda>u. NetFailure) (\<lambda>k. 0) (\<lambda>k. 0))
          (fst (mounted [] \<lparr>slots = Map.empty, readable = False, writable = False\<rparr>))
          (snd (mounted [] \<lparr>slots = Map.empty, readable = False, writable = False\<rparr>)))
     = fst (mounted [] \<lparr>slots = Map.empty, readable = False, writable = False\<rparr>)"
proof -
  have "readable (w_store (snd (mounted [] empty_storage)))"
    by (simp add: mounted_def provider_loadCart_def getCart_def empty_storage_def)
  moreover have "\<not> readable (w_store (snd (mounted [] \<lparr>slots = Map.empty, readable = False, writable = False\<rparr>)))"
    by (simp add: mounted_def provider_loadCart_def getCart_def)
  ultimately show ?thesis
    using retry_recovers [OF prod.collapse [symmetric], where collate = "\<lambda>x y. 0" and hcollate = "\<lambda>x y. 0" and fs = "[]"]
    by blast
qed

text \<open>C10: in every state of the running application, CartPage lists each product
  of the context's cart once, with a positive quantity, and its heading and summary
  show exactly the sum of the listed quantities and the sum of the listed subtotals,
  although they are read from the cart service and the list from the context.\<close>

theorem cart_page_consistent:
  assumes "app_reach st w" and "app_cart st \<noteq> []"
  shows "cart_page_view fmt st w
         = CartListView (sum_list (map quantity (app_cart st))) (map (cart_line_view fmt) (app_cart st))
             (sum_list (map quantity (app_cart st)))
             (fmt (sum_list (map (\<lambda>i. item_price i * quantity i) (app_cart st))))
         \<and> distinct (map item_id (app_cart st)) \<and> (\<forall>i\<in>set (app_cart st). 0 < quantity i)
         \<and> header_view st w u = HeaderView (Some (sum_list (map quantity (app_cart st))))
             (h_searchInput (h_local u)) (sheet_open u) (map (\<lambda>c. (c, category_icon c)) (categories st))"
proof -
  have i: "app_cart st = w_cart w \<and> cart_wf (w_cart w)"
    using app_reach_inv [OF assms(1)] by (simp add: app_inv_def)
  then have "0 < sum_list (map quantity (app_cart st))"
    using i assms(2) sum_quantity_pos [of "app_cart st"] by (simp add: cart_wf_def)
  then show ?thesis using i assms(2)
    by (simp add: cart_page_view_def header_view_def ctx_getCartItemsCount_def ctx_getCartTotal_def
        Cart.count_sum Cart.total_sum cart_wf_def)
qed

theorem cart_page_consistent_witness:
  "cart_page_view int_to_dec (fst (dispatch_all [ADD_TO_CART demo_product 2] (fst (mounted [] empty_storage)) (snd (mounted [] empty_storage))))
      (snd (dispatch_all [ADD_TO_CART demo_product 2] (fst (mounted [] empty_storage)) (snd (mounted [] empty_storage))))
   = CartListView 2 [cart_line_view int_to_dec (new_item demo_product 2)] 2 (int_to_dec (price demo_product * 2))
   \<and> header_view (fst (dispatch_all [ADD_TO_CART demo_product 2] (fst (mounted [] empty_storage)) (snd (mounted [] empty_storage))))
      (snd (dispatch_all [ADD_TO_CART demo_product 2] (fst (mounted [] empty_storage)) (snd (mounted [] empty_storage))))
      \<lparr>h_local = header_init, sheet_open = False\<rparr>
   = HeaderView (Some 2) [] False []"
proof -
  let ?d = "dispatch_all [ADD_TO_CART demo_product 2] (fst (mounted [] empty_storage)) (snd (mounted [] empty_storage))"
  have r: "app_reach (fst ?d) (snd ?d)"
    by (rule dispatch_ui_reach [OF _ mounted_empty_reach, of "[ADD_TO_CART demo_product 2]"])
      (simp_all add: ui_action_def)
  have c: "app_cart (fst ?d) = [new_item demo_product 2]" "categories (fst ?d) = []"
    by (simp_all add: mounted_def provider_loadCart_def getCart_def cart_action_def addToCart_def add_line_def initialState_def
        split: option.splits)
  show ?thesis
    using cart_page_consistent [OF r, of int_to_dec "\<lparr>h_local = header_init, sheet_open = False\<rparr>"] c
    by (simp add: new_item_def header_init_def)
qed

end
