(* ===== verification/Shell.thy ===== *)
theory Shell
  imports Views PWA
begin

text \<open>
  The application shell, src/src/App.jsx: the route table that picks the page for
  the browser's path (React Router's \<open>Routes\<close>), with Header, InstallPrompt and
  the floating WhatsAppButton (src/src/components/WhatsAppButton.jsx) around it.
  Routes are matched as React Router matches them: on the path without its query
  string or fragment, segment by segment, with empty segments (a trailing slash)
  ignored and static segments compared without case. The \<open>:id\<close> parameter is
  the segment as written. \<open>app_screen\<close> composes the views of Views.thy into what
  the browser shows for a path, and \<open>app_start\<close> is the first commit of App:
  the effects of the page the path shows, then the provider's, then the loads.
\<close>

section \<open>Routes\<close>

datatype route = RHome | RProduct string | RCart | RContact | RNoMatch

definition path_segments :: "string \<Rightarrow> string list" where
  "path_segments path =
     filter (\<lambda>s. s \<noteq> []) (split_on (CHR ''/'') (takeWhile (\<lambda>c. c \<noteq> CHR ''?'' \<and> c \<noteq> CHR ''#'') path))"

definition match_route :: "string \<Rightarrow> route" where
  "match_route path =
     (case path_segments path of
        [] \<Rightarrow> RHome
      | [a] \<Rightarrow> (if to_lower a = ''cart'' then RCart else if to_lower a = ''contact'' then RContact else RNoMatch)
      | [a, b] \<Rightarrow> (if to_lower a = ''product'' then RProduct b else RNoMatch)
      | _ \<Rightarrow> RNoMatch)"

section \<open>WhatsAppButton\<close>

definition WA_GREETING :: string where
  "WA_GREETING = utf8 [0xD9, 0x85, 0xD8, 0xB1, 0xD8, 0xAD, 0xD8, 0xA8, 0xD8, 0xA7, 0xD9, 0x8B, 0xD8, 0x8C, 0x20,
     0xD8, 0xA3, 0xD9, 0x88, 0xD8, 0xAF, 0x20, 0xD8, 0xA7, 0xD9, 0x84, 0xD8, 0xA7, 0xD8, 0xB3, 0xD8, 0xAA, 0xD9,
     0x81, 0xD8, 0xB3, 0xD8, 0xA7, 0xD8, 0xB1, 0x20, 0xD8, 0xB9, 0xD9, 0x86, 0x20, 0xD9, 0x85, 0xD9, 0x86, 0xD8,
     0xAA, 0xD8, 0xAC, 0xD8, 0xA7, 0xD8, 0xAA, 0xD9, 0x83, 0xD9, 0x85, 0x2E]"

text \<open>\<open>handleClick\<close>: the URL \<open>window.open\<close> opens.\<close>

definition whatsappButton_click :: "string \<Rightarrow> string" where
  "whatsappButton_click phoneNumber =
     ''https://wa.me/'' @ replace_first (CHR ''+'') phoneNumber @ ''?text='' @ encodeURIComponent WA_GREETING"

text \<open>App renders \<open><WhatsAppButton phoneNumber="+9647707409507" />\<close>.\<close>

definition APP_PHONE :: string where
  "APP_PHONE = ''+9647707409507''"

section \<open>The screen\<close>

datatype screen = HomeScreen home_view | DetailScreen detail_view | CartScreen cart_view | ContactScreen | NoScreen

text \<open>The page App renders inside \<open><main>\<close> for a path; the product page's and
  the slider's local state are arguments.\<close>

definition app_screen :: "(string \<Rightarrow> string \<Rightarrow> int) \<Rightarrow> (string \<Rightarrow> string \<Rightarrow> int) \<Rightarrow> (int \<Rightarrow> string)
    \<Rightarrow> product list \<Rightarrow> detail \<Rightarrow> app_state \<Rightarrow> world \<Rightarrow> string \<Rightarrow> screen" where
  "app_screen collate hcollate fmt fs d st w path =
     (case match_route path of
        RHome \<Rightarrow> HomeScreen (home_view collate hcollate fs st)
      | RProduct sid \<Rightarrow> DetailScreen (detail_page_view fmt st sid d)
      | RCart \<Rightarrow> CartScreen (cart_page_view fmt st w)
      | RContact \<Rightarrow> ContactScreen
      | RNoMatch \<Rightarrow> NoScreen)"

section \<open>Starting the application\<close>

text \<open>What a load of the catalogue meets: the times of its two \<open>Date.now()\<close>
  pairs, the network's reply and the random draws of the sample data (see
  \<open>loadInitialData\<close>).\<close>

record load_env =
  le_t0 :: int
  le_t1 :: int
  le_t2 :: int
  le_t3 :: int
  le_net :: "string \<Rightarrow> net_reply"
  le_rnd1 :: "nat \<Rightarrow> real"
  le_rnd2 :: "nat \<Rightarrow> real"

definition load_ev :: "load_env \<Rightarrow> ui_event" where
  "load_ev e = LoadData (le_t0 e) (le_t1 e) (le_t2 e) (le_t3 e) (le_net e) (le_rnd1 e) (le_rnd2 e)"

definition refresh_ev :: "load_env \<Rightarrow> ui_event" where
  "refresh_ev e = RefreshData (le_t0 e) (le_t1 e) (le_t2 e) (le_t3 e) (le_net e) (le_rnd1 e) (le_rnd2 e)"

fun run_events :: "ui_event list \<Rightarrow> app_state \<Rightarrow> world \<Rightarrow> app_state \<times> world" where
  "run_events [] st w = (st, w)"
| "run_events (ev # evs) st w = (case app_step ev st w of (st', w') \<Rightarrow> run_events evs st' w')"

text \<open>The first commit of App at a path. React runs the effects of children
  before those of their parents: on the path \<open>/\<close>, HomePage's mount effect runs
  first, on the initial state, and calls \<open>refreshData()\<close>, whose \<open>clearCache()\<close>
  runs at once; then the provider's effect calls \<open>loadInitialData()\<close> and
  \<open>loadCart()\<close> (\<open>mounted\<close>). An exception of \<open>clearCache()\<close> leaves the effect,
  and React unmounts the tree (there is no error boundary): the start fails with
  that error. The two loads then complete, each one event, the page's first.\<close>

definition app_start :: "string \<Rightarrow> cart \<Rightarrow> storage \<Rightarrow> load_env \<Rightarrow> load_env
    \<Rightarrow> storage_error + app_state \<times> world" where
  "app_start path c s e_home e_prov =
     (case mounted c s of (st, w) \<Rightarrow>
        if match_route path = RHome \<and> home_mount_effect initialState
        then (case clearCache (w_sheets w) (w_store w) of
                (Inl err, _, _) \<Rightarrow> Inl err
              | (Inr _, _, _) \<Rightarrow> Inr (run_events [refresh_ev e_home, load_ev e_prov] st w))
        else Inr (run_events [load_ev e_prov] st w))"

text \<open>A load with the network down, at time 0, every random draw 0.\<close>

definition offline_env :: load_env where
  "offline_env = \<lparr>le_t0 = 0, le_t1 = 0, le_t2 = 0, le_t3 = 0, le_net = \<lambda>_. NetFailure, le_rnd1 = \<lambda>_. 0, le_rnd2 = \<lambda>_. 0\<rparr>"

section \<open>Lemmas\<close>

lemma split_acc_no_delim: "\<forall>c\<in>set s. c \<noteq> d \<Longrightarrow> split_acc d cur s = [cur @ s]"
  by (induction s arbitrary: cur) auto

lemma int_to_dec_chars: "\<forall>c\<in>set (int_to_dec k). dec_digit c \<or> c = CHR ''-''"
  using nat_to_dec_digits by (auto simp: int_to_dec_def)

lemma dec_digit_not_sep: "dec_digit c \<Longrightarrow> c \<noteq> CHR ''/'' \<and> c \<noteq> CHR ''?'' \<and> c \<noteq> CHR ''#''"
  by (auto simp: dec_digit_def)

lemma product_path_segments: "path_segments (product_path k) = [''product'', int_to_dec k]"
proof -
  have h: "\<forall>c\<in>set (int_to_dec k). c \<noteq> CHR ''/'' \<and> c \<noteq> CHR ''?'' \<and> c \<noteq> CHR ''#''"
    using int_to_dec_chars [of k] dec_digit_not_sep by fastforce
  then have t: "takeWhile (\<lambda>c. c \<noteq> CHR ''?'' \<and> c \<noteq> CHR ''#'') (int_to_dec k) = int_to_dec k"
    by (simp add: takeWhile_eq_all_conv)
  have "split_acc (CHR ''/'') [] (int_to_dec k) = [int_to_dec k]"
    using h split_acc_no_delim [of "int_to_dec k" "CHR ''/''" "[]"] by simp
  then show ?thesis
    by (simp add: path_segments_def product_path_def split_on_def takeWhile_append2 t del: takeWhile_eq_all_conv)
qed


lemma mounted_world: "snd (mounted c s) = \<lparr>w_cart = c, w_sheets = init_sheets, w_store = s\<rparr>"
  by (simp add: mounted_def provider_loadCart_def getCart_def)

lemma fetch_offline:
  "cache_products sh = None \<Longrightarrow> net (csv_url sh) = NetFailure \<Longrightarrow> fetchProducts t0 t1 net rnd sh s = fetch_fallback rnd sh s"
  by (simp add: fetchProducts_def fetch_resume_def fresh_products_def)

lemma load_offline:
  assumes "cache_products (w_sheets w) = None" and "le_net e (csv_url (w_sheets w)) = NetFailure"
    and "\<And>r. fetch_fallback r (w_sheets w) (w_store w) = (Inr (f r), w_sheets w, w_store w)"
  shows "app_step (load_ev e) st w = (st\<lparr>products := f (le_rnd1 e), categories := categories_of (f (le_rnd2 e)), loading := False, app_error := None\<rparr>, w)"
  using assms by (simp add: app_step_def load_ev_def loadInitialData_def fetch_offline getCategories_def fetch_view_def)

lemma fallback_slot:
  "slots s PRODUCTS_CACHE_KEY = Some (JsonText (cache_json ps t)) \<Longrightarrow> readable s \<Longrightarrow> fetch_fallback r sh s = (Inr ps, sh, s)"
  by (simp add: fetch_fallback_def get_item_def)

lemma fallback_empty:
  "slots s PRODUCTS_CACHE_KEY = None \<Longrightarrow> readable s \<Longrightarrow> fetch_fallback r sh s = (Inr (getFallbackData r), sh, s)"
  by (simp add: fetch_fallback_def get_item_def)

lemma route_home: "match_route ''/'' = RHome"
  by (simp add: match_route_def path_segments_def split_on_def)

lemma route_cart: "match_route ''/cart'' = RCart"
  by (simp add: match_route_def path_segments_def split_on_def to_lower_def ascii_lower_def)

lemma home_effect_initial: "home_mount_effect initialState"
  by (simp add: home_mount_effect_def initialState_def truthy_str_def)

lemma run_events_reach:
  "app_reach st w \<Longrightarrow> list_all ui_ok evs \<Longrightarrow> run_events evs st w = (st', w') \<Longrightarrow> app_reach st' w'"
proof (induction evs arbitrary: st w)
  case Nil
  then show ?case by simp
next
  case (Cons ev evs)
  obtain st1 w1 where e: "app_step ev st w = (st1, w1)" by fastforce
  then have "app_reach st1 w1" using Cons.prems(1,2) app_reach.step by (metis list.pred_inject(2))
  then show ?case using Cons e by simp
qed


text \<open>ProductDetail's category link \<open>/?category=...\<close> is routed as \<open>/\<close>: the
  query string is not part of the route and no page reads it, so the link shows the
  same home screen as the first breadcrumb link, whatever the category.\<close>

theorem breadcrumb_category_shows_home:
  "match_route (detail_breadcrumb p ! 1) = RHome
   \<and> app_screen collate hcollate fmt fs d st w (detail_breadcrumb p ! 1)
       = app_screen collate hcollate fmt fs d st w (detail_breadcrumb p ! 0)"
  by (simp add: detail_breadcrumb_def app_screen_def match_route_def path_segments_def split_on_def)

section \<open>Properties\<close>

text \<open>C14: a product card of the loaded catalogue opens that product: clicking the
  card (not its add button) dispatches nothing and navigates to \<open>/product/<id>\<close>;
  App routes that path to ProductDetail with the parameter \<open>id\<close>, and once loading is
  over, ProductDetail's \<open>getProductById(id)\<close> (\<open>parseInt\<close> and \<open>find\<close>) shows that
  very product, provided ids are unique.\<close>

theorem card_link_opens_product:
  assumes "p \<in> set (products st)" and "distinct (map pid (products st))" and "\<not> loading st"
  shows "card_click p False = ([], Some (product_path (pid p)))
    \<and> match_route (product_path (pid p)) = RProduct (int_to_dec (pid p))
    \<and> app_screen collate hcollate fmt fs d st w (product_path (pid p))
        = DetailScreen (detail_page_view fmt st (int_to_dec (pid p)) d)
    \<and> (\<exists>pr fe lim sl ctl out. detail_page_view fmt st (int_to_dec (pid p)) d = DetailShown p pr fe lim sl ctl out)"
proof -
  have r: "match_route (product_path (pid p)) = RProduct (int_to_dec (pid p))"
    by (simp add: match_route_def product_path_segments to_lower_def ascii_lower_def)
  have "ctx_getProductById st (int_to_dec (pid p)) = Some p"
    using product_link_roundtrip [OF assms(1,2)] by (simp add: ctx_getProductById_def)
  then show ?thesis using r assms(3)
    by (simp add: card_click_def app_screen_def detail_page_view_def)
qed

theorem card_link_opens_product_witness:
  "card_click demo_product False = ([], Some (product_path (pid demo_product)))
   \<and> match_route (product_path (pid demo_product)) = RProduct (int_to_dec (pid demo_product))
   \<and> app_screen (\<lambda>x y. 0) (\<lambda>x y. 0) int_to_dec [] detail_init (initialState\<lparr>products := [demo_product]\<rparr>)
       (snd (mounted [] empty_storage)) (product_path (pid demo_product))
     = DetailScreen (detail_page_view int_to_dec (initialState\<lparr>products := [demo_product]\<rparr>) (int_to_dec (pid demo_product)) detail_init)
   \<and> (\<exists>pr fe lim sl ctl out. detail_page_view int_to_dec (initialState\<lparr>products := [demo_product]\<rparr>)
        (int_to_dec (pid demo_product)) detail_init = DetailShown demo_product pr fe lim sl ctl out)"
  using card_link_opens_product [of demo_product "initialState\<lparr>products := [demo_product]\<rparr>"]
  by (simp add: initialState_def)

text \<open>Opening the application at \<open>/\<close> throws away the durable copy of the
  catalogue. HomePage's mount effect sees the initial state (not loading, no
  products, no error) and calls \<open>refreshData()\<close>, whose \<open>clearCache()\<close> removes
  the stored catalogue before any load reads it; with the network down, the
  catalogue shown is random sample data. Opened at \<open>/cart\<close>, the same storage and
  network show the stored catalogue.\<close>

theorem start_home_discards_durable_copy:
  assumes "slots s PRODUCTS_CACHE_KEY = Some (JsonText (cache_json ps t))" and "readable s"
    and "le_net e1 (csv_url init_sheets) = NetFailure" and "le_net e2 (csv_url init_sheets) = NetFailure"
  shows "(\<exists>st w. app_start ''/cart'' c s e1 e2 = Inr (st, w) \<and> products st = ps)
    \<and> (\<exists>st w. app_start ''/'' c s e1 e2 = Inr (st, w) \<and> products st = getFallbackData (le_rnd1 e2)
         \<and> slots (w_store w) PRODUCTS_CACHE_KEY = None)"
proof -
  obtain st0 where m: "mounted c s = (st0, \<lparr>w_cart = c, w_sheets = init_sheets, w_store = s\<rparr>)"
    using mounted_world by (metis prod.collapse)
  let ?w = "\<lparr>w_cart = c, w_sheets = init_sheets, w_store = s\<rparr>"
  let ?w' = "\<lparr>w_cart = c, w_sheets = init_sheets, w_store = s\<lparr>slots := (slots s)(PRODUCTS_CACHE_KEY := None)\<rparr>\<rparr>"
  have i: "cache_products init_sheets = None" by (simp add: init_sheets_def)
  have c1: "app_step (load_ev e2) st ?w = (st\<lparr>products := ps, categories := categories_of ps, loading := False, app_error := None\<rparr>, ?w)" for st
    using load_offline [of ?w e2 "\<lambda>_. ps"] i assms(1,2,4) fallback_slot by simp
  have cl: "clearCache init_sheets s = (Inr (), init_sheets, s\<lparr>slots := (slots s)(PRODUCTS_CACHE_KEY := None)\<rparr>)"
    using assms(2) by (simp add: clearCache_def remove_item_def init_sheets_def)
  have c2: "app_step (load_ev e) st ?w' = (st\<lparr>products := getFallbackData (le_rnd1 e), categories := categories_of (getFallbackData (le_rnd2 e)), loading := False, app_error := None\<rparr>, ?w')"
    if "le_net e (csv_url init_sheets) = NetFailure" for st e
    using load_offline [of ?w' e getFallbackData] i that assms(2) fallback_empty [of "s\<lparr>slots := (slots s)(PRODUCTS_CACHE_KEY := None)\<rparr>"] by simp
  have r: "app_step (refresh_ev e1) st ?w = app_step (load_ev e1) st ?w'" for st
    using cl by (simp add: app_step_def refresh_ev_def load_ev_def refreshData_def)
  show ?thesis
    using m c1 c2 [OF assms(3)] c2 [OF assms(4)] r cl
    by (simp add: app_start_def route_home route_cart home_effect_initial)
qed

theorem start_home_discards_durable_copy_witness:
  "(\<exists>st w. app_start ''/cart'' [] \<lparr>slots = [PRODUCTS_CACHE_KEY \<mapsto> JsonText (cache_json [demo_product] 0)], readable = True, writable = True\<rparr>
       offline_env
       offline_env
       = Inr (st, w) \<and> products st = [demo_product])
   \<and> (\<exists>st w. app_start ''/'' [] \<lparr>slots = [PRODUCTS_CACHE_KEY \<mapsto> JsonText (cache_json [demo_product] 0)], readable = True, writable = True\<rparr>
       offline_env
       offline_env
       = Inr (st, w) \<and> products st = getFallbackData (\<lambda>_. 0) \<and> slots (w_store w) PRODUCTS_CACHE_KEY = None)"
  using start_home_discards_durable_copy [of "\<lparr>slots = [PRODUCTS_CACHE_KEY \<mapsto> JsonText (cache_json [demo_product] 0)], readable = True, writable = True\<rparr>"
      "[demo_product]" 0 offline_env
      offline_env "[]"]
  by (simp add: offline_env_def)

text \<open>C13: how the start ends. With a readable storage, or on a path other than
  \<open>/\<close>, the application starts and every state after its loads is a reachable state
  of the running application (cart coherent and durable). With storage access
  denied, opening it at \<open>/\<close> fails: HomePage's mount effect throws the
  \<open>SecurityError\<close> of \<open>localStorage.removeItem\<close> and React unmounts the tree.\<close>

theorem app_start_outcome:
  assumes "loadCart s = Inr c" and "cart_wf c"
  shows "(readable s \<or> match_route path \<noteq> RHome \<longrightarrow> (\<exists>st w. app_start path c s e1 e2 = Inr (st, w) \<and> app_reach st w))
    \<and> (\<not> readable s \<and> match_route path = RHome \<longrightarrow> app_start path c s e1 e2 = Inl SecurityError)"
proof -
  obtain st0 where m: "mounted c s = (st0, \<lparr>w_cart = c, w_sheets = init_sheets, w_store = s\<rparr>)"
    using mounted_world by (metis prod.collapse)
  have r0: "app_reach st0 \<lparr>w_cart = c, w_sheets = init_sheets, w_store = s\<rparr>"
    using app_reach.init [OF assms m] .
  have ok: "list_all ui_ok [refresh_ev e1, load_ev e2]" "list_all ui_ok [load_ev e2]"
    by (simp_all add: refresh_ev_def load_ev_def)
  have reach: "\<exists>st w. Inr (run_events evs st0 \<lparr>w_cart = c, w_sheets = init_sheets, w_store = s\<rparr>) = Inr (st, w) \<and> app_reach st w"
    if "list_all ui_ok evs" for evs
    using run_events_reach [OF r0 that] by (metis prod.collapse)
  show ?thesis
    using m reach [OF ok(1)] reach [OF ok(2)]
    by (auto simp: app_start_def home_effect_initial clearCache_def remove_item_def init_sheets_def Let_def)
qed

theorem app_start_outcome_witness:
  "app_start ''/'' [] \<lparr>slots = Map.empty, readable = False, writable = False\<rparr>
       offline_env offline_env
       = Inl SecurityError
   \<and> (\<exists>st w. app_start ''/cart'' [] \<lparr>slots = Map.empty, readable = False, writable = False\<rparr>
       offline_env offline_env
       = Inr (st, w) \<and> app_reach st w)
   \<and> (\<exists>st w. app_start ''/'' [] \<lparr>slots = Map.empty, readable = True, writable = True\<rparr>
       offline_env offline_env
       = Inr (st, w) \<and> app_reach st w)"
  using app_start_outcome [of "\<lparr>slots = Map.empty, readable = False, writable = False\<rparr>" "[]" "''/''" offline_env offline_env]
    app_start_outcome [of "\<lparr>slots = Map.empty, readable = False, writable = False\<rparr>" "[]" "''/cart''" offline_env offline_env]
    app_start_outcome [of "\<lparr>slots = Map.empty, readable = True, writable = True\<rparr>" "[]" "''/''" offline_env offline_env]
  by (simp add: loadCart_def get_item_def cart_wf_def route_home route_cart)

end
