(* ===== verification/Loads.thy ===== *)
theory Loads
  imports Shell
begin

text \<open>
  The catalogue loads as the browser runs them. \<open>loadInitialData\<close>
  (src/src/context/AppContext.jsx) suspends at each \<open>await\<close>: \<open>fetchProducts()\<close>
  (src/src/services/googleSheetsService.js) reads the memory cache when it is
  called and, on a miss, requests \<open>this.CSV_URL\<close>; the rest of it runs when the
  reply arrives, and then \<open>getCategories()\<close> calls \<open>fetchProducts()\<close> again. Several
  loads can be in flight at once (HomePage's refresh and the provider's load at
  start, the retry button), and their continuations interleave with each other and
  with the user's events on the shared service and storage. AppState runs each load
  as one event; here a load is a suspended continuation, and \<open>solo_load_refines\<close>
  shows that one load run alone is AppState's \<open>loadInitialData\<close>.
\<close>

section \<open>Suspended loads\<close>

text \<open>What an awaited \<open>fetchProducts()\<close> resolves from: the memory cache it read
  when called, or the reply to the request it sent.\<close>

datatype pending = Cached "product list" | Requested string

datatype load = AwaitProducts pending | AwaitCategories "product list" pending

text \<open>The application with its loads in flight, in the order they started, and the
  URLs requested so far.\<close>

record conc =
  cs_app :: app_state
  cs_world :: world
  cs_loads :: "load list"
  cs_requests :: "string list"

text \<open>A call of \<open>fetchProducts()\<close> at time \<open>t\<close>, up to its \<open>await\<close>.\<close>

definition fetch_call :: "int \<Rightarrow> sheets \<Rightarrow> pending" where
  "fetch_call t sh = (case fresh_products t sh of Some ps \<Rightarrow> Cached ps | None \<Rightarrow> Requested (csv_url sh))"

fun requested :: "pending \<Rightarrow> string list" where
  "requested (Cached _) = []"
| "requested (Requested u) = [u]"

text \<open>The awaited call settles at time \<open>t\<close>: from the cache, or with the network's
  reply to its URL.\<close>

fun fetch_settle :: "pending \<Rightarrow> int \<Rightarrow> (string \<Rightarrow> net_reply) \<Rightarrow> (nat \<Rightarrow> real) \<Rightarrow> sheets \<Rightarrow> storage
    \<Rightarrow> (fetch_error + product list) \<times> sheets \<times> storage" where
  "fetch_settle (Cached ps) t net rnd sh s = (Inr ps, sh, s)"
| "fetch_settle (Requested u) t net rnd sh s = fetch_resume t (net u) rnd sh s"

text \<open>\<open>loadInitialData()\<close> up to its first \<open>await\<close>: \<open>SET_LOADING\<close>, then the call
  of \<open>fetchProducts()\<close>.\<close>

definition load_start :: "int \<Rightarrow> conc \<Rightarrow> conc" where
  "load_start t c =
     (case appReducer (SET_LOADING True) (cs_app c) (cs_world c) of (st, w) \<Rightarrow>
        c\<lparr>cs_app := st, cs_world := w, cs_loads := cs_loads c @ [AwaitProducts (fetch_call t (w_sheets w))],
          cs_requests := cs_requests c @ requested (fetch_call t (w_sheets w))\<rparr>)"

text \<open>\<open>refreshData()\<close>: \<open>clearCache()\<close>, then a load. When \<open>removeItem\<close> throws,
  the memory cache is already reset and no load starts; the exception is returned.\<close>

definition refresh_start :: "int \<Rightarrow> conc \<Rightarrow> storage_error option \<times> conc" where
  "refresh_start t c =
     (case clearCache (w_sheets (cs_world c)) (w_store (cs_world c)) of
        (Inl e, sh, s) \<Rightarrow> (Some e, c\<lparr>cs_world := (cs_world c)\<lparr>w_sheets := sh, w_store := s\<rparr>\<rparr>)
      | (Inr _, sh, s) \<Rightarrow> (None, load_start t (c\<lparr>cs_world := (cs_world c)\<lparr>w_sheets := sh, w_store := s\<rparr>\<rparr>)))"

text \<open>A suspended load resumes when its call settles at time \<open>t\<close>: after the
  products, \<open>getCategories()\<close> is called at time \<open>t'\<close>; after the categories, the
  load dispatches its results. A rejection dispatches \<open>SET_ERROR\<close>.\<close>

definition load_resume :: "load \<Rightarrow> int \<Rightarrow> int \<Rightarrow> (string \<Rightarrow> net_reply) \<Rightarrow> (nat \<Rightarrow> real) \<Rightarrow> world
    \<Rightarrow> action list \<times> world \<times> load option" where
  "load_resume l t t' net rnd w =
     (case l of
        AwaitProducts p \<Rightarrow>
          (case fetch_settle p t net rnd (w_sheets w) (w_store w) of
             (Inl _, sh, s) \<Rightarrow> ([SET_ERROR load_error_msg], w\<lparr>w_sheets := sh, w_store := s\<rparr>, None)
           | (Inr ps, sh, s) \<Rightarrow> ([], w\<lparr>w_sheets := sh, w_store := s\<rparr>, Some (AwaitCategories ps (fetch_call t' sh))))
      | AwaitCategories ps p \<Rightarrow>
          (case fetch_settle p t net rnd (w_sheets w) (w_store w) of
             (Inl _, sh, s) \<Rightarrow> ([SET_ERROR load_error_msg], w\<lparr>w_sheets := sh, w_store := s\<rparr>, None)
           | (Inr qs, sh, s) \<Rightarrow>
               ([SET_PRODUCTS ps, SET_CATEGORIES (categories_of qs)], w\<lparr>w_sheets := sh, w_store := s\<rparr>, None)))"

fun new_requests :: "load option \<Rightarrow> string list" where
  "new_requests (Some (AwaitCategories ps p)) = requested p"
| "new_requests _ = []"

text \<open>The \<open>i\<close>-th load in flight resumes; there is nothing to resume past the
  last one.\<close>

definition conc_resume :: "nat \<Rightarrow> int \<Rightarrow> int \<Rightarrow> (string \<Rightarrow> net_reply) \<Rightarrow> (nat \<Rightarrow> real) \<Rightarrow> conc \<Rightarrow> conc" where
  "conc_resume i t t' net rnd c =
     (if i < length (cs_loads c) then
        (case load_resume (cs_loads c ! i) t t' net rnd (cs_world c) of (as, w, lo) \<Rightarrow>
          (case dispatch_all as (cs_app c) w of (st, w') \<Rightarrow>
             c\<lparr>cs_app := st, cs_world := w',
               cs_loads := (case lo of None \<Rightarrow> take i (cs_loads c) @ drop (Suc i) (cs_loads c)
                                     | Some l \<Rightarrow> (cs_loads c)[i := l]),
               cs_requests := cs_requests c @ new_requests lo\<rparr>))
      else c)"

section \<open>The interleaved application\<close>

datatype conc_event =
    UiEv ui_event
  | StartLoad int
  | Refresh int
  | Resume nat int int "string \<Rightarrow> net_reply" "nat \<Rightarrow> real"

fun conc_step :: "conc_event \<Rightarrow> conc \<Rightarrow> conc" where
  "conc_step (UiEv ev) c = (case app_step ev (cs_app c) (cs_world c) of (st, w) \<Rightarrow> c\<lparr>cs_app := st, cs_world := w\<rparr>)"
| "conc_step (StartLoad t) c = load_start t c"
| "conc_step (Refresh t) c = snd (refresh_start t c)"
| "conc_step (Resume i t t' net rnd) c = conc_resume i t t' net rnd c"

fun conc_run :: "conc_event list \<Rightarrow> conc \<Rightarrow> conc" where
  "conc_run [] c = c"
| "conc_run (e # es) c = conc_run es (conc_step e c)"

text \<open>The user's events are AppState's, except the loads, which run here split at
  their awaits; the provider starts its load only at mount.\<close>

fun load_event :: "ui_event \<Rightarrow> bool" where
  "load_event (LoadData t0 t1 t2 t3 net r1 r2) = True"
| "load_event (RefreshData t0 t1 t2 t3 net r1 r2) = True"
| "load_event _ = False"

fun conc_ok :: "conc_event \<Rightarrow> bool" where
  "conc_ok (UiEv ev) = (ui_ok ev \<and> \<not> load_event ev)"
| "conc_ok (StartLoad t) = False"
| "conc_ok (Refresh t) = True"
| "conc_ok (Resume i t t' net rnd) = True"

text \<open>The first commit of App at a path, as in Shell's \<open>app_start\<close>, with the loads
  left in flight: HomePage's mount effect (on \<open>/\<close>) calls \<open>refreshData()\<close> at time
  \<open>t_home\<close>, whose exception unmounts the tree; then the provider's effect calls
  \<open>loadInitialData()\<close> at time \<open>t_prov\<close> and \<open>loadCart()\<close>.\<close>

definition conc_start :: "string \<Rightarrow> cart \<Rightarrow> storage \<Rightarrow> int \<Rightarrow> int \<Rightarrow> storage_error + conc" where
  "conc_start path c s t_home t_prov =
     (let c0 = \<lparr>cs_app = initialState, cs_world = \<lparr>w_cart = c, w_sheets = init_sheets, w_store = s\<rparr>,
                cs_loads = [], cs_requests = []\<rparr>;
          prov = (\<lambda>c1. let c2 = load_start t_prov c1
                       in c2\<lparr>cs_app := fst (dispatch_all (provider_loadCart (cs_world c2)) (cs_app c2) (cs_world c2))\<rparr>)
      in if match_route path = RHome \<and> home_mount_effect initialState
         then (case refresh_start t_home c0 of (Some e, _) \<Rightarrow> Inl e | (None, c1) \<Rightarrow> Inr (prov c1))
         else Inr (prov c0))"

inductive conc_reach :: "conc \<Rightarrow> bool" where
  start: "loadCart s = Inr c \<Longrightarrow> cart_wf c \<Longrightarrow> conc_start path c s t1 t2 = Inr cs \<Longrightarrow> conc_reach cs"
| step: "conc_reach cs \<Longrightarrow> conc_ok e \<Longrightarrow> conc_reach (conc_step e cs)"

section \<open>Invariants\<close>

text \<open>The invariant of the running application (AppState's \<open>app_inv\<close>: the cart
  coherent and durable), now over the loads in flight too.\<close>

definition conc_inv :: "conc \<Rightarrow> bool" where
  "conc_inv c \<longleftrightarrow> app_inv (cs_app c) (cs_world c)"

text \<open>Offline, after the stored catalogue is gone: the storage is readable, the
  durable slot and the memory cache are empty, every load in flight waits for a
  request to the sheet, and every product list shown or held is sample data.\<close>

definition sample_list :: "product list \<Rightarrow> bool" where
  "sample_list ps \<longleftrightarrow> ps = [] \<or> (\<exists>r. ps = getFallbackData r)"

fun offline_load :: "load \<Rightarrow> bool" where
  "offline_load (AwaitProducts p) = (p = Requested (csv_url init_sheets))"
| "offline_load (AwaitCategories ps p) = ((\<exists>r. ps = getFallbackData r) \<and> p = Requested (csv_url init_sheets))"

definition offline_inv :: "conc \<Rightarrow> bool" where
  "offline_inv c \<longleftrightarrow> readable (w_store (cs_world c)) \<and> slots (w_store (cs_world c)) PRODUCTS_CACHE_KEY = None
     \<and> cache_products (w_sheets (cs_world c)) = None \<and> csv_url (w_sheets (cs_world c)) = csv_url init_sheets
     \<and> list_all offline_load (cs_loads c) \<and> sample_list (products (cs_app c))"

text \<open>An event of an offline network: every reply to the sheet's URL is a failure.\<close>

fun offline_event :: "conc_event \<Rightarrow> bool" where
  "offline_event (Resume i t t' net rnd) = (net (csv_url init_sheets) = NetFailure)"
| "offline_event _ = True"

text \<open>A storage holding a stored catalogue of one product.\<close>

definition stored_catalogue :: storage where
  "stored_catalogue = \<lparr>slots = [PRODUCTS_CACHE_KEY \<mapsto> JsonText (cache_json [demo_product] 0)], readable = True, writable = True\<rparr>"

text \<open>How many resumptions the loads in flight still need: two for a load waiting
  for its products, one for a load waiting for its categories.\<close>

definition load_weight :: "load list \<Rightarrow> nat" where
  "load_weight ls = sum_list (map (\<lambda>l. case l of AwaitProducts _ \<Rightarrow> 2 | AwaitCategories _ _ \<Rightarrow> 1) ls)"

text \<open>The spinner is only on while a load is in flight.\<close>

definition loading_inv :: "conc \<Rightarrow> bool" where
  "loading_inv c \<longleftrightarrow> (loading (cs_app c) \<longrightarrow> cs_loads c \<noteq> [])"

section \<open>Lemmas\<close>

lemma fetch_call_settle:
  "fetch_settle (fetch_call t0 sh) t1 net rnd sh s = fetchProducts t0 t1 net rnd sh s"
  by (simp add: fetch_call_def fetchProducts_def split: option.split)

lemma fetch_settle_frame: "fetch_settle p t net rnd sh s = (r, sh', s') \<Longrightarrow> cart_frame s s'"
  by (cases p) (auto simp: fetch_resume_def Let_def dest: fetch_fallback_state intro: set_products_frame
      split: net_reply.splits sum.splits)

lemma load_resume_world:
  "load_resume l t t' net rnd w = (as, w', lo) \<Longrightarrow>
   list_all inert_action as \<and> w_cart w' = w_cart w \<and> cart_frame (w_store w) (w_store w')"
  by (auto simp: load_resume_def split: load.splits prod.splits sum.splits dest!: fetch_settle_frame)

lemma load_start_inv: "conc_inv c \<Longrightarrow> conc_inv (load_start t c)"
  by (simp add: conc_inv_def load_start_def app_inv_def)

lemma refresh_start_inv: "conc_inv c \<Longrightarrow> conc_inv (snd (refresh_start t c))"
proof -
  assume i: "conc_inv c"
  obtain r sh s where e: "clearCache (w_sheets (cs_world c)) (w_store (cs_world c)) = (r, sh, s)"
    by (metis prod_cases3)
  have "conc_inv (c\<lparr>cs_world := (cs_world c)\<lparr>w_sheets := sh, w_store := s\<rparr>\<rparr>)"
    using i clearCache_frame [OF e] app_inv_frame [of "cs_app c" "cs_world c"] by (simp add: conc_inv_def)
  then show ?thesis using e load_start_inv by (simp add: refresh_start_def split: sum.splits)
qed

lemma conc_resume_inv: "conc_inv c \<Longrightarrow> conc_inv (conc_resume i t t' net rnd c)"
proof -
  assume i: "conc_inv c"
  show ?thesis
  proof (cases "i < length (cs_loads c)")
    case True
    obtain as w lo where r: "load_resume (cs_loads c ! i) t t' net rnd (cs_world c) = (as, w, lo)"
      by (metis prod_cases3)
    obtain st w' where d: "dispatch_all as (cs_app c) w = (st, w')" by fastforce
    have "app_inv (cs_app c) w"
      using i load_resume_world [OF r] app_inv_frame [of "cs_app c" "cs_world c"] by (simp add: conc_inv_def)
    then have "app_inv st w'" using app_inv_inert load_resume_world [OF r] d by blast
    then show ?thesis using True r d by (simp add: conc_resume_def conc_inv_def)
  qed (use i in \<open>simp add: conc_resume_def\<close>)
qed

lemma conc_step_inv: "conc_inv c \<Longrightarrow> conc_ok e \<Longrightarrow> conc_inv (conc_step e c)"
proof (cases e)
  case (UiEv ev)
  assume i: "conc_inv c" and ok: "conc_ok e"
  obtain st w where a: "app_step ev (cs_app c) (cs_world c) = (st, w)" by fastforce
  have "app_inv st w" using app_step_inv [OF _ _ a] i ok UiEv by (simp add: conc_inv_def)
  then show ?thesis using a UiEv by (simp add: conc_inv_def)
qed (auto intro: load_start_inv refresh_start_inv conc_resume_inv)

lemma load_start_world [simp]: "cs_world (load_start t c) = cs_world c"
  by (simp add: load_start_def split: prod.splits)

lemma conc_start_inv:
  assumes "loadCart s = Inr c" and "cart_wf c" and "conc_start path c s t1 t2 = Inr cs"
  shows "conc_inv cs"
proof -
  let ?w0 = "\<lparr>w_cart = c, w_sheets = init_sheets, w_store = s\<rparr>"
  let ?c0 = "\<lparr>cs_app = initialState, cs_world = ?w0, cs_loads = [], cs_requests = []\<rparr>"
  have P: "conc_inv (load_start t2 c1\<lparr>cs_app := fst (dispatch_all (provider_loadCart (cs_world (load_start t2 c1)))
             (cs_app (load_start t2 c1)) (cs_world (load_start t2 c1)))\<rparr>)"
    if "w_cart (cs_world c1) = c" and "cart_frame s (w_store (cs_world c1))" for c1
    using that assms(1,2) loadCart_frame [OF that(2)]
    by (simp add: provider_loadCart_def getCart_def conc_inv_def app_inv_def)
  show ?thesis
  proof (cases "match_route path = RHome \<and> home_mount_effect initialState")
    case True
    obtain r sh s' where e: "clearCache init_sheets s = (r, sh, s')" by (metis prod_cases3)
    have f: "cart_frame s s'" using clearCache_frame [OF e] .
    show ?thesis
    proof (cases r)
      case (Inl err)
      then show ?thesis using assms(3) True e by (simp add: conc_start_def refresh_start_def)
    next
      case (Inr u)
      then have "cs = load_start t2 (load_start t1 (?c0\<lparr>cs_world := ?w0\<lparr>w_sheets := sh, w_store := s'\<rparr>\<rparr>))
          \<lparr>cs_app := fst (dispatch_all (provider_loadCart (cs_world (load_start t2 (load_start t1 (?c0\<lparr>cs_world := ?w0\<lparr>w_sheets := sh, w_store := s'\<rparr>\<rparr>)))))
             (cs_app (load_start t2 (load_start t1 (?c0\<lparr>cs_world := ?w0\<lparr>w_sheets := sh, w_store := s'\<rparr>\<rparr>))))
             (cs_world (load_start t2 (load_start t1 (?c0\<lparr>cs_world := ?w0\<lparr>w_sheets := sh, w_store := s'\<rparr>\<rparr>)))))\<rparr>"
        using assms(3) True e by (simp add: conc_start_def refresh_start_def Let_def)
      then show ?thesis using P [of "load_start t1 (?c0\<lparr>cs_world := ?w0\<lparr>w_sheets := sh, w_store := s'\<rparr>\<rparr>)"] f by simp
    qed
  next
    case False
    then have "cs = load_start t2 ?c0\<lparr>cs_app := fst (dispatch_all (provider_loadCart (cs_world (load_start t2 ?c0)))
             (cs_app (load_start t2 ?c0)) (cs_world (load_start t2 ?c0)))\<rparr>"
      using assms(3) unfolding conc_start_def Let_def by (simp only: if_False simp_thms) simp
    then show ?thesis using P [of ?c0] by simp
  qed
qed

lemma saveCart_other: "k \<noteq> STORAGE_KEY \<Longrightarrow> slots (saveCart c s) k = slots s k"
  by (auto simp: saveCart_def set_item_def split: sum.splits if_splits)

lemma cart_apply_other:
  "k \<noteq> STORAGE_KEY \<Longrightarrow> slots (snd (cart_apply op c s)) k = slots s k \<and> readable (snd (cart_apply op c s)) = readable s"
  using cart_apply_saves [of op c s] saveCart_other saveCart_flags by (metis snd_conv)

lemma ui_step_catalog:
  assumes "\<not> load_event ev" and "app_step ev st w = (st', w')"
  shows "products st' = products st \<and> loading st' = loading st \<and> w_sheets w' = w_sheets w
    \<and> slots (w_store w') PRODUCTS_CACHE_KEY = slots (w_store w) PRODUCTS_CACHE_KEY \<and> readable (w_store w') = readable (w_store w)"
proof (cases ev)
  case (CartEv op)
  obtain c s where "cart_apply op (w_cart w) (w_store w) = (c, s)" by fastforce
  then show ?thesis using assms CartEv cart_apply_other [of PRODUCTS_CACHE_KEY op "w_cart w" "w_store w"]
    by (cases op) (auto simp: app_step_def cart_action_def)
qed (use assms in \<open>auto simp: app_step_def provider_loadCart_def getCart_def header_search_def header_category_def
       header_logo_def home_category_click_def home_page_change_def\<close>)

lemma fetch_call_uncached: "cache_products sh = None \<Longrightarrow> fetch_call t sh = Requested (csv_url sh)"
  by (simp add: fetch_call_def fresh_products_def)

lemma offline_load_start: "offline_inv c \<Longrightarrow> offline_inv (load_start t c)"
  by (simp add: offline_inv_def load_start_def fetch_call_uncached)

lemma offline_refresh: "offline_inv c \<Longrightarrow> offline_inv (snd (refresh_start t c))"
proof -
  assume i: "offline_inv c"
  then have "offline_inv (c\<lparr>cs_world := (cs_world c)\<lparr>w_sheets := (w_sheets (cs_world c))\<lparr>cache_products := None, last_fetch := None\<rparr>,
        w_store := (w_store (cs_world c))\<lparr>slots := (slots (w_store (cs_world c)))(PRODUCTS_CACHE_KEY := None)\<rparr>\<rparr>\<rparr>)"
    by (simp add: offline_inv_def)
  then show ?thesis using i offline_load_start
    by (simp add: refresh_start_def clearCache_def remove_item_def offline_inv_def Let_def)
qed

lemma offline_settle:
  "slots s PRODUCTS_CACHE_KEY = None \<Longrightarrow> readable s \<Longrightarrow> net (csv_url init_sheets) = NetFailure \<Longrightarrow>
   fetch_settle (Requested (csv_url init_sheets)) t net rnd sh s = (Inr (getFallbackData rnd), sh, s)"
  by (simp add: fetch_resume_def fetch_fallback_def get_item_def)

lemma list_all_remove: "list_all P xs \<Longrightarrow> list_all P (take i xs @ drop (Suc i) xs)"
  by (auto simp: list_all_iff dest: in_set_takeD in_set_dropD)

lemma offline_resume:
  assumes "offline_inv c" and "net (csv_url init_sheets) = NetFailure"
  shows "offline_inv (conc_resume i t t' net rnd c)"
proof (cases "i < length (cs_loads c)")
  case True
  have l: "offline_load (cs_loads c ! i)" using assms(1) True by (simp add: offline_inv_def list_all_length)
  have o: "fetch_settle (Requested (csv_url init_sheets)) t0 net r sh (w_store (cs_world c))
      = (Inr (getFallbackData r), sh, w_store (cs_world c))" for t0 r sh
    using assms offline_settle by (simp add: offline_inv_def)
  show ?thesis
  proof (cases "cs_loads c ! i")
    case (AwaitProducts p)
    then show ?thesis using assms(1) True l o
      by (auto simp: offline_inv_def conc_resume_def load_resume_def fetch_call_uncached list_all_length nth_list_update)
  next
    case (AwaitCategories ps p)
    then show ?thesis using assms(1) True l o list_all_remove [of offline_load "cs_loads c" i]
      by (auto simp: offline_inv_def conc_resume_def load_resume_def sample_list_def)
  qed
qed (use assms in \<open>simp add: conc_resume_def\<close>)

lemma offline_step:
  assumes "offline_inv c" and "conc_ok e" and "offline_event e"
  shows "offline_inv (conc_step e c)"
proof (cases e)
  case (UiEv ev)
  obtain st w where a: "app_step ev (cs_app c) (cs_world c) = (st, w)" by fastforce
  then show ?thesis using assms UiEv ui_step_catalog [of ev "cs_app c" "cs_world c" st w]
    by (simp add: offline_inv_def)
qed (use assms in \<open>auto intro: offline_load_start offline_refresh offline_resume\<close>)

lemma offline_run:
  "offline_inv c \<Longrightarrow> list_all (\<lambda>e. conc_ok e \<and> offline_event e) es \<Longrightarrow> offline_inv (conc_run es c)"
  by (induction es arbitrary: c) (simp_all add: offline_step)

lemma start_home_world:
  assumes "readable s"
  shows "conc_start ''/'' c s t1 t2 = Inr (load_start t2 (load_start t1
       \<lparr>cs_app = initialState, cs_world = \<lparr>w_cart = c, w_sheets = init_sheets, w_store = s\<lparr>slots := (slots s)(PRODUCTS_CACHE_KEY := None)\<rparr>\<rparr>,
        cs_loads = [], cs_requests = []\<rparr>)\<lparr>cs_app := fst (dispatch_all (provider_loadCart \<lparr>w_cart = c, w_sheets = init_sheets,
          w_store = s\<lparr>slots := (slots s)(PRODUCTS_CACHE_KEY := None)\<rparr>\<rparr>)
        (cs_app (load_start t2 (load_start t1 \<lparr>cs_app = initialState, cs_world = \<lparr>w_cart = c, w_sheets = init_sheets,
          w_store = s\<lparr>slots := (slots s)(PRODUCTS_CACHE_KEY := None)\<rparr>\<rparr>, cs_loads = [], cs_requests = []\<rparr>)))
        \<lparr>w_cart = c, w_sheets = init_sheets, w_store = s\<lparr>slots := (slots s)(PRODUCTS_CACHE_KEY := None)\<rparr>\<rparr>)\<rparr>)"
proof -
  have "init_sheets\<lparr>cache_products := None, last_fetch := None\<rparr> = init_sheets" by (simp add: init_sheets_def)
  then show ?thesis using assms
    by (simp add: conc_start_def refresh_start_def clearCache_def remove_item_def route_home home_effect_initial Let_def)
qed

lemma load_resume_next:
  "load_resume l t t' net rnd w = (as, w', Some l') \<Longrightarrow> as = [] \<and> (\<exists>p. l = AwaitProducts p) \<and> (\<exists>ps q. l' = AwaitCategories ps q)"
  by (auto simp: load_resume_def split: load.splits prod.splits sum.splits)

lemma load_resume_done:
  "load_resume l t t' net rnd w = (as, w', None) \<Longrightarrow> \<not> loading (fst (dispatch_all as st w'))"
  by (auto simp: load_resume_def split: load.splits prod.splits sum.splits)

lemma load_weight_empty: "load_weight ls = 0 \<longleftrightarrow> ls = []"
  by (cases ls) (auto simp: load_weight_def split: load.splits)

lemma resume_first_weight:
  assumes "cs_loads c \<noteq> []"
  shows "load_weight (cs_loads (conc_resume 0 t t' net rnd c)) < load_weight (cs_loads c)"
proof -
  obtain l ls where c: "cs_loads c = l # ls" using assms by (cases "cs_loads c") auto
  obtain as w lo where r: "load_resume l t t' net rnd (cs_world c) = (as, w, lo)" by (metis prod_cases3)
  show ?thesis
  proof (cases lo)
    case None
    then show ?thesis using c r by (auto simp: conc_resume_def load_weight_def split: prod.splits load.splits)
  next
    case (Some l')
    then show ?thesis using c r load_resume_next [of l t t' net rnd "cs_world c" as w l']
      by (auto simp: conc_resume_def load_weight_def split: prod.splits)
  qed
qed

lemma resume_first_run:
  "load_weight (cs_loads c) \<le> k \<Longrightarrow> cs_loads (conc_run (replicate k (Resume 0 t t' net rnd)) c) = []"
proof (induction k arbitrary: c)
  case 0
  then show ?case by (simp add: load_weight_empty)
next
  case (Suc k)
  show ?case
  proof (cases "cs_loads c = []")
    case True
    then have "conc_step (Resume 0 t t' net rnd) c = c" by (simp add: conc_resume_def)
    then show ?thesis using Suc.IH [of c] True by (simp add: load_weight_def)
  next
    case False
    then show ?thesis using Suc resume_first_weight [OF False, of t t' net rnd] by simp
  qed
qed

lemma load_weight_bound: "load_weight ls \<le> 2 * length ls"
  by (induction ls) (auto simp: load_weight_def split: load.splits)

lemma loading_inv_step: "loading_inv c \<Longrightarrow> conc_ok e \<Longrightarrow> loading_inv (conc_step e c)"
proof (cases e)
  case (UiEv ev)
  assume i: "loading_inv c" and ok: "conc_ok e"
  obtain st w where a: "app_step ev (cs_app c) (cs_world c) = (st, w)" by fastforce
  then show ?thesis using i ok UiEv ui_step_catalog [of ev "cs_app c" "cs_world c" st w]
    by (simp add: loading_inv_def)
next
  case (Refresh t)
  assume "loading_inv c"
  then show ?thesis using Refresh
    by (auto simp: loading_inv_def refresh_start_def load_start_def split: prod.splits sum.splits)
next
  case (Resume i t t' net rnd)
  assume li: "loading_inv c"
  show ?thesis
  proof (cases "i < length (cs_loads c)")
    case True
    obtain as w lo where r: "load_resume (cs_loads c ! i) t t' net rnd (cs_world c) = (as, w, lo)"
      by (metis prod_cases3)
    show ?thesis
    proof (cases lo)
      case None
      then show ?thesis using True r Resume load_resume_done [OF r [unfolded None], of "cs_app c"]
        by (auto simp: loading_inv_def conc_resume_def split: prod.splits)
    next
      case (Some l')
      then have "as = []" using load_resume_next [OF r [unfolded Some]] by simp
      then show ?thesis using True r Resume li Some by (auto simp: loading_inv_def conc_resume_def)
    qed
  qed (use li Resume in \<open>simp add: conc_resume_def\<close>)
qed simp

lemma conc_start_loads: "conc_start path c s t1 t2 = Inr cs \<Longrightarrow> cs_loads cs \<noteq> []"
  by (auto simp: conc_start_def refresh_start_def load_start_def Let_def split: prod.splits sum.splits if_splits)

lemma conc_reach_loading: "conc_reach cs \<Longrightarrow> loading_inv cs"
proof (induction rule: conc_reach.induct)
  case (start s c path t1 t2 cs)
  then show ?case by (simp add: loading_inv_def conc_start_loads)
next
  case (step cs e)
  then show ?case using loading_inv_step by blast
qed

lemma conc_reach_resumes: "conc_reach c \<Longrightarrow> conc_reach (conc_run (replicate k (Resume 0 t t' net rnd)) c)"
proof (induction k arbitrary: c)
  case (Suc k)
  have "conc_reach (conc_step (Resume 0 t t' net rnd) c)" by (rule conc_reach.step [OF Suc.prems]) simp
  then show ?case using Suc.IH by simp
qed simp

section \<open>Properties\<close>

text \<open>C3: the cart stays coherent and durable under every interleaving: from any
  start, through the user's events, refreshes and the resumptions of the loads in
  flight in any order, the context's cart is the cart service's, well formed, and
  what a working storage reloads.\<close>

theorem conc_cart_coherent:
  assumes "conc_reach cs"
  shows "app_cart (cs_app cs) = w_cart (cs_world cs) \<and> cart_wf (app_cart (cs_app cs))
    \<and> (readable (w_store (cs_world cs)) \<and> writable (w_store (cs_world cs))
         \<longrightarrow> loadCart (w_store (cs_world cs)) = Inr (app_cart (cs_app cs)))"
proof -
  have "conc_inv cs"
    using assms by induction (auto intro: conc_start_inv conc_step_inv)
  then show ?thesis by (simp add: conc_inv_def app_inv_def)
qed

theorem conc_cart_coherent_witness:
  "app_cart (cs_app (conc_step (Resume 0 0 0 (\<lambda>_. NetFailure) (\<lambda>_. 0)) (projr (conc_start ''/cart'' [] empty_storage 0 0))))
     = w_cart (cs_world (conc_step (Resume 0 0 0 (\<lambda>_. NetFailure) (\<lambda>_. 0)) (projr (conc_start ''/cart'' [] empty_storage 0 0))))
   \<and> cart_wf (app_cart (cs_app (conc_step (Resume 0 0 0 (\<lambda>_. NetFailure) (\<lambda>_. 0)) (projr (conc_start ''/cart'' [] empty_storage 0 0)))))"
proof -
  have e: "conc_start ''/cart'' [] empty_storage 0 0 = Inr (projr (conc_start ''/cart'' [] empty_storage 0 0))"
    by (simp add: conc_start_def route_cart Let_def)
  have "conc_reach (projr (conc_start ''/cart'' [] empty_storage 0 0))"
    by (rule conc_reach.start [OF _ _ e]) (simp_all add: loadCart_def get_item_def empty_storage_def cart_wf_def)
  then have "conc_reach (conc_step (Resume 0 0 0 (\<lambda>_. NetFailure) (\<lambda>_. 0)) (projr (conc_start ''/cart'' [] empty_storage 0 0)))"
    by (rule conc_reach.step) simp
  then show ?thesis using conc_cart_coherent by blast
qed

text \<open>A load run alone, split at its awaits, is AppState's atomic
  \<open>loadInitialData\<close>: starting it, then resuming it when the products and then the
  categories settle, dispatches the same actions and leaves the same world, with no
  load left in flight.\<close>

theorem solo_load_refines:
  assumes "cs_loads c = []" and "loadInitialData t0 t1 t2 t3 net r1 r2 (cs_world c) = (as, w')"
  shows "cs_app (conc_run [StartLoad t0, Resume 0 t1 t2 net r1, Resume 0 t3 t3 net r2] c) = fst (dispatch_all as (cs_app c) w')
    \<and> cs_world (conc_run [StartLoad t0, Resume 0 t1 t2 net r1, Resume 0 t3 t3 net r2] c) = w'
    \<and> cs_loads (conc_run [StartLoad t0, Resume 0 t1 t2 net r1, Resume 0 t3 t3 net r2] c) = []"
  using assms
  by (auto simp: load_start_def conc_resume_def load_resume_def loadInitialData_def getCategories_def
      fetch_view_def fetch_call_settle split: prod.splits sum.splits)

theorem solo_load_refines_witness:
  "cs_app (conc_run [StartLoad 0, Resume 0 0 0 (\<lambda>_. NetFailure) (\<lambda>_. 0), Resume 0 0 0 (\<lambda>_. NetFailure) (\<lambda>_. 0)]
      \<lparr>cs_app = initialState, cs_world = \<lparr>w_cart = [], w_sheets = init_sheets, w_store = empty_storage\<rparr>, cs_loads = [], cs_requests = []\<rparr>)
   = fst (dispatch_all (fst (loadInitialData 0 0 0 0 (\<lambda>_. NetFailure) (\<lambda>_. 0) (\<lambda>_. 0)
        \<lparr>w_cart = [], w_sheets = init_sheets, w_store = empty_storage\<rparr>)) initialState
        (snd (loadInitialData 0 0 0 0 (\<lambda>_. NetFailure) (\<lambda>_. 0) (\<lambda>_. 0) \<lparr>w_cart = [], w_sheets = init_sheets, w_store = empty_storage\<rparr>)))"
  using solo_load_refines [of "\<lparr>cs_app = initialState, cs_world = \<lparr>w_cart = [], w_sheets = init_sheets, w_store = empty_storage\<rparr>,
      cs_loads = [], cs_requests = []\<rparr>" 0 0 0 0 "\<lambda>_. NetFailure" "\<lambda>_. 0" "\<lambda>_. 0"
      "fst (loadInitialData 0 0 0 0 (\<lambda>_. NetFailure) (\<lambda>_. 0) (\<lambda>_. 0) \<lparr>w_cart = [], w_sheets = init_sheets, w_store = empty_storage\<rparr>)"
      "snd (loadInitialData 0 0 0 0 (\<lambda>_. NetFailure) (\<lambda>_. 0) (\<lambda>_. 0) \<lparr>w_cart = [], w_sheets = init_sheets, w_store = empty_storage\<rparr>)"]
  by simp

text \<open>C6: every load ends and takes the spinner with it: from any state the
  application reaches, whatever the network answers, resuming the oldest load in
  flight twice per load settles them all, and then the context is not loading.
  Every path of \<open>loadInitialData\<close> after its awaits, the catch included,
  dispatches an action that turns \<open>loading\<close> off.\<close>

theorem conc_loads_settle:
  assumes "conc_reach cs"
  shows "cs_loads (conc_run (replicate (2 * length (cs_loads cs)) (Resume 0 t t' net rnd)) cs) = []
    \<and> \<not> loading (cs_app (conc_run (replicate (2 * length (cs_loads cs)) (Resume 0 t t' net rnd)) cs))"
proof -
  have e: "cs_loads (conc_run (replicate (2 * length (cs_loads cs)) (Resume 0 t t' net rnd)) cs) = []"
    using resume_first_run load_weight_bound by blast
  moreover have "loading_inv (conc_run (replicate (2 * length (cs_loads cs)) (Resume 0 t t' net rnd)) cs)"
    using conc_reach_loading conc_reach_resumes assms by blast
  ultimately show ?thesis by (simp add: loading_inv_def)
qed

theorem conc_loads_settle_witness:
  "cs_loads (conc_run (replicate (2 * length (cs_loads (projr (conc_start ''/cart'' [] empty_storage 0 0))))
      (Resume 0 0 0 (\<lambda>_. NetFailure) (\<lambda>_. 0))) (projr (conc_start ''/cart'' [] empty_storage 0 0))) = []
   \<and> \<not> loading (cs_app (conc_run (replicate (2 * length (cs_loads (projr (conc_start ''/cart'' [] empty_storage 0 0))))
      (Resume 0 0 0 (\<lambda>_. NetFailure) (\<lambda>_. 0))) (projr (conc_start ''/cart'' [] empty_storage 0 0))))"
proof -
  have e: "conc_start ''/cart'' [] empty_storage 0 0 = Inr (projr (conc_start ''/cart'' [] empty_storage 0 0))"
    by (simp add: conc_start_def route_cart Let_def)
  have "conc_reach (projr (conc_start ''/cart'' [] empty_storage 0 0))"
    by (rule conc_reach.start [OF _ _ e]) (simp_all add: loadCart_def get_item_def empty_storage_def cart_wf_def)
  then show ?thesis by (rule conc_loads_settle)
qed

text \<open>C11: opened at \<open>/\<close> with a stored catalogue and the network down, the
  application never shows it, whatever order the two loads of the start settle in
  and whatever the user does meanwhile (retry included): the stored copy is gone
  from the start, and the products shown are none or random sample data.\<close>

theorem start_home_offline_interleavings:
  assumes "slots s PRODUCTS_CACHE_KEY = Some (JsonText (cache_json ps t))" and "readable s"
    and "conc_start ''/'' c s t1 t2 = Inr cs" and "list_all (\<lambda>e. conc_ok e \<and> offline_event e) es"
  shows "slots (w_store (cs_world (conc_run es cs))) PRODUCTS_CACHE_KEY = None
    \<and> (products (cs_app (conc_run es cs)) = [] \<or> (\<exists>r. products (cs_app (conc_run es cs)) = getFallbackData r))"
proof -
  have "offline_inv cs"
    using assms(2,3) start_home_world [OF assms(2), of c t1 t2]
    by (auto simp: offline_inv_def load_start_def fetch_call_uncached init_sheets_def provider_loadCart_def getCart_def
        initialState_def sample_list_def)
  then have "offline_inv (conc_run es cs)" using offline_run assms(4) by blast
  then show ?thesis by (simp add: offline_inv_def sample_list_def)
qed

theorem start_home_offline_interleavings_witness:
  "slots (w_store (cs_world (conc_run [Resume 1 0 0 (\<lambda>_. NetFailure) (\<lambda>_. 0), Resume 0 0 0 (\<lambda>_. NetFailure) (\<lambda>_. 0)]
       (projr (conc_start ''/'' [] stored_catalogue 0 0))))) PRODUCTS_CACHE_KEY = None
   \<and> (products (cs_app (conc_run [Resume 1 0 0 (\<lambda>_. NetFailure) (\<lambda>_. 0), Resume 0 0 0 (\<lambda>_. NetFailure) (\<lambda>_. 0)]
       (projr (conc_start ''/'' [] stored_catalogue 0 0)))) = []
      \<or> (\<exists>r. products (cs_app (conc_run [Resume 1 0 0 (\<lambda>_. NetFailure) (\<lambda>_. 0), Resume 0 0 0 (\<lambda>_. NetFailure) (\<lambda>_. 0)]
       (projr (conc_start ''/'' [] stored_catalogue 0 0)))) = getFallbackData r))"
proof -
  have r: "readable stored_catalogue" by (simp add: stored_catalogue_def)
  have e: "conc_start ''/'' [] stored_catalogue 0 0 = Inr (projr (conc_start ''/'' [] stored_catalogue 0 0))"
    using start_home_world [OF r, of "[]" 0 0] by simp
  show ?thesis
    using start_home_offline_interleavings [OF _ r e, of "[demo_product]" 0
        "[Resume 1 0 0 (\<lambda>_. NetFailure) (\<lambda>_. 0), Resume 0 0 0 (\<lambda>_. NetFailure) (\<lambda>_. 0)]"]
    by (simp add: stored_catalogue_def)
qed

text \<open>C12: opened at \<open>/\<close>, the application sends two requests for the sheet
  at once: HomePage's refresh and the provider's load both find the memory cache
  empty. Opened at \<open>/cart\<close>, it sends one.\<close>

theorem start_requests_twice:
  assumes "readable s"
  shows "(\<exists>cs. conc_start ''/'' c s t1 t2 = Inr cs \<and> cs_requests cs = [csv_url init_sheets, csv_url init_sheets]
              \<and> length (cs_loads cs) = 2)
    \<and> (\<exists>cs. conc_start ''/cart'' c s t1 t2 = Inr cs \<and> cs_requests cs = [csv_url init_sheets] \<and> length (cs_loads cs) = 1)"
  using start_home_world [OF assms, of c t1 t2]
  by (simp add: conc_start_def route_cart load_start_def fetch_call_uncached init_sheets_def Let_def)

theorem start_requests_twice_witness:
  "(\<exists>cs. conc_start ''/'' [] empty_storage 0 0 = Inr cs \<and> cs_requests cs = [csv_url init_sheets, csv_url init_sheets]
          \<and> length (cs_loads cs) = 2)
   \<and> (\<exists>cs. conc_start ''/cart'' [] empty_storage 0 0 = Inr cs \<and> cs_requests cs = [csv_url init_sheets] \<and> length (cs_loads cs) = 1)"
  using start_requests_twice [of empty_storage "[]" 0 0] by (simp add: empty_storage_def)

end
