(* ===== verification/Render.thy ===== *)
theory Render
  imports Shell
begin

text \<open>
  The element tree App (src/src/App.jsx) renders, and the two things that depend
  on its shape. React Router matches a path against the \<open>Routes\<close> table:
  \<open>match_routes\<close> is its matcher, by segments, with \<open>:name\<close> segments binding
  parameters and static segments compared without case, and
  \<open>router_matches_route_table\<close> shows that Shell's \<open>match_route\<close> is that matcher on
  App's table. \<open>useApp\<close> (src/src/context/AppContext.jsx) throws outside an
  \<open>AppProvider\<close>; \<open>ctx_errors\<close> collects what the tree's components throw, given
  whether a provider is above them. Only the provider's presence matters here; its
  value is AppState's state and operations.
\<close>

section \<open>The element tree\<close>

datatype component =
    Header | HomePage | ProductDetail | CartPage | ContactPage | InstallPrompt | WhatsAppButton string
  | FeaturedProductsSlider | FilterSort | ProductGrid | ProductCard | Pagination

datatype element =
    AppProvider "element list"
  | Router "element list"
  | Tag string "element list"
  | Routes "(string \<times> element) list"
  | Comp component "element list"
  | Anchor string

text \<open>The components that call \<open>useApp()\<close>.\<close>

fun uses_app :: "component \<Rightarrow> bool" where
  "uses_app Header = True"
| "uses_app HomePage = True"
| "uses_app ProductDetail = True"
| "uses_app CartPage = True"
| "uses_app FeaturedProductsSlider = True"
| "uses_app ProductCard = True"
| "uses_app _ = False"

text \<open>The footer's quick links: home, products, contact.\<close>

definition footer_links :: "string list" where
  "footer_links = [''#'', ''#'', ''#'']"

text \<open>The pages with the components they render: HomePage the slider, FilterSort,
  the grid (with its cards and its own Pagination) and Pagination; the slider its
  cards.\<close>

definition home_element :: element where
  "home_element =
     Comp HomePage [Comp FeaturedProductsSlider [Comp ProductCard []], Comp FilterSort [],
       Comp ProductGrid [Comp ProductCard [], Comp Pagination []], Comp Pagination []]"

definition route_table :: "(string \<times> element) list" where
  "route_table =
     [(''/'', home_element), (''/product/:id'', Comp ProductDetail []), (''/cart'', Comp CartPage []),
      (''/contact'', Comp ContactPage [])]"

definition app_tree :: element where
  "app_tree =
     AppProvider [Router [Tag ''div'' [Comp Header [], Tag ''main'' [Routes route_table],
       Comp InstallPrompt [], Comp (WhatsAppButton APP_PHONE) [], Tag ''footer'' (map Anchor footer_links)]]]"

section \<open>React Router's matcher\<close>

text \<open>A pattern's segments against the path's: a \<open>:name\<close> segment binds the path
  segment, a static one must equal it without case.\<close>

fun seg_match :: "string list \<Rightarrow> string list \<Rightarrow> (string \<times> string) list option" where
  "seg_match [] [] = Some []"
| "seg_match (p # ps) (s # ss) =
     (if p \<noteq> [] \<and> hd p = CHR '':'' then map_option (Cons (tl p, s)) (seg_match ps ss)
      else if to_lower p = to_lower s then seg_match ps ss else None)"
| "seg_match _ _ = None"

text \<open>The route a path selects, with its parameters. React Router ranks routes by
  specificity; no path matches two of App's patterns, so the first match is the
  one it picks.\<close>

fun match_routes :: "(string \<times> 'a) list \<Rightarrow> string \<Rightarrow> ('a \<times> (string \<times> string) list) option" where
  "match_routes [] path = None"
| "match_routes ((pat, e) # rs) path =
     (case seg_match (path_segments pat) (path_segments path) of
        Some ps \<Rightarrow> Some (e, ps)
      | None \<Rightarrow> match_routes rs path)"

text \<open>Shell's routes read from a match of App's table.\<close>

definition route_of :: "(element \<times> (string \<times> string) list) option \<Rightarrow> route" where
  "route_of m =
     (case m of
        Some (Comp c _, ps) \<Rightarrow>
          (case c of
             HomePage \<Rightarrow> if ps = [] then RHome else RNoMatch
           | ProductDetail \<Rightarrow> (case ps of [(k, v)] \<Rightarrow> if k = ''id'' then RProduct v else RNoMatch | _ \<Rightarrow> RNoMatch)
           | CartPage \<Rightarrow> if ps = [] then RCart else RNoMatch
           | ContactPage \<Rightarrow> if ps = [] then RContact else RNoMatch
           | _ \<Rightarrow> RNoMatch)
      | _ \<Rightarrow> RNoMatch)"

section \<open>useApp\<close>

definition useApp_error :: string where
  "useApp_error = ''useApp must be used within an AppProvider''"

text \<open>\<open>useContext(AppContext)\<close> is the nearest provider's value, or the default
  \<open>undefined\<close> (\<open>None\<close>); \<open>useApp\<close> throws on the latter.\<close>

definition useApp :: "'a option \<Rightarrow> string + 'a" where
  "useApp ctx = (case ctx of None \<Rightarrow> Inl useApp_error | Some v \<Rightarrow> Inr v)"

text \<open>The errors a render of an element throws, given whether an \<open>AppProvider\<close>
  is above it; every route's element is counted, whichever the path selects.\<close>

fun ctx_errors :: "bool \<Rightarrow> element \<Rightarrow> string list" where
  "ctx_errors p (AppProvider es) = concat (map (ctx_errors True) es)"
| "ctx_errors p (Router es) = concat (map (ctx_errors p) es)"
| "ctx_errors p (Tag t es) = concat (map (ctx_errors p) es)"
| "ctx_errors p (Routes rs) = concat (map (\<lambda>r. ctx_errors p (snd r)) rs)"
| "ctx_errors p (Comp c es) =
     (if uses_app c then (case useApp (if p then Some () else None) of Inl e \<Rightarrow> [e] | Inr _ \<Rightarrow> []) else [])
     @ concat (map (ctx_errors p) es)"
| "ctx_errors p (Anchor h) = []"

section \<open>Lemmas\<close>

lemma route_table_segments:
  "map (\<lambda>r. path_segments (fst r)) route_table = [[], [''product'', '':id''], [''cart''], [''contact'']]"
  by (simp add: route_table_def path_segments_def split_on_def)

section \<open>The model against the router and the provider\<close>

text \<open>Shell's \<open>match_route\<close> is React Router's matcher on App's route table:
  for every path, matching it against \<open>/\<close>, \<open>/product/:id\<close>, \<open>/cart\<close> and
  \<open>/contact\<close> selects the page \<open>match_route\<close> names, with the \<open>id\<close> parameter
  it names, and no page where it names none.\<close>

theorem router_matches_route_table: "route_of (match_routes route_table path) = match_route path"
proof -
  have seg: "path_segments ''/'' = []" "path_segments ''/product/:id'' = [''product'', '':id'']"
    "path_segments ''/cart'' = [''cart'']" "path_segments ''/contact'' = [''contact'']"
    using route_table_segments by (simp_all add: route_table_def)
  show ?thesis
  proof (cases "path_segments path" rule: remdups_adj.cases)
    case 1
    then show ?thesis by (simp add: route_table_def seg match_route_def route_of_def home_element_def)
  next
    case (2 a)
    then show ?thesis
      by (simp add: route_table_def seg match_route_def route_of_def home_element_def to_lower_def ascii_lower_def)
  next
    case (3 a b rest)
    then show ?thesis
      by (cases rest) (simp_all add: route_table_def seg match_route_def route_of_def home_element_def
          to_lower_def ascii_lower_def)
  qed
qed

text \<open>No component of App throws \<open>useApp\<close>'s error: every component that
  calls \<open>useApp()\<close> (Header, the pages, the slider and the product cards) is
  rendered under \<open>AppProvider\<close>. Without it, the routes alone would throw six
  times.\<close>

theorem app_tree_context:
  "ctx_errors False app_tree = []
   \<and> ctx_errors False (Tag ''main'' [Routes route_table]) = replicate 6 useApp_error"
  by (simp add: app_tree_def route_table_def home_element_def footer_links_def useApp_def numeral_eq_Suc)

end
