(* ===== verification/Spec2Isabelle.thy ===== *)
theory Spec2Isabelle
  imports Cart Catalog Query Paging AppState Order Pages PWA Views Shell Loads Render
begin

text \<open>
  A verification development of the Gn store web client (the React application
  under src/src). It is a shallow embedding: each service, hook, reducer and
  handler is a HOL definition, and the theorems are about those definitions.

  \<^bold>\<open>The program and how its parts interact.\<close>
  A product catalogue is downloaded as CSV from a Google Sheet by
  \<open>GoogleSheetsService\<close>. The service caches it in memory and in localStorage, and
  falls back to the stored copy and then to random sample data.
  \<open>AppContext\<close> (a \<open>useReducer\<close> store) loads it, keeps the cart mirrored from
  \<open>CartService\<close> (which persists the cart in the same localStorage), and serves
  filtered, sorted and paged product lists. The pages (HomePage, ProductDetail,
  CartPage) and components (Header, FilterSort, ProductCard, Pagination,
  InstallPrompt) dispatch to it. Checkout hands the cart to WhatsApp as a
  prefilled link. \<open>App\<close> (App.jsx) routes the browser's path to a page, and
  places Header, InstallPrompt and the floating WhatsAppButton around it.

  \<^bold>\<open>Theories, and the code each one models.\<close>
  \<^item> \<open>Prelude\<close>: the product record, and the JavaScript runtime the services
    call. This covers string helpers, \<open>parseInt\<close>, \<open>JSON\<close>, UTF-8 literals and
    \<open>encodeURIComponent\<close>. \<open>localStorage\<close> is a record of slots with flags for
    denied access and a full quota, and \<open>get_item\<close>, \<open>set_item\<close> and
    \<open>remove_item\<close> return the exceptions they throw as \<open>Inl\<close>.
  \<^item> \<open>Cart\<close>: \<open>CartService\<close> (services/cartService.js), with its methods as
    functions on the cart and the storage. \<open>cart_apply\<close> is the operation each
    reducer action performs, and \<open>cart_wf\<close> is the spec's cart invariant.
  \<^item> \<open>Order\<close>: \<open>generateWhatsAppMessage\<close>, \<open>generateWhatsAppLink\<close> and
    \<open>sendOrderToWhatsApp\<close> of the same file, byte for byte. Percent-decoding is a
    reference definition.
  \<^item> \<open>Csv\<close>: \<open>parseCSVLine\<close> and \<open>csvToJson\<close> of
    services/googleSheetsService.js. Their loops are structural recursions.
  \<^item> \<open>Catalog\<close>: the rest of \<open>GoogleSheetsService\<close>: \<open>fetchProducts\<close> with both
    caches and the fallback chain, \<open>getFallbackData\<close>, \<open>getCategories\<close>,
    \<open>clearCache\<close> and \<open>setSheetId\<close>.
  \<^item> \<open>Query\<close>: the hook \<open>useProductFilter\<close>, and the context's
    \<open>getFilteredProducts\<close> and \<open>getProductsForCurrentPage\<close>.
  \<^item> \<open>Paging\<close>: the hook \<open>usePagination\<close>, including \<open>getPageRange\<close> and its
    loop as the terminating function \<open>range_loop\<close>. It also holds HomePage's own
    page strip and Pagination's visibility, and the inductive \<open>pager_reach\<close> for
    the hook driven by its buttons and by ProductGrid's reset.
  \<^item> \<open>AppState\<close>: AppContext's state, \<open>appReducer\<close> on a \<open>world\<close>, the loaders and
    the getters. The \<open>world\<close> is the cart service, the catalog service and the
    shared storage. The theory also holds the Header and HomePage handlers, and
    the inductive \<open>app_reach\<close> of the mounted application.
  \<^item> \<open>Pages\<close>: the click handlers of Header, ProductCard, ProductDetail,
    CartPage and FilterSort, with their local state (ProductDetail's quantity and
    \<open>imageError\<close>, FilterSort's copy of the filters, Header's search box and menu). \<open>page_step\<close> composes those
    of the four pages (Header's \<open>header_step\<close> stands alone), and
    \<open>action_event\<close> maps each dispatched action to an event of \<open>app_reach\<close>.
  \<^item> \<open>Views\<close>: what HomePage, CartPage, ProductDetail, ProductGrid,
    FeaturedProductsSlider, ProductCard, FilterSort and Header render, as values:
    the branch taken, titles and messages, the products or cart lines listed, the
    totals, badges, icons and pagers shown, and the links and buttons with the path
    or URL each one opens. HomePage's mount effect is \<open>home_mount_effect\<close>.
    \<open>panel_abs\<close> (in Pages) lifts FilterSort's local state to the context's.
  \<^item> \<open>Shell\<close>: App.jsx and WhatsAppButton.jsx. \<open>match_route\<close> is the route
    table as React Router matches it, \<open>app_screen\<close> the page a path shows, and
    \<open>app_start\<close> the first commit: HomePage's mount effect runs before the
    provider's (React runs children's effects first), then the loads complete.
  \<^item> \<open>Loads\<close>: the loads as the browser runs them. \<open>loadInitialData\<close> and
    \<open>fetchProducts\<close> are suspended at their \<open>await\<close>s (\<open>load_start\<close>,
    \<open>load_resume\<close>), so several loads interleave with each other and with the
    user's events in the step function \<open>conc_step\<close> and the inductive
    \<open>conc_reach\<close>. \<open>conc_start\<close> is App's first commit with its loads in
    flight.
  \<^item> \<open>Render\<close>: App's element tree (\<open>app_tree\<close>), React Router's matcher
    (\<open>match_routes\<close>) over App's route table, and \<open>useApp\<close> with the errors a
    render throws outside \<open>AppProvider\<close>.
  \<^item> \<open>PWA\<close>: \<open>usePWA\<close> and \<open>InstallPrompt\<close>, as the step function
    \<open>pwa_step\<close> and the inductive \<open>pwa_reach\<close>. \<open>installApp\<close> is split at its
    \<open>await\<close> so that browser events interleave.

  \<^bold>\<open>Effects, inputs and bounds.\<close>
  State is passed explicitly. In AppState each asynchronous load is one atomic
  event; Loads splits it at its awaits, and \<open>solo_load_refines\<close> shows the two
  agree on a load that runs alone. The theorems about concurrent loads in Loads
  hold for every order in which their awaits settle. The
  environment of a call is an explicit argument:
  \<^item> clock readings;
  \<^item> the network reply;
  \<^item> the stream of \<open>Math.random()\<close> draws;
  \<^item> the browser's install events;
  \<^item> the user's answer to the install prompt.
  Two library functions are parameters, and no theorem depends on their
  output: \<open>localeCompare\<close> (\<open>collate\<close>) and \<open>Intl.NumberFormat\<close> (\<open>fmt\<close>).
  \<open>Array.prototype.sort\<close> is a stable insertion sort. Every loop is a
  structural recursion or a \<open>function\<close> with a termination measure, so no
  definition needs fuel.

  \<^bold>\<open>What the theorems show.\<close>
  \<^item> The cart: it stays coherent with the service and durable in storage across
    the whole app, and it refines an abstract map from product id to quantity.
  \<^item> The order link: it carries exactly the displayed cart (the theorem below).
  \<^item> The CSV pipeline: its round trips and the values of its typed columns.
  \<^item> The catalogue cache: freshness, fallback and error behaviour.
  \<^item> The two query pipelines: where they agree and where they diverge.
  \<^item> Pagination: the hook's page strip is the first page, the last page and the
    pages within two of the current one, in order, with an ellipsis exactly at each
    gap; HomePage's props agree with the hook's; pages partition the list; and the
    page number stays in range.
  \<^item> The install prompt: its invariant, and that Install always hides it.
  \<^item> The views: HomePage's retry leaves the error screen whenever the storage
    can be read, HomePage's grid never shows a second pager, and CartPage's
    totals and Header's badge agree with the lines CartPage lists.
  \<^item> FilterSort's local state refines the context's filters and sort.
  \<^item> The loads: under every interleaving the cart stays coherent and durable;
    offline, a start at \<open>/\<close> never shows the stored catalogue; and a start at
    \<open>/\<close> downloads the sheet twice; and every load settles within two
    resumptions, after which the spinner is off.
  \<^item> The model itself: lemmas of Render check Shell's route table against
    React Router's matcher on App's routes, and that every \<open>useApp\<close> caller is
    rendered under \<open>AppProvider\<close>; \<open>solo_load_refines\<close> checks Loads against
    AppState.
  \<^item> The shell: a product card's link opens that product's page; the
    floating button and checkout open the same WhatsApp number; the start
    reaches a state of the running application, or fails as the code does.
  The code bugs found this way are stated as theorems, and PROJECT.json lists
  them. Among them: the stock filter reads a missing field, the page number is
  not reset on a category change, adds are not capped by stock, and the
  banner's dismiss button hides nothing. Opening the app at \<open>/\<close> clears the
  stored catalogue before any load can fall back to it, and with storage denied
  it crashes. The protector category has no icon, and the breadcrumb's category
  link shows the unfiltered home page.

  \<^bold>\<open>Not modelled.\<close>
  \<^item> JSX layout and styling, and the scroll effects of ProductDetail and
    HomePage's page change: they change no state of the application.
  \<^item> ContactPage and the footer's texts: static, with no handler (the footer's
    links are \<open>footer_links\<close>).
  \<^item> What \<open>formatPrice\<close> prints: it is \<open>Intl.NumberFormat\<close>, the
    parameter \<open>fmt\<close>.
  \<^item> React Router beyond App's four routes: the history stack and the
    navigation between two products, which no page offers.
  \<^item> Service-worker registration and console logging.
  \<^item> What \<open>Intl.NumberFormat\<close> and \<open>localeCompare\<close> print.
  \<^item> The browser side of \<open>window.open\<close>: the model returns the URL opened.
  \<^item> Sheets with columns beyond the eight of \<open>RANGE = 'Sheet1!A:H'\<close>: the code
    keeps them, and \<open>inStock\<close>, \<open>createdAt\<close> and \<open>views\<close> are read by the
    context and the hook; the model's products have the eight fields, and those
    reads see an absent field. An absent column of the eight reads as 0, '' or
    false, where the code's \<open>undefined\<close> would make a string method throw.
  \<^item> A stored cart or catalogue of another JSON shape than this application
    writes: the code returns it unchecked, the model rejects it.
  \<^item> Storage whose permissions or quota change over time: a storage's
    \<open>readable\<close> and \<open>writable\<close> flags are fixed, so the catalogue cache filling the
    quota that the cart shares is not expressed.
\<close>

lemma default_phone_digits: "replace_first (CHR ''+'') DEFAULT_PHONE = ''9647707409507''"
  by (simp add: DEFAULT_PHONE_def)

text \<open>C9: checking out from the cart page of the running application opens the
  WhatsApp link of the default number whose decoded text is the order message of
  exactly the cart the page displays (the context's cart), and opens nothing for an
  empty cart. The floating WhatsApp button App renders opens the same number, with a
  text that decodes to its greeting.\<close>

theorem checkout_sends_displayed_cart:
  assumes "app_reach st w"
  shows "(app_cart st = [] \<longrightarrow> cart_handleCheckout fmt st w = None)
         \<and> (app_cart st \<noteq> [] \<longrightarrow> (\<exists>t. cart_handleCheckout fmt st w = Some (''https://wa.me/9647707409507?text='' @ t)
               \<and> percent_decode t = generateWhatsAppMessage fmt (app_cart st)))
         \<and> (\<exists>u. whatsappButton_click APP_PHONE = ''https://wa.me/9647707409507?text='' @ u
               \<and> percent_decode u = WA_GREETING)"
proof -
  have "app_cart st = w_cart w" using app_reach_inv [OF assms] by (simp add: app_inv_def)
  then show ?thesis
    by (auto simp: cart_handleCheckout_def ctx_sendOrderToWhatsApp_def sendOrderToWhatsApp_def generateWhatsAppLink_def
        default_phone_digits percent_decode_encode whatsappButton_click_def APP_PHONE_def)
qed

theorem checkout_sends_displayed_cart_witness:
  "\<exists>t. cart_handleCheckout int_to_dec (fst (dispatch_all [ADD_TO_CART demo_product 1] (fst (mounted [] empty_storage)) (snd (mounted [] empty_storage))))
          (snd (dispatch_all [ADD_TO_CART demo_product 1] (fst (mounted [] empty_storage)) (snd (mounted [] empty_storage))))
        = Some (''https://wa.me/9647707409507?text='' @ t)
      \<and> percent_decode t = generateWhatsAppMessage int_to_dec
          (app_cart (fst (dispatch_all [ADD_TO_CART demo_product 1] (fst (mounted [] empty_storage)) (snd (mounted [] empty_storage)))))"
proof -
  let ?d = "dispatch_all [ADD_TO_CART demo_product 1] (fst (mounted [] empty_storage)) (snd (mounted [] empty_storage))"
  have r: "app_reach (fst ?d) (snd ?d)"
    by (rule dispatch_ui_reach [OF _ mounted_empty_reach, of "[ADD_TO_CART demo_product 1]"])
      (simp_all add: ui_action_def)
  have "app_cart (fst ?d) \<noteq> []"
    by (simp add: mounted_def provider_loadCart_def getCart_def cart_action_def addToCart_def add_line_def split: option.splits)
  then show ?thesis using checkout_sends_displayed_cart [OF r, of int_to_dec] by blast
qed

end
